theory Spec2Isabelle
  imports Main
begin

section \<open>JavaScript values and string helpers\<close>

text \<open>
  The invoices plugin is JavaScript. Strings are modelled as \<open>string\<close>, \<open>null\<close> and
  \<open>undefined\<close> as \<open>None\<close>, BigInt values and millisecond instants as \<open>int\<close>.
  A loosely typed upstream JSON scalar that the code passes to \<open>String\<close>, \<open>BigInt\<close> or a
  truthiness test is a \<open>jsval\<close>: an integer number or a string.
\<close>

datatype jsval = JNum int | JStr string

definition is_space :: "char \<Rightarrow> bool" where
  "is_space c = (c = CHR '' '' \<or> c = CHR 0x09 \<or> c = CHR 0x0A \<or> c = CHR 0x0B \<or> c = CHR 0x0C \<or> c = CHR 0x0D)"

text \<open>\<open>String.prototype.trim\<close> (ASCII white space).\<close>

definition trim :: "string \<Rightarrow> string" where
  "trim s = rev (dropWhile is_space (rev (dropWhile is_space s)))"

definition lower_char :: "char \<Rightarrow> char" where
  "lower_char c =
     (case map_of (zip ''ABCDEFGHIJKLMNOPQRSTUVWXYZ'' ''abcdefghijklmnopqrstuvwxyz'') c of
        Some l \<Rightarrow> l
      | None \<Rightarrow> c)"

text \<open>\<open>String.prototype.toLowerCase\<close> (ASCII letters).\<close>

definition toLowerCase :: "string \<Rightarrow> string" where
  "toLowerCase s = map lower_char s"

text \<open>Truthiness of a possibly null string, of a possibly null number and of a \<open>jsval\<close>.\<close>

definition truthy_str :: "string option \<Rightarrow> bool" where
  "truthy_str v = (case v of None \<Rightarrow> False | Some s \<Rightarrow> s \<noteq> [])"

definition truthy_num :: "int option \<Rightarrow> bool" where
  "truthy_num v = (case v of None \<Rightarrow> False | Some n \<Rightarrow> n \<noteq> 0)"

definition truthy_val :: "jsval option \<Rightarrow> bool" where
  "truthy_val v = (case v of None \<Rightarrow> False | Some (JNum n) \<Rightarrow> n \<noteq> 0 | Some (JStr s) \<Rightarrow> s \<noteq> [])"

subsection \<open>Decimal rendering and BigInt parsing\<close>

definition digit_char :: "int \<Rightarrow> char" where
  "digit_char d = ''0123456789'' ! nat d"

text \<open>Decimal digits of a non-negative integer (a negative argument is treated as \<open>0\<close>).\<close>

function show_nat :: "int \<Rightarrow> string" where
  "show_nat n = (if n < 10 then [digit_char (max 0 n)] else show_nat (n div 10) @ [digit_char (n mod 10)])"
  by pat_completeness auto
termination
  by (relation "measure nat") auto

declare show_nat.simps [simp del]

text \<open>\<open>String(n)\<close> of an integer number and \<open>BigInt.prototype.toString\<close>.\<close>

definition show_int :: "int \<Rightarrow> string" where
  "show_int i = (if i < 0 then CHR ''-'' # show_nat (- i) else show_nat i)"

definition digit_of :: "char \<Rightarrow> int option" where
  "digit_of c =
     map_of (zip ''0123456789abcdefABCDEF''
       [0, 1, 2, 3, 4, 5, 6, 7, 8, 9, 10, 11, 12, 13, 14, 15, 10, 11, 12, 13, 14, 15]) c"

fun parse_digits :: "int \<Rightarrow> int \<Rightarrow> string \<Rightarrow> int option" where
  "parse_digits base acc [] = Some acc"
| "parse_digits base acc (c # cs) =
     (case digit_of c of
        None \<Rightarrow> None
      | Some d \<Rightarrow> if d < base then parse_digits base (acc * base + d) cs else None)"

definition parse_nat :: "int \<Rightarrow> string \<Rightarrow> int option" where
  "parse_nat base s = (if s = [] then None else parse_digits base 0 s)"

text \<open>
  \<open>BigInt(s)\<close> on a string (StringToBigInt): surrounding white space is dropped, the
  empty string is \<open>0n\<close>, a decimal literal may carry a sign, a \<open>0x\<close>, \<open>0o\<close> or \<open>0b\<close>
  literal may not; anything else is a SyntaxError (\<open>None\<close>).
\<close>

definition StringToBigInt :: "string \<Rightarrow> int option" where
  "StringToBigInt s =
     (let str = trim s in
      if str = [] then Some 0
      else if take 2 str = ''0x'' \<or> take 2 str = ''0X'' then parse_nat 16 (drop 2 str)
      else if take 2 str = ''0o'' \<or> take 2 str = ''0O'' then parse_nat 8 (drop 2 str)
      else if take 2 str = ''0b'' \<or> take 2 str = ''0B'' then parse_nat 2 (drop 2 str)
      else if hd str = CHR ''-'' then map_option uminus (parse_nat 10 (tl str))
      else if hd str = CHR ''+'' then parse_nat 10 (tl str)
      else parse_nat 10 str)"

text \<open>\<open>String(v)\<close> and \<open>BigInt(v)\<close> of a JSON scalar.\<close>

definition js_String :: "jsval \<Rightarrow> string" where
  "js_String v = (case v of JNum n \<Rightarrow> show_int n | JStr s \<Rightarrow> s)"

definition toBigIntSafe :: "jsval option \<Rightarrow> int option" where
  "toBigIntSafe val = (case val of None \<Rightarrow> None | Some (JNum n) \<Rightarrow> Some n | Some (JStr s) \<Rightarrow> StringToBigInt s)"

definition maxBigInt :: "int option \<Rightarrow> int option \<Rightarrow> int option" where
  "maxBigInt a b = (case a of None \<Rightarrow> b | Some x \<Rightarrow> (case b of None \<Rightarrow> a | Some y \<Rightarrow> if x > y then a else b))"

definition minBigInt :: "int option \<Rightarrow> int option \<Rightarrow> int option" where
  "minBigInt a b = (case a of None \<Rightarrow> b | Some x \<Rightarrow> (case b of None \<Rightarrow> a | Some y \<Rightarrow> if x < y then a else b))"

section \<open>Addresses\<close>

text \<open>
  \<open>normalizeAddress\<close> calls \<open>Address.parse(str).toRawString()\<close> of the external package
  \<open>@ton/core\<close>, which is not part of the repository. It is taken as a parameter: the
  parser returns \<open>None\<close> when the package could not be loaded (\<open>Address = null\<close>) or when
  parsing throws; both cases fall back to the lower-cased text, as in the source.
\<close>

type_synonym address_parser = "string \<Rightarrow> string option"

definition normalizeAddress :: "address_parser \<Rightarrow> string option \<Rightarrow> string option" where
  "normalizeAddress parse addr =
     (case addr of
        None \<Rightarrow> None
      | Some a \<Rightarrow>
          (let str = trim a in
           if str = [] then None
           else (case parse str of Some raw \<Rightarrow> Some raw | None \<Rightarrow> Some (toLowerCase str))))"

definition sameAddress :: "address_parser \<Rightarrow> string option \<Rightarrow> string option \<Rightarrow> bool" where
  "sameAddress parse a b =
     (let na = normalizeAddress parse a; nb = normalizeAddress parse b
      in truthy_str na \<and> truthy_str nb \<and> na = nb)"

section \<open>The transfer cache\<close>

text \<open>
  ISO-8601 text, as \<open>toISOString\<close> writes it and \<open>Date.parse\<close> reads it back, is
  represented by the instant it denotes, in milliseconds since the epoch.
\<close>

type_synonym iso = int

text \<open>
  A row of table \<open>inv_transfers\<close>; the primary key is
  \<open>(wallet, event_id, action_index)\<close>. The table is the list of its rows in insertion
  order. Where the source passes a wallet that may be \<open>null\<close>, the model
  passes a \<open>string option\<close>.
\<close>

record transfer_row =
  tr_wallet :: string
  tr_event_id :: string
  tr_action_index :: nat
  tr_lt :: "string option"
  tr_timestamp :: "int option"
  tr_sender :: "string option"
  tr_recipient :: "string option"
  tr_amount_nano :: string
  tr_comment :: string
  tr_comment_tag :: "string option"
  tr_inserted_at :: iso

definition ts_key :: "transfer_row \<Rightarrow> int" where
  "ts_key r = (case tr_timestamp r of None \<Rightarrow> 0 | Some t \<Rightarrow> t)"

text \<open>
  \<open>stmtTransferQuery\<close>: \<open>SELECT * FROM inv_transfers WHERE wallet = ? AND comment_tag = ?
  AND timestamp IS NOT NULL AND timestamp >= ? AND timestamp <= ? ORDER BY timestamp ASC
  LIMIT ?\<close>. A comparison with a NULL parameter selects no row. Rows with equal
  timestamps keep their insertion order (SQL leaves that order open).
\<close>

definition row_selected :: "string option \<Rightarrow> string option \<Rightarrow> int option \<Rightarrow> int option \<Rightarrow> transfer_row \<Rightarrow> bool" where
  "row_selected wallet tag startMs endMs r =
     ((case wallet of None \<Rightarrow> False | Some wl \<Rightarrow> tr_wallet r = wl) \<and>
      (case tag of None \<Rightarrow> False | Some tg \<Rightarrow> tr_comment_tag r = Some tg) \<and>
      (case tr_timestamp r of
         None \<Rightarrow> False
       | Some t \<Rightarrow>
           (case startMs of None \<Rightarrow> False | Some s \<Rightarrow> s \<le> t) \<and>
           (case endMs of None \<Rightarrow> False | Some e \<Rightarrow> t \<le> e)))"

definition stmtTransferQuery ::
  "transfer_row list \<Rightarrow> string option \<Rightarrow> string option \<Rightarrow> int option \<Rightarrow> int option \<Rightarrow> nat \<Rightarrow> transfer_row list" where
  "stmtTransferQuery tbl wallet tag startMs endMs lim =
     take lim (sort_key ts_key (filter (row_selected wallet tag startMs endMs) tbl))"

text \<open>The \<open>for\<close> loop of \<open>queryCachedTransfer\<close> over the selected rows.\<close>

fun scan_rows ::
  "address_parser \<Rightarrow> int \<Rightarrow> string option \<Rightarrow> bool \<Rightarrow> transfer_row list \<Rightarrow> transfer_row option" where
  "scan_rows parse minAmountNano expectedSender strictSender [] = None"
| "scan_rows parse minAmountNano expectedSender strictSender (row # rows) =
     (case toBigIntSafe (Some (JStr (tr_amount_nano row))) of
        None \<Rightarrow> scan_rows parse minAmountNano expectedSender strictSender rows
      | Some amountVal \<Rightarrow>
          if amountVal < minAmountNano
          then scan_rows parse minAmountNano expectedSender strictSender rows
          else if truthy_str expectedSender \<and> strictSender \<and>
                  \<not> sameAddress parse (tr_sender row) expectedSender
          then scan_rows parse minAmountNano expectedSender strictSender rows
          else Some row)"

definition queryCachedTransfer ::
  "address_parser \<Rightarrow> transfer_row list \<Rightarrow> string option \<Rightarrow> string option \<Rightarrow> int option \<Rightarrow> int option \<Rightarrow>
   int \<Rightarrow> string option \<Rightarrow> bool \<Rightarrow> transfer_row option" where
  "queryCachedTransfer parse tbl wallet tag startMs endMs minAmountNano expectedSender strictSender =
     scan_rows parse minAmountNano expectedSender strictSender
       (stmtTransferQuery tbl wallet tag startMs endMs 50)"

text \<open>
  The constraints of a match as the specification words them: the tag, the timestamp
  inside the window, the amount at least the minimum and, in strict mode with an expected
  sender, the sender equal to it (as addresses, that is after normalisation).
\<close>

definition qualifies ::
  "address_parser \<Rightarrow> string \<Rightarrow> string \<Rightarrow> int \<Rightarrow> int \<Rightarrow> int \<Rightarrow> string option \<Rightarrow> bool \<Rightarrow> transfer_row \<Rightarrow> bool" where
  "qualifies parse wallet tag startMs endMs minAmountNano expectedSender strictSender r =
     (tr_wallet r = wallet \<and> tr_comment_tag r = Some tag \<and>
      (case tr_timestamp r of None \<Rightarrow> False | Some t \<Rightarrow> startMs \<le> t \<and> t \<le> endMs) \<and>
      (case toBigIntSafe (Some (JStr (tr_amount_nano r))) of None \<Rightarrow> False | Some a \<Rightarrow> minAmountNano \<le> a) \<and>
      (if strictSender \<and> truthy_str expectedSender
       then sameAddress parse (tr_sender r) expectedSender else True))"

text \<open>The test of the loop body of \<open>queryCachedTransfer\<close> as one predicate.\<close>

definition row_accepted :: "address_parser \<Rightarrow> int \<Rightarrow> string option \<Rightarrow> bool \<Rightarrow> transfer_row \<Rightarrow> bool" where
  "row_accepted parse minAmountNano expectedSender strictSender row =
     (case toBigIntSafe (Some (JStr (tr_amount_nano row))) of
        None \<Rightarrow> False
      | Some amountVal \<Rightarrow>
          \<not> amountVal < minAmountNano \<and>
          \<not> (truthy_str expectedSender \<and> strictSender \<and>
             \<not> sameAddress parse (tr_sender row) expectedSender))"

section \<open>Upstream events and ingestion\<close>

text \<open>
  An event of the indexing API. \<open>Number(ts)\<close> of a time field is either a finite number
  (an integer count of seconds) or not (\<open>NaN\<close>, an infinity). An action is a native
  transfer with its payload, or anything else (another type, or a missing payload).
  The sender and recipient are the values of \<open>t.sender?.address ?? t.sender ?? null\<close>
  and \<open>t.recipient?.address ?? t.recipient ?? null\<close>.
\<close>

datatype jsnum = Finite int | NotFinite

record ton_transfer =
  tt_recipient :: "string option"
  tt_sender :: "string option"
  tt_amount :: "jsval option"
  tt_comment :: "string option"

datatype action = TonTransfer ton_transfer | OtherAction

record raw_event =
  ev_event_id :: "string option"
  ev_id :: "string option"
  ev_lt :: "jsval option"
  ev_event_lt :: "jsval option"
  ev_timestamp :: "jsnum option"
  ev_utime :: "jsnum option"
  ev_time :: "jsnum option"
  ev_actions :: "action list option"

text \<open>The operator \<open>a ?? b\<close>.\<close>

definition nullish :: "'a option \<Rightarrow> 'a option \<Rightarrow> 'a option" where
  "nullish a b = (case a of None \<Rightarrow> b | Some x \<Rightarrow> Some x)"

definition commentTag :: "string \<Rightarrow> string option" where
  "commentTag comment =
     (if comment = [] then None
      else (let head = trim (takeWhile (\<lambda>c. c \<noteq> CHR ''|'') comment)
            in if head = [] then None else Some head))"

definition eventTimeMs :: "jsnum option \<Rightarrow> int option" where
  "eventTimeMs ts = (case ts of None \<Rightarrow> None | Some NotFinite \<Rightarrow> None | Some (Finite n) \<Rightarrow> Some (n * 1000))"

definition tr_key :: "transfer_row \<Rightarrow> string \<times> string \<times> nat" where
  "tr_key r = (tr_wallet r, tr_event_id r, tr_action_index r)"

definition keys_of :: "transfer_row list \<Rightarrow> (string \<times> string \<times> nat) set" where
  "keys_of tbl = set (map tr_key tbl)"

text \<open>\<open>stmtTransferInsert\<close>: \<open>INSERT OR IGNORE\<close> on the primary key.\<close>

definition stmtTransferInsert :: "transfer_row list \<Rightarrow> transfer_row \<Rightarrow> transfer_row list" where
  "stmtTransferInsert tbl row = (if tr_key row \<in> set (map tr_key tbl) then tbl else tbl @ [row])"

text \<open>
  The row that \<open>ingestEvents\<close> hands to \<open>stmtTransferInsert\<close> for the transfer \<open>t\<close>
  at index \<open>i\<close> of an event. It is only built when \<open>sameAddress(recipient, wallet)\<close>
  holds, which a \<open>null\<close> wallet never satisfies, so the wallet of a row is always a
  string.
\<close>

definition transfer_row_for ::
  "address_parser \<Rightarrow> string option \<Rightarrow> iso \<Rightarrow> string option \<Rightarrow> jsval option \<Rightarrow> int option \<Rightarrow>
   nat \<Rightarrow> ton_transfer \<Rightarrow> transfer_row" where
  "transfer_row_for parse wallet nowIso eventId ltVal tsMs i t =
     (let recipient = tt_recipient t;
          sender = tt_sender t;
          amount = (case tt_amount t of None \<Rightarrow> JStr ''0'' | Some v \<Rightarrow> v);
          comment = (case tt_comment t of None \<Rightarrow> [] | Some c \<Rightarrow> c);
          tag = commentTag comment
      in \<lparr>tr_wallet = (case wallet of None \<Rightarrow> [] | Some wl \<Rightarrow> wl),
          tr_event_id =
            (case eventId of
               Some e \<Rightarrow> e
             | None \<Rightarrow> (case ltVal of None \<Rightarrow> ''ev'' | Some v \<Rightarrow> js_String v) @ ''_'' @ show_int (int i)),
          tr_action_index = i,
          tr_lt = (if truthy_val ltVal then map_option js_String ltVal else None),
          tr_timestamp = tsMs,
          tr_sender = normalizeAddress parse sender,
          tr_recipient = normalizeAddress parse recipient,
          tr_amount_nano = js_String amount,
          tr_comment = comment,
          tr_comment_tag = tag,
          tr_inserted_at = nowIso\<rparr>)"

text \<open>The inner loop of \<open>ingestEvents\<close> over the actions of one event, from index \<open>i\<close>.\<close>

fun ingest_actions ::
  "address_parser \<Rightarrow> string option \<Rightarrow> iso \<Rightarrow> string option \<Rightarrow> jsval option \<Rightarrow> int option \<Rightarrow>
   nat \<Rightarrow> action list \<Rightarrow> transfer_row list \<Rightarrow> transfer_row list" where
  "ingest_actions parse wallet nowIso eventId ltVal tsMs i [] tbl = tbl"
| "ingest_actions parse wallet nowIso eventId ltVal tsMs i (a # acts) tbl =
     (case a of
        OtherAction \<Rightarrow> ingest_actions parse wallet nowIso eventId ltVal tsMs (Suc i) acts tbl
      | TonTransfer t \<Rightarrow>
          if \<not> sameAddress parse (tt_recipient t) wallet
          then ingest_actions parse wallet nowIso eventId ltVal tsMs (Suc i) acts tbl
          else ingest_actions parse wallet nowIso eventId ltVal tsMs (Suc i) acts
                 (stmtTransferInsert tbl
                    (transfer_row_for parse wallet nowIso eventId ltVal tsMs i t)))"

text \<open>The running minima and maxima of \<open>ingestEvents\<close>, and the statistics it returns.\<close>

record ingest_acc =
  minLt :: "int option"
  maxLt :: "int option"
  minTs :: "int option"
  maxTs :: "int option"

record sync_stats =
  min_lt :: "string option"
  max_lt :: "string option"
  min_ts :: "int option"
  max_ts :: "int option"

fun ingest_loop ::
  "address_parser \<Rightarrow> string option \<Rightarrow> iso \<Rightarrow> raw_event list \<Rightarrow> ingest_acc \<Rightarrow> transfer_row list \<Rightarrow>
   ingest_acc \<times> transfer_row list" where
  "ingest_loop parse wallet nowIso [] acc tbl = (acc, tbl)"
| "ingest_loop parse wallet nowIso (ev # evs) acc tbl =
     (let eventId = nullish (ev_event_id ev) (ev_id ev);
          ltVal = nullish (ev_lt ev) (ev_event_lt ev);
          tsMs = eventTimeMs (nullish (ev_timestamp ev) (nullish (ev_utime ev) (ev_time ev)));
          acc1 = (case tsMs of
                    None \<Rightarrow> acc
                  | Some t \<Rightarrow>
                      acc\<lparr>minTs := (case minTs acc of None \<Rightarrow> Some t | Some m \<Rightarrow> Some (min m t)),
                          maxTs := (case maxTs acc of None \<Rightarrow> Some t | Some m \<Rightarrow> Some (max m t))\<rparr>);
          ltBig = toBigIntSafe ltVal;
          acc2 = (case ltBig of
                    None \<Rightarrow> acc1
                  | Some l \<Rightarrow> acc1\<lparr>minLt := minBigInt (minLt acc1) ltBig,
                                   maxLt := maxBigInt (maxLt acc1) ltBig\<rparr>);
          actions = (case ev_actions ev of None \<Rightarrow> [] | Some acts \<Rightarrow> acts)
      in ingest_loop parse wallet nowIso evs acc2
           (ingest_actions parse wallet nowIso eventId ltVal tsMs 0 actions tbl))"

definition ingestEvents ::
  "address_parser \<Rightarrow> transfer_row list \<Rightarrow> string option \<Rightarrow> raw_event list \<Rightarrow> iso \<Rightarrow>
   sync_stats \<times> transfer_row list" where
  "ingestEvents parse tbl wallet events nowIso =
     (case ingest_loop parse wallet nowIso events
             \<lparr>minLt = None, maxLt = None, minTs = None, maxTs = None\<rparr> tbl of
        (acc, tbl') \<Rightarrow>
          (\<lparr>min_lt = map_option show_int (minLt acc),
            max_lt = map_option show_int (maxLt acc),
            min_ts = minTs acc,
            max_ts = maxTs acc\<rparr>, tbl'))"

section \<open>The database\<close>

text \<open>
  Tables with a single-column primary key are maps from the key to the other columns.
\<close>

record agent_row =
  ag_wallet_address :: "string option"
  ag_status :: string
  ag_challenge_tag :: "string option"
  ag_challenge_amount_ton :: "string option"
  ag_challenge_amount_nano :: "string option"
  ag_challenge_created_at :: "iso option"
  ag_challenge_expires_at :: "iso option"
  ag_verified_at :: "iso option"
  ag_proof_event_id :: "string option"
  ag_proof_sender_wallet :: "string option"
  ag_updated_at :: iso

record invoice_row =
  iv_created_at :: iso
  iv_expires_at :: "iso option"
  iv_amount_ton :: string
  iv_amount_nano :: string
  iv_recipient_wallet :: string
  iv_expected_sender_wallet :: "string option"
  iv_payer_agent :: "string option"
  iv_payer_agent_verified :: "int option"
  iv_description :: "string option"
  iv_comment :: string
  iv_status :: string
  iv_strict_sender :: "int option"
  iv_paid_at :: "iso option"
  iv_tx_event_id :: "string option"
  iv_tx_sender_wallet :: "string option"
  iv_tx_amount_nano :: "string option"
  iv_tx_amount_ton :: "string option"
  iv_last_checked_at :: "iso option"

record rate_row =
  window_start :: int
  count :: int

record wallet_sync_row =
  ws_last_sync_at :: "int option"
  ws_max_lt :: "string option"
  ws_min_lt :: "string option"
  ws_max_ts :: "int option"
  ws_min_ts :: "int option"

record database =
  inv_agents :: "string \<rightharpoonup> agent_row"
  inv_invoices :: "string \<rightharpoonup> invoice_row"
  inv_rate_limits :: "string \<rightharpoonup> rate_row"
  inv_wallet_sync :: "string \<rightharpoonup> wallet_sync_row"
  inv_transfers :: "transfer_row list"

subsection \<open>Rate limiter\<close>

record rate_cfg =
  windowMs :: int
  rate_max :: int

datatype rate_result = Allowed int | Rejected int

text \<open>
  \<open>checkRateLimit\<close>: \<open>Allowed remaining\<close> or \<open>Rejected retryAfterMs\<close>; \<open>now\<close> is the
  value of \<open>Date.now()\<close>, \<open>key\<close> is \<open>`${toolName}:${senderId}`\<close>.
\<close>

definition rate_key :: "string \<Rightarrow> int \<Rightarrow> string" where
  "rate_key toolName senderId = toolName @ '':'' @ show_int senderId"

definition checkRateLimit ::
  "database \<Rightarrow> int \<Rightarrow> int \<Rightarrow> string \<Rightarrow> rate_cfg \<Rightarrow> rate_result \<times> database" where
  "checkRateLimit db now senderId toolName cfg =
     (let key = rate_key toolName senderId in
      case inv_rate_limits db key of
        None \<Rightarrow>
          (Allowed (rate_max cfg - 1),
           db\<lparr>inv_rate_limits := (inv_rate_limits db)(key \<mapsto> \<lparr>window_start = now, count = 1\<rparr>)\<rparr>)
      | Some row \<Rightarrow>
          if now - window_start row \<ge> windowMs cfg
          then (Allowed (rate_max cfg - 1),
                db\<lparr>inv_rate_limits := (inv_rate_limits db)(key \<mapsto> \<lparr>window_start = now, count = 1\<rparr>)\<rparr>)
          else if count row \<ge> rate_max cfg
          then (Rejected (windowMs cfg - (now - window_start row)), db)
          else (Allowed (rate_max cfg - count row - 1),
                db\<lparr>inv_rate_limits := (inv_rate_limits db)
                      (key \<mapsto> \<lparr>window_start = window_start row, count = count row + 1\<rparr>)\<rparr>))"

subsection \<open>Wallet sync watermark\<close>

text \<open>
  \<open>WHERE wallet = ?\<close> selects no row for a \<open>null\<close> wallet, and the row that the upsert
  then writes under a NULL key is never read by any statement, so it is not represented.
\<close>

definition getWalletSync :: "database \<Rightarrow> string option \<Rightarrow> wallet_sync_row option" where
  "getWalletSync db wallet = (case wallet of None \<Rightarrow> None | Some wl \<Rightarrow> inv_wallet_sync db wl)"

definition updateWalletSync :: "database \<Rightarrow> int \<Rightarrow> string option \<Rightarrow> sync_stats \<Rightarrow> database" where
  "updateWalletSync db now wallet stats =
     (let current = getWalletSync db wallet;
          maxLt0 = (case current of None \<Rightarrow> None | Some c \<Rightarrow> ws_max_lt c);
          minLt0 = (case current of None \<Rightarrow> None | Some c \<Rightarrow> ws_min_lt c);
          maxTs0 = (case current of None \<Rightarrow> None | Some c \<Rightarrow> ws_max_ts c);
          minTs0 = (case current of None \<Rightarrow> None | Some c \<Rightarrow> ws_min_ts c);
          maxLt1 = (if truthy_str (max_lt stats) then max_lt stats else maxLt0);
          minLt1 = (if truthy_str (min_lt stats) then min_lt stats else minLt0);
          maxTs1 = (if truthy_num (max_ts stats) then max_ts stats else maxTs0);
          minTs1 = (if truthy_num (min_ts stats) then min_ts stats else minTs0)
      in case wallet of
           None \<Rightarrow> db
         | Some wl \<Rightarrow>
             db\<lparr>inv_wallet_sync := (inv_wallet_sync db)
                  (wl \<mapsto> \<lparr>ws_last_sync_at = Some now, ws_max_lt = maxLt1, ws_min_lt = minLt1,
                             ws_max_ts = maxTs1, ws_min_ts = minTs1\<rparr>)\<rparr>)"

section \<open>The event source\<close>

text \<open>
  The upstream API is scripted: the world holds the outcomes of the HTTP attempts still
  to come, each with the time that passes until it is known (throttle waits and back-off
  delays included). The request parameters (the path, \<open>limit\<close>, \<open>sort_order\<close>,
  \<open>after_lt\<close>, \<open>before_lt\<close>, \<open>start_date\<close>, \<open>end_date\<close>) only influence what the
  upstream answers, so they do not appear. An outcome is a successful JSON body with its \<open>events\<close> field, an
  HTTP error status with the response text, or a failure without a status (a timeout, a
  network error, invalid JSON). With the script used up the request fails without a
  status.
\<close>

datatype js_error = JsError (err_status: "int option") (err_message: string)

datatype upstream = Events "raw_event list option" | HttpStatus int string | NetworkError string

record world =
  db :: database
  net :: "(nat \<times> upstream) list"
  clock :: int

definition tonapiFetch :: "world \<Rightarrow> (js_error + raw_event list option) \<times> world" where
  "tonapiFetch w =
     (case net w of
        [] \<Rightarrow> (Inl (JsError None ''fetch failed''), w)
      | (d, r) # rest \<Rightarrow>
          (let w' = w\<lparr>net := rest, clock := clock w + int d\<rparr> in
           case r of
             Events evs \<Rightarrow> (Inr evs, w')
           | HttpStatus st body \<Rightarrow>
               (Inl (JsError (Some st) (''TONAPI error: '' @ show_int st @ '' '' @ take 200 body)), w')
           | NetworkError msg \<Rightarrow> (Inl (JsError None msg), w')))"

definition retryable :: "js_error \<Rightarrow> bool" where
  "retryable err =
     (let status = err_status err in
      status = Some 429 \<or> status = Some 500 \<or> status = Some 502 \<or> status = Some 503 \<or>
      status = Some 504 \<or> status = Some 522 \<or> status = None)"

text \<open>
  The \<open>while\<close> loop of \<open>tonapiFetchWithRetry\<close>; \<open>throw lastErr\<close> after a loop that never
  ran throws \<open>null\<close>.
\<close>

function retry_loop ::
  "nat \<Rightarrow> nat \<Rightarrow> js_error option \<Rightarrow> world \<Rightarrow> (js_error + raw_event list option) \<times> world" where
  "retry_loop maxAttempts attempt lastErr w =
     (if attempt < maxAttempts
      then (case tonapiFetch w of
              (Inr data, w') \<Rightarrow> (Inr data, w')
            | (Inl err, w') \<Rightarrow>
                if \<not> retryable err \<or> attempt + 1 \<ge> maxAttempts
                then (Inl err, w')
                else retry_loop maxAttempts (attempt + 1) (Some err) w')
      else (Inl (case lastErr of None \<Rightarrow> JsError None ''null'' | Some e \<Rightarrow> e), w))"
  by pat_completeness auto
termination
  by (relation "measure (\<lambda>(m, a, l, w). m - a)") auto

declare retry_loop.simps [simp del]

definition tonapiFetchWithRetry :: "world \<Rightarrow> (js_error + raw_event list option) \<times> world" where
  "tonapiFetchWithRetry w = retry_loop 3 0 None w"

section \<open>The sync engine\<close>

definition EVENT_PAGE_LIMIT :: nat where "EVENT_PAGE_LIMIT = 50"
definition EVENT_MAX_PAGES_NEW :: nat where "EVENT_MAX_PAGES_NEW = 3"
definition EVENT_MAX_PAGES_OLD :: nat where "EVENT_MAX_PAGES_OLD = 6"
definition SYNC_MIN_INTERVAL_MS :: int where "SYNC_MIN_INTERVAL_MS = 3000"

text \<open>
  The four \<open>if\<close> blocks that fold the statistics of a page into the statistics of the
  run; \<open>syncNewEvents\<close> and \<open>syncOlderEvents\<close> contain the same four. \<open>String(null)\<close> is
  the text \<open>null\<close>.
\<close>

definition show_big :: "int option \<Rightarrow> string" where
  "show_big v = (case v of None \<Rightarrow> ''null'' | Some n \<Rightarrow> show_int n)"

definition big_of :: "string option \<Rightarrow> int option" where
  "big_of s = toBigIntSafe (map_option JStr s)"

definition merge_page_stats :: "sync_stats \<Rightarrow> sync_stats \<Rightarrow> sync_stats" where
  "merge_page_stats stats pageStats =
     (let s1 = (if truthy_str (max_lt pageStats)
                then stats\<lparr>max_lt :=
                       (if truthy_str (max_lt stats)
                        then Some (show_big (maxBigInt (big_of (max_lt stats)) (big_of (max_lt pageStats))))
                        else max_lt pageStats)\<rparr>
                else stats);
          s2 = (if truthy_str (min_lt pageStats)
                then s1\<lparr>min_lt :=
                       (if truthy_str (min_lt s1)
                        then Some (show_big (minBigInt (big_of (min_lt s1)) (big_of (min_lt pageStats))))
                        else min_lt pageStats)\<rparr>
                else s1);
          s3 = (case max_ts pageStats of
                  None \<Rightarrow> s2
                | Some p \<Rightarrow>
                    s2\<lparr>max_ts := (case max_ts s2 of
                                    None \<Rightarrow> Some p
                                  | Some m \<Rightarrow> if m \<noteq> 0 then Some (max m p) else Some p)\<rparr>);
          s4 = (case min_ts pageStats of
                  None \<Rightarrow> s3
                | Some p \<Rightarrow>
                    s3\<lparr>min_ts := (case min_ts s3 of
                                    None \<Rightarrow> Some p
                                  | Some m \<Rightarrow> if m \<noteq> 0 then Some (min m p) else Some p)\<rparr>)
      in s4)"

definition empty_stats :: sync_stats where
  "empty_stats = \<lparr>min_lt = None, max_lt = None, min_ts = None, max_ts = None\<rparr>"

text \<open>One page: fetch and ingest. Used by both loops.\<close>

definition ingest_page :: "address_parser \<Rightarrow> string option \<Rightarrow> raw_event list \<Rightarrow> world \<Rightarrow> sync_stats \<times> world" where
  "ingest_page parse wallet events w =
     (case ingestEvents parse (inv_transfers (db w)) wallet events (clock w) of
        (pageStats, tbl') \<Rightarrow> (pageStats, w\<lparr>db := (db w)\<lparr>inv_transfers := tbl'\<rparr>\<rparr>))"

text \<open>The \<open>while\<close> loop of \<open>syncNewEvents\<close>; it returns \<open>anyEvents\<close> and \<open>stats\<close>.\<close>

function syncNew_loop ::
  "address_parser \<Rightarrow> string option \<Rightarrow> nat \<Rightarrow> string option \<Rightarrow> nat \<Rightarrow> sync_stats \<Rightarrow> world \<Rightarrow>
   (js_error + nat \<times> sync_stats) \<times> world" where
  "syncNew_loop parse wallet page afterLt anyEvents stats w =
     (if page < EVENT_MAX_PAGES_NEW
      then (case tonapiFetchWithRetry w of
              (Inl err, w1) \<Rightarrow> (Inl err, w1)
            | (Inr data, w1) \<Rightarrow>
                (let events = (case data of None \<Rightarrow> [] | Some es \<Rightarrow> es) in
                 if length events = 0 then (Inr (anyEvents, stats), w1)
                 else
                   (let anyEvents' = anyEvents + length events;
                        pageStats = fst (ingest_page parse wallet events w1);
                        w2 = snd (ingest_page parse wallet events w1);
                        afterLt' = (if truthy_str (max_lt pageStats) then max_lt pageStats else afterLt);
                        stats' = merge_page_stats stats pageStats
                    in if \<not> truthy_str afterLt' then (Inr (anyEvents', stats'), w2)
                       else if length events < EVENT_PAGE_LIMIT then (Inr (anyEvents', stats'), w2)
                       else syncNew_loop parse wallet (page + 1) afterLt' anyEvents' stats' w2)))
      else (Inr (anyEvents, stats), w))"
  by pat_completeness auto
termination
  by (relation "measure (\<lambda>(p, wl, page, a, n, s, w). EVENT_MAX_PAGES_NEW - page)") auto

declare syncNew_loop.simps [simp del]

definition syncNewEvents ::
  "address_parser \<Rightarrow> string option \<Rightarrow> world \<Rightarrow> (js_error + nat) \<times> world" where
  "syncNewEvents parse wallet w =
     (let sync = getWalletSync (db w) wallet;
          afterLt = (case sync of None \<Rightarrow> None | Some s \<Rightarrow> ws_max_lt s)
      in case syncNew_loop parse wallet 0 afterLt 0 empty_stats w of
           (Inl err, w') \<Rightarrow> (Inl err, w')
         | (Inr (anyEvents, stats), w') \<Rightarrow>
             (Inr anyEvents,
              if anyEvents > 0 then w'\<lparr>db := updateWalletSync (db w') (clock w') wallet stats\<rparr> else w'))"

text \<open>The \<open>while\<close> loop of \<open>syncOlderEvents\<close>.\<close>

function syncOld_loop ::
  "address_parser \<Rightarrow> string option \<Rightarrow> int option \<Rightarrow> nat \<Rightarrow> string option \<Rightarrow> nat \<Rightarrow> sync_stats \<Rightarrow> world \<Rightarrow>
   (js_error + nat \<times> sync_stats) \<times> world" where
  "syncOld_loop parse wallet startMs page beforeLt anyEvents stats w =
     (if page < EVENT_MAX_PAGES_OLD
      then (case tonapiFetchWithRetry w of
              (Inl err, w1) \<Rightarrow> (Inl err, w1)
            | (Inr data, w1) \<Rightarrow>
                (let events = (case data of None \<Rightarrow> [] | Some es \<Rightarrow> es) in
                 if length events = 0 then (Inr (anyEvents, stats), w1)
                 else
                   (let anyEvents' = anyEvents + length events;
                        pageStats = fst (ingest_page parse wallet events w1);
                        w2 = snd (ingest_page parse wallet events w1);
                        beforeLt' = (if truthy_str (min_lt pageStats) then min_lt pageStats else beforeLt);
                        stats' = merge_page_stats stats pageStats
                    in if (case min_ts pageStats of
                             None \<Rightarrow> False
                           | Some m \<Rightarrow>
                               m \<noteq> 0 \<and> (case startMs of None \<Rightarrow> False | Some s \<Rightarrow> s \<noteq> 0 \<and> m \<le> s))
                       then (Inr (anyEvents', stats'), w2)
                       else if length events < EVENT_PAGE_LIMIT then (Inr (anyEvents', stats'), w2)
                       else if \<not> truthy_str beforeLt' then (Inr (anyEvents', stats'), w2)
                       else syncOld_loop parse wallet startMs (page + 1) beforeLt' anyEvents' stats' w2)))
      else (Inr (anyEvents, stats), w))"
  by pat_completeness auto
termination
  by (relation "measure (\<lambda>(p, wl, s, page, b, n, st, w). EVENT_MAX_PAGES_OLD - page)") auto

declare syncOld_loop.simps [simp del]

definition syncOlderEvents ::
  "address_parser \<Rightarrow> string option \<Rightarrow> int option \<Rightarrow> world \<Rightarrow> (js_error + nat) \<times> world" where
  "syncOlderEvents parse wallet startMs w =
     (let sync = getWalletSync (db w) wallet;
          beforeLt = (case sync of None \<Rightarrow> None | Some s \<Rightarrow> ws_min_lt s)
      in if \<not> truthy_str beforeLt then (Inr 0, w)
         else (case syncOld_loop parse wallet startMs 0 beforeLt 0 empty_stats w of
                 (Inl err, w') \<Rightarrow> (Inl err, w')
               | (Inr (anyEvents, stats), w') \<Rightarrow>
                   (Inr anyEvents,
                    if anyEvents > 0 then w'\<lparr>db := updateWalletSync (db w') (clock w') wallet stats\<rparr>
                    else w')))"

section \<open>The matcher\<close>

record criteria =
  c_tag :: "string option"
  c_minAmountNano :: int
  c_expectedSender :: "string option"
  c_strictSender :: bool
  c_startMs :: "int option"
  c_endMs :: "int option"

definition query_criteria :: "address_parser \<Rightarrow> database \<Rightarrow> string option \<Rightarrow> criteria \<Rightarrow> transfer_row option" where
  "query_criteria parse d wallet c =
     queryCachedTransfer parse (inv_transfers d) wallet (c_tag c) (c_startMs c) (c_endMs c)
       (c_minAmountNano c) (c_expectedSender c) (c_strictSender c)"

text \<open>The test \<open>sync?.last_sync_at && now - sync.last_sync_at < SYNC_MIN_INTERVAL_MS\<close>.\<close>

definition sync_throttled :: "wallet_sync_row option \<Rightarrow> int \<Rightarrow> bool" where
  "sync_throttled sync now =
     (case sync of
        None \<Rightarrow> False
      | Some s \<Rightarrow>
          (case ws_last_sync_at s of
             None \<Rightarrow> False
           | Some l \<Rightarrow> l \<noteq> 0 \<and> now - l < SYNC_MIN_INTERVAL_MS))"

text \<open>\<open>findTransferWithSync\<close> returns the match (or \<open>null\<close>) and its discovery source.\<close>

definition findTransferWithSync ::
  "address_parser \<Rightarrow> string option \<Rightarrow> criteria \<Rightarrow> world \<Rightarrow>
   (js_error + transfer_row option \<times> string) \<times> world" where
  "findTransferWithSync parse wallet c w =
     (case query_criteria parse (db w) wallet c of
        Some cached \<Rightarrow> (Inr (Some cached, ''cache''), w)
      | None \<Rightarrow>
          (let sync = getWalletSync (db w) wallet;
               now = clock w
           in if sync_throttled sync now
              then (Inr (None, ''throttled''), w)
              else
                (case syncNewEvents parse wallet w of
                   (Inl err, w1) \<Rightarrow> (Inl err, w1)
                 | (Inr n, w1) \<Rightarrow>
                     (case query_criteria parse (db w1) wallet c of
                        Some cachedAfterNew \<Rightarrow> (Inr (Some cachedAfterNew, ''sync_new''), w1)
                      | None \<Rightarrow>
                          (let syncAfter = getWalletSync (db w1) wallet;
                               shouldFetchOlder =
                                 (case syncAfter of
                                    None \<Rightarrow> True
                                  | Some s \<Rightarrow>
                                      (case ws_min_ts s of
                                         None \<Rightarrow> True
                                       | Some m \<Rightarrow>
                                           if m = 0 then True
                                           else (case c_startMs c of
                                                   None \<Rightarrow> False
                                                 | Some st \<Rightarrow> st \<noteq> 0 \<and> m > st)))
                           in case (if shouldFetchOlder then syncOlderEvents parse wallet (c_startMs c) w1
                                    else (Inr 0, w1)) of
                                (Inl err, w2) \<Rightarrow> (Inl err, w2)
                              | (Inr m, w2) \<Rightarrow>
                                  (case query_criteria parse (db w2) wallet c of
                                     Some cachedAfterOld \<Rightarrow> (Inr (Some cachedAfterOld, ''sync_old''), w2)
                                   | None \<Rightarrow> (Inr (None, ''not_found''), w2)))))))"

section \<open>Amounts, tags and dates\<close>

definition is_digit :: "char \<Rightarrow> bool" where
  "is_digit c = (c \<in> set ''0123456789'')"

definition syntax_error :: "string \<Rightarrow> js_error" where
  "syntax_error s = JsError None (''Cannot convert '' @ s @ '' to a BigInt'')"

text \<open>
  \<open>toNanoString\<close>: the text must match \<open>/^\d+(\.\d+)?$/\<close>; the fraction is padded or cut
  to nine digits.
\<close>

definition toNanoString :: "string option \<Rightarrow> js_error + string" where
  "toNanoString amount =
     (case amount of
        None \<Rightarrow> Inl (JsError None ''amount_ton is required'')
      | Some a \<Rightarrow>
          (let raw = trim a;
               intPart = takeWhile (\<lambda>c. c \<noteq> CHR ''.'') raw;
               rest = dropWhile (\<lambda>c. c \<noteq> CHR ''.'') raw;
               fracPart = (if rest = [] then [] else tl rest)
           in if intPart = [] \<or> \<not> list_all is_digit intPart
              then Inl (JsError None ''amount_ton must be a positive number string'')
              else if rest \<noteq> [] \<and> (fracPart = [] \<or> \<not> list_all is_digit fracPart)
              then Inl (JsError None ''amount_ton must be a positive number string'')
              else
                (let frac = take 9 (fracPart @ ''000000000'') in
                 case parse_nat 10 intPart of
                   None \<Rightarrow> Inl (syntax_error intPart)
                 | Some i \<Rightarrow>
                     (case parse_nat 10 frac of
                        None \<Rightarrow> Inl (syntax_error frac)
                      | Some f \<Rightarrow>
                          (let nano = i * 1000000000 + f in
                           if nano \<le> 0 then Inl (JsError None ''amount_ton must be greater than 0'')
                           else Inr (show_int nano))))))"

text \<open>BigInt division and remainder truncate toward zero.\<close>

definition tdiv :: "int \<Rightarrow> int \<Rightarrow> int" where
  "tdiv a b = (if (a < 0) = (b < 0) then \<bar>a\<bar> div \<bar>b\<bar> else - (\<bar>a\<bar> div \<bar>b\<bar>))"

definition tmod :: "int \<Rightarrow> int \<Rightarrow> int" where
  "tmod a b = a - b * tdiv a b"

definition formatTon :: "string \<Rightarrow> string option" where
  "formatTon nanoStr =
     (case StringToBigInt nanoStr of
        None \<Rightarrow> None
      | Some nano \<Rightarrow>
          (let intPart = tdiv nano 1000000000;
               frac = tmod nano 1000000000;
               padded = replicate (9 - length (show_int frac)) (CHR ''0'') @ show_int frac;
               fracStr = rev (dropWhile (\<lambda>c. c = CHR ''0'') (rev padded))
           in if fracStr \<noteq> [] then Some (show_int intPart @ ''.'' @ fracStr)
              else Some (show_int intPart)))"

text \<open>\<open>raw.replace(/\s+/g, "_")\<close>.\<close>

function collapse_spaces :: "string \<Rightarrow> string" where
  "collapse_spaces [] = []"
| "collapse_spaces (c # cs) =
     (if is_space c then CHR ''_'' # collapse_spaces (dropWhile is_space cs)
      else c # collapse_spaces cs)"
  by pat_completeness auto
termination
  by (relation "measure length") (auto simp: length_dropWhile_le less_Suc_eq_le)

definition tag_char :: "char \<Rightarrow> bool" where
  "tag_char c = (c \<in> set ''abcdefghijklmnopqrstuvwxyzABCDEFGHIJKLMNOPQRSTUVWXYZ0123456789_@.-'')"

definition sanitizeTag :: "string option \<Rightarrow> nat \<Rightarrow> string option" where
  "sanitizeTag v maxLen =
     (case v of
        None \<Rightarrow> None
      | Some s \<Rightarrow>
          (let raw = trim s in
           if raw = [] then None
           else Some (take maxLen (filter tag_char (collapse_spaces raw)))))"

text \<open>
  \<open>buildInvoiceId\<close> and \<open>buildVerificationTag\<close> draw random bytes; the hexadecimal text
  of the bytes is an argument.
\<close>

definition buildInvoiceId :: "string \<Rightarrow> string" where
  "buildInvoiceId hex = ''inv_'' @ hex"

definition buildInvoiceComment :: "string \<Rightarrow> string option \<Rightarrow> string" where
  "buildInvoiceComment invoiceId payerAgent =
     (let tag = ''INV#'' @ invoiceId; payer = sanitizeTag payerAgent 32
      in if truthy_str payer then tag @ ''|payer:'' @ (case payer of None \<Rightarrow> [] | Some p \<Rightarrow> p)
         else tag)"

definition buildVerificationTag :: "string \<Rightarrow> string \<Rightarrow> string" where
  "buildVerificationTag agentId hex =
     (let s = sanitizeTag (Some agentId) 24;
          safe = (if truthy_str s then (case s of None \<Rightarrow> [] | Some x \<Rightarrow> x) else ''agent'')
      in ''REG#'' @ safe @ ''#'' @ hex)"

text \<open>
  \<open>parseIso\<close> returns \<open>null\<close> for a \<open>null\<close> column and the instant of the text otherwise.
  \<open>new Date(ms).toISOString()\<close> throws a RangeError outside the range of dates.
\<close>

definition parseIso :: "iso option \<Rightarrow> int option" where
  "parseIso ts = ts"

definition toISOString :: "int \<Rightarrow> js_error + iso" where
  "toISOString ms =
     (if - 8640000000000000 \<le> ms \<and> ms \<le> 8640000000000000 then Inr ms
      else Inl (JsError None ''Invalid time value''))"

section \<open>Access policy and rate limit configuration\<close>

text \<open>
  What a tool reads from its \<open>context\<close> argument and from the process environment: the
  sender, whether \<open>context.db\<close> is present, the access and rate limit settings of
  \<open>context.config\<close> and of the configuration file (already parsed: \<open>Number(...)\<close> of a
  setting is an integer or, for \<open>undefined\<close> and \<open>NaN\<close>, \<open>None\<close>), the \<open>address\<close> field
  of the wallet file (\<open>None\<close>: the file cannot be read; \<open>Some None\<close>: no such field), and
  the address parser.
\<close>

record tool_context =
  senderId :: "int option"
  has_db :: bool
  admin_ids :: "int list"
  ctx_allowlist :: "int list option"
  ctx_mode :: "string option"
  file_allowlist :: "int list"
  file_admin_only :: "bool option"
  file_open :: "bool option"
  ctx_rate_window_ms :: "int option"
  file_rate_window_ms :: "int option"
  ctx_rate_max :: "int option"
  file_rate_max :: "int option"
  ctx_tool_rate :: "(string \<times> int) list"
  file_tool_rate :: "(string \<times> int) list"
  wallet_file :: "string option option"
  address_parse :: address_parser

definition WALLET_FILE :: string where
  "WALLET_FILE = ''~/.teleton/wallet.json''"

definition getAccessPolicy :: "tool_context \<Rightarrow> string \<times> int list \<times> int list" where
  "getAccessPolicy ctx =
     (let allowlist = (case ctx_allowlist ctx of Some l \<Rightarrow> l | None \<Rightarrow> file_allowlist ctx);
          mode = (if file_open ctx = Some True \<or> ctx_mode ctx = Some ''open'' then ''open''
                  else if file_admin_only ctx = Some True \<or> ctx_mode ctx = Some ''admin'' then ''admin''
                  else if length allowlist > 0 then ''allowlist''
                  else if length (admin_ids ctx) > 0 then ''admin''
                  else ''open'')
      in (mode, allowlist, admin_ids ctx))"

text \<open>\<open>assertAccess\<close>: \<open>Inl\<close> the error text, \<open>Inr\<close> the role.\<close>

definition assertAccess :: "tool_context \<Rightarrow> string \<Rightarrow> string + string" where
  "assertAccess ctx toolName =
     (case senderId ctx of
        None \<Rightarrow> Inl ''senderId is missing''
      | Some sid \<Rightarrow>
          if sid = 0 then Inl ''senderId is missing''
          else
            (case getAccessPolicy ctx of
               (mode, allowlist, adminIds) \<Rightarrow>
                 if sid \<in> set adminIds then Inr ''admin''
                 else if mode = ''open'' then Inr ''open''
                 else if mode = ''allowlist''
                 then (if sid \<in> set allowlist then Inr ''allowlist''
                       else Inl (''Access denied for tool '' @ toolName))
                 else Inl (''Admin only for tool '' @ toolName)))"

definition RATE_DEFAULT_WINDOW_MS :: int where "RATE_DEFAULT_WINDOW_MS = 60000"
definition RATE_DEFAULT_MAX :: int where "RATE_DEFAULT_MAX = 60"

definition RATE_TOOL_DEFAULTS :: "(string \<times> int) list" where
  "RATE_TOOL_DEFAULTS =
     [(''inv_begin_verification'', 10), (''inv_confirm_verification'', 10),
      (''inv_register_agent'', 10), (''inv_create'', 20), (''inv_check'', 20),
      (''inv_receipt'', 30)]"

text \<open>\<open>a || b\<close> on numbers that may be missing.\<close>

definition or_num :: "int option \<Rightarrow> int option \<Rightarrow> int option" where
  "or_num a b = (if truthy_num a then a else b)"

definition getRateLimitConfig :: "tool_context \<Rightarrow> string \<Rightarrow> rate_cfg" where
  "getRateLimitConfig ctx toolName =
     (let window = (case or_num (ctx_rate_window_ms ctx) (file_rate_window_ms ctx) of
                      None \<Rightarrow> RATE_DEFAULT_WINDOW_MS
                    | Some v \<Rightarrow> if v \<noteq> 0 then v else RATE_DEFAULT_WINDOW_MS);
          defaultMax = (case or_num (ctx_rate_max ctx) (file_rate_max ctx) of
                          None \<Rightarrow> RATE_DEFAULT_MAX
                        | Some v \<Rightarrow> if v \<noteq> 0 then v else RATE_DEFAULT_MAX);
          toolOverride =
            (case or_num (map_of (ctx_tool_rate ctx) toolName)
                    (or_num (map_of (file_tool_rate ctx) toolName) (map_of RATE_TOOL_DEFAULTS toolName)) of
               None \<Rightarrow> defaultMax
             | Some v \<Rightarrow> if v \<noteq> 0 then v else defaultMax)
      in \<lparr>windowMs = max 1000 window, rate_max = max 1 toolOverride\<rparr>)"

definition getAgentWalletAddress :: "tool_context \<Rightarrow> js_error + string" where
  "getAgentWalletAddress ctx =
     (case wallet_file ctx of
        None \<Rightarrow> Inl (JsError None (''Agent wallet not found at '' @ WALLET_FILE))
      | Some None \<Rightarrow> Inl (JsError None ''wallet.json missing address field'')
      | Some (Some a) \<Rightarrow>
          if a = [] then Inl (JsError None ''wallet.json missing address field'')
          else Inr (trim a))"

section \<open>Tools\<close>

text \<open>
  A tool returns \<open>{success: false, error}\<close> or \<open>{success: true, data}\<close>; the data object
  is the list of its fields. The \<open>links\<close> object and the \<open>next_step\<close> text, which are
  formatted from fields that are present, are left out.
\<close>

datatype jv = VStr string | VNull | VBool bool | VIso iso

datatype tool_result = Failure string | Success "(string \<times> jv) list"

definition opt_str :: "string option \<Rightarrow> jv" where
  "opt_str v = (case v of None \<Rightarrow> VNull | Some s \<Rightarrow> VStr s)"

definition opt_iso :: "iso option \<Rightarrow> jv" where
  "opt_iso v = (case v of None \<Rightarrow> VNull | Some t \<Rightarrow> VIso t)"

text \<open>The \<open>catch\<close> clause of every tool: \<open>String(err.message || err).slice(0, 500)\<close>.\<close>

definition catch_msg :: "js_error \<Rightarrow> string" where
  "catch_msg err = take 500 (if err_message err = [] then ''Error'' else err_message err)"

record tool_params =
  p_agent_id :: "string option"
  p_wallet_address :: "string option"
  p_amount_ton :: "string option"
  p_expires_in_minutes :: "int option"
  p_description :: "string option"
  p_payer_agent :: "string option"
  p_payer_wallet :: "string option"
  p_recipient_wallet :: "string option"
  p_invoice_id :: "string option"
  p_strict_sender :: "bool option"
  p_allow_unverified_payer :: "bool option"

text \<open>
  The first statements of every \<open>execute\<close>: the access check, the presence of the
  database and the rate limit. \<open>Inl\<close> is the error text the tool returns.
\<close>

definition admit :: "tool_context \<Rightarrow> string \<Rightarrow> world \<Rightarrow> (string + unit) \<times> world" where
  "admit ctx toolName w =
     (case assertAccess ctx toolName of
        Inl error \<Rightarrow> (Inl error, w)
      | Inr role \<Rightarrow>
          if \<not> has_db ctx then (Inl ''Database not available in context'', w)
          else
            (case checkRateLimit (db w) (clock w) (case senderId ctx of None \<Rightarrow> 0 | Some s \<Rightarrow> s)
                    toolName (getRateLimitConfig ctx toolName) of
               (Rejected retryAfterMs, d) \<Rightarrow>
                 (Inl (''Rate limit exceeded. Retry in '' @ show_int retryAfterMs @ ''ms.''), w\<lparr>db := d\<rparr>)
             | (Allowed remaining, d) \<Rightarrow> (Inr (), w\<lparr>db := d\<rparr>)))"

definition str_or_empty :: "string option \<Rightarrow> string" where
  "str_or_empty v = (case v of None \<Rightarrow> [] | Some s \<Rightarrow> s)"

definition VERIFY_DEFAULT_TON :: string where "VERIFY_DEFAULT_TON = ''0.01''"
definition VERIFY_TTL_MINUTES :: int where "VERIFY_TTL_MINUTES = 60"

subsection \<open>Agent statements\<close>

definition stmtAgentUpsert :: "database \<Rightarrow> string \<Rightarrow> agent_row \<Rightarrow> database" where
  "stmtAgentUpsert d agentId row = d\<lparr>inv_agents := (inv_agents d)(agentId \<mapsto> row)\<rparr>"

definition stmtAgentVerify ::
  "database \<Rightarrow> iso \<Rightarrow> string option \<Rightarrow> string option \<Rightarrow> iso \<Rightarrow> string \<Rightarrow> database" where
  "stmtAgentVerify d verifiedAt eventId sender now agentId =
     (case inv_agents d agentId of
        None \<Rightarrow> d
      | Some r \<Rightarrow>
          d\<lparr>inv_agents := (inv_agents d)
               (agentId \<mapsto> r\<lparr>ag_status := ''verified'', ag_verified_at := Some verifiedAt,
                              ag_proof_event_id := eventId, ag_proof_sender_wallet := sender,
                              ag_updated_at := now\<rparr>)\<rparr>)"

subsection \<open>inv_begin_verification\<close>

definition invBeginVerification :: "tool_params \<Rightarrow> tool_context \<Rightarrow> string \<Rightarrow> world \<Rightarrow> tool_result \<times> world" where
  "invBeginVerification params ctx hex w =
     (case admit ctx ''inv_begin_verification'' w of
        (Inl error, w1) \<Rightarrow> (Failure error, w1)
      | (Inr u, w1) \<Rightarrow>
          (let agentId = trim (str_or_empty (p_agent_id params));
               wallet = trim (str_or_empty (p_wallet_address params))
           in if agentId = [] then (Failure ''agent_id is required'', w1)
              else if wallet = [] then (Failure ''wallet_address is required'', w1)
              else if length agentId > 64 then (Failure ''agent_id is too long (max 64)'', w1)
              else
                (let amountTon = (if truthy_str (p_amount_ton params)
                                  then trim (str_or_empty (p_amount_ton params))
                                  else VERIFY_DEFAULT_TON)
                 in case toNanoString (Some amountTon) of
                      Inl err \<Rightarrow> (Failure (catch_msg err), w1)
                    | Inr amountNano \<Rightarrow>
                        (let challengeTag = buildVerificationTag agentId hex;
                             now = clock w1;
                             ttl = (case p_expires_in_minutes params of
                                      None \<Rightarrow> VERIFY_TTL_MINUTES
                                    | Some t \<Rightarrow> t)
                         in case toISOString (clock w1 + ttl * 60000) of
                              Inl err \<Rightarrow> (Failure (catch_msg err), w1)
                            | Inr expiresAt \<Rightarrow>
                                (let w2 = w1\<lparr>db := stmtAgentUpsert (db w1) agentId
                                            \<lparr>ag_wallet_address = Some wallet,
                                             ag_status = ''pending'',
                                             ag_challenge_tag = Some challengeTag,
                                             ag_challenge_amount_ton = Some amountTon,
                                             ag_challenge_amount_nano = Some amountNano,
                                             ag_challenge_created_at = Some now,
                                             ag_challenge_expires_at = Some expiresAt,
                                             ag_verified_at = None,
                                             ag_proof_event_id = None,
                                             ag_proof_sender_wallet = None,
                                             ag_updated_at = now\<rparr>\<rparr>
                                 in case getAgentWalletAddress ctx of
                                      Inl err \<Rightarrow> (Failure (catch_msg err), w2)
                                    | Inr recipient \<Rightarrow>
                                        (Success
                                           [(''agent_id'', VStr agentId),
                                            (''wallet_address'', VStr wallet),
                                            (''status'', VStr ''pending''),
                                            (''challenge_tag'', VStr challengeTag),
                                            (''amount_ton'', VStr amountTon),
                                            (''amount_nano'', VStr amountNano),
                                            (''recipient_wallet'', VStr recipient),
                                            (''created_at'', VIso now),
                                            (''expires_at'', VIso expiresAt)], w2))))))"

subsection \<open>inv_confirm_verification\<close>

text \<open>
  The test \<open>parseIso(x) && Date.now() > parseIso(x)\<close>: a parsed instant of \<open>0\<close> is
  falsy.
\<close>

definition past_expiry :: "iso option \<Rightarrow> int \<Rightarrow> bool" where
  "past_expiry expires now = (case parseIso expires of None \<Rightarrow> False | Some e \<Rightarrow> e \<noteq> 0 \<and> now > e)"

text \<open>
  \<open>result.match.timestamp ? new Date(Number(result.match.timestamp) * 1000).toISOString()
  : new Date().toISOString()\<close>.
\<close>

definition match_time :: "transfer_row \<Rightarrow> int \<Rightarrow> js_error + iso" where
  "match_time m now =
     (if truthy_num (tr_timestamp m)
      then toISOString ((case tr_timestamp m of None \<Rightarrow> 0 | Some t \<Rightarrow> t) * 1000)
      else Inr now)"

text \<open>The criteria that \<open>inv_confirm_verification\<close> hands to the matcher.\<close>

definition confirm_criteria :: "agent_row \<Rightarrow> int \<Rightarrow> int \<Rightarrow> criteria" where
  "confirm_criteria agent amountNanoMin now =
     \<lparr>c_tag = ag_challenge_tag agent, c_minAmountNano = amountNanoMin,
      c_expectedSender = ag_wallet_address agent, c_strictSender = True,
      c_startMs = parseIso (ag_challenge_created_at agent),
      c_endMs = (case parseIso (ag_challenge_expires_at agent) of
                   None \<Rightarrow> Some now
                 | Some e \<Rightarrow> Some e)\<rparr>"

definition invConfirmVerification :: "tool_params \<Rightarrow> tool_context \<Rightarrow> world \<Rightarrow> tool_result \<times> world" where
  "invConfirmVerification params ctx w =
     (case admit ctx ''inv_confirm_verification'' w of
        (Inl error, w1) \<Rightarrow> (Failure error, w1)
      | (Inr u, w1) \<Rightarrow>
          (let agentId = trim (str_or_empty (p_agent_id params)) in
           if agentId = [] then (Failure ''agent_id is required'', w1)
           else
             (case inv_agents (db w1) agentId of
                None \<Rightarrow> (Failure (''agent_id '' @ agentId @ '' not found''), w1)
              | Some agent \<Rightarrow>
                  if ag_status agent = ''verified''
                  then (Success
                          [(''agent_id'', VStr agentId),
                           (''status'', VStr (ag_status agent)),
                           (''wallet_address'', opt_str (ag_wallet_address agent)),
                           (''verified_at'', opt_iso (ag_verified_at agent)),
                           (''proof_event_id'', opt_str (ag_proof_event_id agent))], w1)
                  else if past_expiry (ag_challenge_expires_at agent) (clock w1)
                  then (Success
                          [(''agent_id'', VStr agentId),
                           (''status'', VStr ''expired''),
                           (''challenge_expires_at'', opt_iso (ag_challenge_expires_at agent))], w1)
                  else
                    (case getAgentWalletAddress ctx of
                       Inl err \<Rightarrow> (Failure (catch_msg err), w1)
                     | Inr addr \<Rightarrow>
                         (let recipient = normalizeAddress (address_parse ctx) (Some addr);
                              tag = ag_challenge_tag agent
                          in case toBigIntSafe (Some (JStr (case ag_challenge_amount_nano agent of
                                                             None \<Rightarrow> ''0''
                                                           | Some s \<Rightarrow> s))) of
                               None \<Rightarrow>
                                 (Failure (catch_msg (syntax_error
                                    (str_or_empty (ag_challenge_amount_nano agent)))), w1)
                             | Some amountNanoMin \<Rightarrow>
                                 (case findTransferWithSync (address_parse ctx) recipient
                                         (confirm_criteria agent amountNanoMin (clock w1)) w1 of
                                       (Inl err, w2) \<Rightarrow> (Failure (catch_msg err), w2)
                                     | (Inr (None, source), w2) \<Rightarrow>
                                         (Success
                                            [(''agent_id'', VStr agentId),
                                             (''status'', VStr (if source = ''throttled'' then ''throttled''
                                                               else ''pending'')),
                                             (''expected_wallet'', opt_str (ag_wallet_address agent)),
                                             (''challenge_tag'', opt_str tag)], w2)
                                     | (Inr (Some m, source), w2) \<Rightarrow>
                                         (case match_time m (clock w2) of
                                            Inl err \<Rightarrow> (Failure (catch_msg err), w2)
                                          | Inr verifiedAt \<Rightarrow>
                                              (Success
                                                 [(''agent_id'', VStr agentId),
                                                  (''status'', VStr ''verified''),
                                                  (''wallet_address'', opt_str (ag_wallet_address agent)),
                                                  (''verified_at'', VIso verifiedAt),
                                                  (''proof_event_id'', VStr (tr_event_id m)),
                                                  (''proof_sender_wallet'', opt_str (tr_sender m))],
                                               w2\<lparr>db := stmtAgentVerify (db w2) verifiedAt
                                                            (Some (tr_event_id m)) (tr_sender m)
                                                            (clock w2) agentId\<rparr>))))))))"

subsection \<open>Invoice statements\<close>

text \<open>
  \<open>stmtInvoiceInsert\<close> is a plain \<open>INSERT\<close>: it throws on an existing key and on a
  \<open>null\<close> recipient (the column is \<open>NOT NULL\<close>).
\<close>

definition stmtInvoiceInsert ::
  "database \<Rightarrow> string \<Rightarrow> iso \<Rightarrow> iso option \<Rightarrow> string \<Rightarrow> string \<Rightarrow> string option \<Rightarrow> string option \<Rightarrow>
   string option \<Rightarrow> int \<Rightarrow> string option \<Rightarrow> string \<Rightarrow> string \<Rightarrow> int \<Rightarrow> js_error + database" where
  "stmtInvoiceInsert d invoiceId createdAt expiresAt amountTon amountNano recipient expectedSender
     payerAgent payerVerified description comment status strictSender =
     (case recipient of
        None \<Rightarrow> Inl (JsError None ''NOT NULL constraint failed: inv_invoices.recipient_wallet'')
      | Some rcp \<Rightarrow>
          (case inv_invoices d invoiceId of
             Some existing \<Rightarrow> Inl (JsError None ''UNIQUE constraint failed: inv_invoices.invoice_id'')
           | None \<Rightarrow>
               Inr (d\<lparr>inv_invoices := (inv_invoices d)
                        (invoiceId \<mapsto>
                           \<lparr>iv_created_at = createdAt, iv_expires_at = expiresAt,
                            iv_amount_ton = amountTon, iv_amount_nano = amountNano,
                            iv_recipient_wallet = rcp, iv_expected_sender_wallet = expectedSender,
                            iv_payer_agent = payerAgent, iv_payer_agent_verified = Some payerVerified,
                            iv_description = description, iv_comment = comment, iv_status = status,
                            iv_strict_sender = Some strictSender, iv_paid_at = None,
                            iv_tx_event_id = None, iv_tx_sender_wallet = None,
                            iv_tx_amount_nano = None, iv_tx_amount_ton = None,
                            iv_last_checked_at = None\<rparr>)\<rparr>)))"

definition stmtInvoiceMarkPaid ::
  "database \<Rightarrow> iso \<Rightarrow> string option \<Rightarrow> string option \<Rightarrow> string option \<Rightarrow> string option \<Rightarrow> string \<Rightarrow> database" where
  "stmtInvoiceMarkPaid d paidAt eventId sender amountNano amountTon invoiceId =
     (case inv_invoices d invoiceId of
        None \<Rightarrow> d
      | Some r \<Rightarrow>
          d\<lparr>inv_invoices := (inv_invoices d)
               (invoiceId \<mapsto> r\<lparr>iv_status := ''paid'', iv_paid_at := Some paidAt,
                                iv_tx_event_id := eventId, iv_tx_sender_wallet := sender,
                                iv_tx_amount_nano := amountNano, iv_tx_amount_ton := amountTon\<rparr>)\<rparr>)"

definition stmtInvoiceUpdateStatus :: "database \<Rightarrow> string \<Rightarrow> string \<Rightarrow> database" where
  "stmtInvoiceUpdateStatus d status invoiceId =
     (case inv_invoices d invoiceId of
        None \<Rightarrow> d
      | Some r \<Rightarrow> d\<lparr>inv_invoices := (inv_invoices d)(invoiceId \<mapsto> r\<lparr>iv_status := status\<rparr>)\<rparr>)"

definition stmtInvoiceUpdateLastCheck :: "database \<Rightarrow> iso \<Rightarrow> string \<Rightarrow> database" where
  "stmtInvoiceUpdateLastCheck d checkedAt invoiceId =
     (case inv_invoices d invoiceId of
        None \<Rightarrow> d
      | Some r \<Rightarrow> d\<lparr>inv_invoices := (inv_invoices d)(invoiceId \<mapsto> r\<lparr>iv_last_checked_at := Some checkedAt\<rparr>)\<rparr>)"

subsection \<open>inv_create\<close>

text \<open>
  The payer block of \<open>inv_create\<close>: from the payer agent, the payer wallet and the flags
  to \<open>(expectedSender, payerVerified, strictSender)\<close>, or the error text.
\<close>

definition resolve_payer ::
  "address_parser \<Rightarrow> database \<Rightarrow> string option \<Rightarrow> string option \<Rightarrow> bool \<Rightarrow> bool \<Rightarrow>
   string + string option \<times> int \<times> bool" where
  "resolve_payer parse d payerAgent payerWallet allowUnverified strictSender0 =
     (let expectedSender0 = (if truthy_str payerWallet then payerWallet else None) in
      if truthy_str payerAgent
      then (let row = inv_agents d (str_or_empty payerAgent) in
            if (case row of
                  None \<Rightarrow> False
                | Some r \<Rightarrow> ag_status r = ''verified'' \<and> truthy_str (ag_wallet_address r))
            then (if truthy_str payerWallet \<and>
                     \<not> sameAddress parse payerWallet (case row of None \<Rightarrow> None | Some r \<Rightarrow> ag_wallet_address r)
                  then Inl ''payer_wallet does not match verified agent wallet''
                  else Inr (normalizeAddress parse (case row of None \<Rightarrow> None | Some r \<Rightarrow> ag_wallet_address r),
                            1, strictSender0))
            else if \<not> truthy_str payerWallet
            then (if \<not> allowUnverified
                  then Inl ''payer_agent is not verified. Run inv_begin_verification first or set allow_unverified_payer=true.''
                  else Inr (expectedSender0, 0, False))
            else Inr (expectedSender0, 0, strictSender0))
      else Inr (expectedSender0, 0, strictSender0))"

text \<open>The recipient, the expiry and the identity level that \<open>inv_create\<close> computes.\<close>

definition create_recipient :: "tool_params \<Rightarrow> tool_context \<Rightarrow> js_error + string option" where
  "create_recipient params ctx =
     (if truthy_str (p_recipient_wallet params)
      then Inr (normalizeAddress (address_parse ctx)
                  (Some (trim (str_or_empty (p_recipient_wallet params)))))
      else (case getAgentWalletAddress ctx of
              Inl err \<Rightarrow> Inl err
            | Inr a \<Rightarrow> Inr (normalizeAddress (address_parse ctx) (Some a))))"

definition create_expiry :: "tool_params \<Rightarrow> int \<Rightarrow> js_error + iso option" where
  "create_expiry params now =
     (if truthy_num (p_expires_in_minutes params)
      then (case toISOString (now + (case p_expires_in_minutes params of None \<Rightarrow> 0 | Some n \<Rightarrow> n) * 60000) of
              Inl err \<Rightarrow> Inl err
            | Inr t \<Rightarrow> Inr (Some t))
      else Inr None)"

definition create_identity_level :: "string option \<Rightarrow> int \<Rightarrow> string option \<Rightarrow> bool \<Rightarrow> string" where
  "create_identity_level expectedSender payerVerified payerAgent strictSender =
     (if truthy_str expectedSender
      then (if payerVerified \<noteq> 0 then ''wallet_verified'' else ''wallet'')
      else if \<not> truthy_str payerAgent \<and> \<not> strictSender then ''none''
      else ''comment_only'')"

definition invCreate :: "tool_params \<Rightarrow> tool_context \<Rightarrow> string \<Rightarrow> world \<Rightarrow> tool_result \<times> world" where
  "invCreate params ctx hex w =
     (case admit ctx ''inv_create'' w of
        (Inl error, w1) \<Rightarrow> (Failure error, w1)
      | (Inr u, w1) \<Rightarrow>
          (case toNanoString (p_amount_ton params) of
             Inl err \<Rightarrow> (Failure (catch_msg err), w1)
           | Inr amountNano \<Rightarrow>
               (let amountTon = trim (str_or_empty (p_amount_ton params)) in
                case create_recipient params ctx of
                  Inl err \<Rightarrow> (Failure (catch_msg err), w1)
                | Inr recipient \<Rightarrow>
                    (let payerAgent = (if truthy_str (p_payer_agent params)
                                       then Some (trim (str_or_empty (p_payer_agent params))) else None);
                         payerWallet = (if truthy_str (p_payer_wallet params)
                                        then normalizeAddress (address_parse ctx)
                                               (Some (trim (str_or_empty (p_payer_wallet params))))
                                        else None);
                         allowUnverified = (case p_allow_unverified_payer params of None \<Rightarrow> False | Some b \<Rightarrow> b);
                         strictSender0 = (case p_strict_sender params of None \<Rightarrow> True | Some b \<Rightarrow> b)
                     in case resolve_payer (address_parse ctx) (db w1) payerAgent payerWallet
                               allowUnverified strictSender0 of
                          Inl error \<Rightarrow> (Failure error, w1)
                        | Inr (expectedSender, payerVerified, strictSender) \<Rightarrow>
                            if strictSender \<and> \<not> truthy_str expectedSender
                            then (Failure ''strict_sender requires payer_wallet or verified payer_agent'', w1)
                            else
                              (let invoiceId = (if truthy_str (p_invoice_id params)
                                                then trim (str_or_empty (p_invoice_id params))
                                                else buildInvoiceId hex)
                               in if invoiceId = [] then (Failure ''invoice_id is invalid'', w1)
                                  else if inv_invoices (db w1) invoiceId \<noteq> None
                                  then (Failure (''invoice_id '' @ invoiceId @ '' already exists''), w1)
                                  else
                                    (let comment = buildInvoiceComment invoiceId payerAgent;
                                         now = clock w1
                                     in case create_expiry params (clock w1) of
                                          Inl err \<Rightarrow> (Failure (catch_msg err), w1)
                                        | Inr expiresAt \<Rightarrow>
                                            (case stmtInvoiceInsert (db w1) invoiceId now expiresAt amountTon
                                                    amountNano recipient expectedSender payerAgent
                                                    payerVerified
                                                    (if truthy_str (p_description params)
                                                     then Some (trim (str_or_empty (p_description params)))
                                                     else None)
                                                    comment ''pending'' (if strictSender then 1 else 0) of
                                               Inl err \<Rightarrow> (Failure (catch_msg err), w1)
                                             | Inr d \<Rightarrow>
                                                 (Success
                                                    [(''invoice_id'', VStr invoiceId),
                                                     (''status'', VStr ''pending''),
                                                     (''created_at'', VIso now),
                                                     (''expires_at'', opt_iso expiresAt),
                                                     (''amount_ton'', VStr amountTon),
                                                     (''amount_nano'', VStr amountNano),
                                                     (''recipient_wallet'', opt_str recipient),
                                                     (''payer_agent'', opt_str payerAgent),
                                                     (''payer_agent_verified'', VBool (payerVerified = 1)),
                                                     (''expected_sender_wallet'', opt_str expectedSender),
                                                     (''comment'', VStr comment),
                                                     (''strict_sender'', VBool strictSender),
                                                     (''identity_level'',
                                                        VStr (create_identity_level expectedSender
                                                                payerVerified payerAgent strictSender))],
                                                  w1\<lparr>db := d\<rparr>))))))))"

subsection \<open>inv_check\<close>

definition identity_level :: "invoice_row \<Rightarrow> string" where
  "identity_level invoice =
     (if truthy_str (iv_expected_sender_wallet invoice)
      then (if iv_payer_agent_verified invoice = Some 1 then ''wallet_verified'' else ''wallet'')
      else ''comment_only'')"

text \<open>The criteria that \<open>inv_check\<close> hands to the matcher.\<close>

definition check_criteria :: "string \<Rightarrow> invoice_row \<Rightarrow> int \<Rightarrow> int \<Rightarrow> criteria" where
  "check_criteria invoiceId invoice amountNanoMin now =
     \<lparr>c_tag = Some (''INV#'' @ invoiceId), c_minAmountNano = amountNanoMin,
      c_expectedSender = iv_expected_sender_wallet invoice,
      c_strictSender = (iv_strict_sender invoice = Some 1),
      c_startMs = (case parseIso (Some (iv_created_at invoice)) of None \<Rightarrow> Some 0 | Some s \<Rightarrow> Some s),
      c_endMs = (case parseIso (iv_expires_at invoice) of None \<Rightarrow> Some now | Some e \<Rightarrow> Some e)\<rparr>"

definition invCheck :: "tool_params \<Rightarrow> tool_context \<Rightarrow> world \<Rightarrow> tool_result \<times> world" where
  "invCheck params ctx w =
     (case admit ctx ''inv_check'' w of
        (Inl error, w1) \<Rightarrow> (Failure error, w1)
      | (Inr u, w1) \<Rightarrow>
          (let invoiceId = trim (str_or_empty (p_invoice_id params)) in
           if invoiceId = [] then (Failure ''invoice_id is required'', w1)
           else
             (case inv_invoices (db w1) invoiceId of
                None \<Rightarrow> (Failure (''invoice_id '' @ invoiceId @ '' not found''), w1)
              | Some invoice \<Rightarrow>
                  if iv_status invoice = ''paid''
                  then (Success
                          [(''invoice_id'', VStr invoiceId),
                           (''status'', VStr (iv_status invoice)),
                           (''paid_at'', opt_iso (iv_paid_at invoice)),
                           (''tx_event_id'', opt_str (iv_tx_event_id invoice)),
                           (''tx_sender_wallet'', opt_str (iv_tx_sender_wallet invoice)),
                           (''tx_amount_ton'', opt_str (iv_tx_amount_ton invoice))], w1)
                  else if past_expiry (iv_expires_at invoice) (clock w1)
                  then (Success
                          [(''invoice_id'', VStr invoiceId),
                           (''status'', VStr ''expired''),
                           (''expires_at'', opt_iso (iv_expires_at invoice))],
                        w1\<lparr>db := stmtInvoiceUpdateStatus (db w1) ''expired'' invoiceId\<rparr>)
                  else
                    (let strictSender = (iv_strict_sender invoice = Some 1) in
                     if strictSender \<and> \<not> truthy_str (iv_expected_sender_wallet invoice)
                     then (Failure ''invoice is missing expected_sender_wallet'', w1)
                     else
                       (case toBigIntSafe (Some (JStr (iv_amount_nano invoice))) of
                          None \<Rightarrow> (Failure (catch_msg (syntax_error (iv_amount_nano invoice))), w1)
                        | Some amountNanoMin \<Rightarrow>
                            (case findTransferWithSync (address_parse ctx)
                                    (Some (iv_recipient_wallet invoice))
                                    (check_criteria invoiceId invoice amountNanoMin (clock w1)) w1 of
                                  (Inl err, w2) \<Rightarrow> (Failure (catch_msg err), w2)
                                | (Inr (found, source), w2) \<Rightarrow>
                                    (let w3 = w2\<lparr>db := stmtInvoiceUpdateLastCheck (db w2) (clock w2) invoiceId\<rparr>
                                     in case found of
                                          None \<Rightarrow>
                                            (Success
                                               [(''invoice_id'', VStr invoiceId),
                                                (''status'', VStr (if source = ''throttled'' then ''throttled''
                                                                  else ''not_found'')),
                                                (''strict_sender'', VBool strictSender),
                                                (''expected_sender_wallet'',
                                                   opt_str (iv_expected_sender_wallet invoice)),
                                                (''cache_source'', VStr source)], w3)
                                        | Some m \<Rightarrow>
                                            (case match_time m (clock w3) of
                                               Inl err \<Rightarrow> (Failure (catch_msg err), w3)
                                             | Inr paidAt \<Rightarrow>
                                                 (let paidAmountTon = formatTon (tr_amount_nano m) in
                                                  (Success
                                                     [(''invoice_id'', VStr invoiceId),
                                                      (''status'', VStr ''paid''),
                                                      (''paid_at'', VIso paidAt),
                                                      (''tx_event_id'', VStr (tr_event_id m)),
                                                      (''tx_sender_wallet'', opt_str (tr_sender m)),
                                                      (''tx_amount_ton'', opt_str paidAmountTon),
                                                      (''identity_level'', VStr (identity_level invoice)),
                                                      (''strict_sender'', VBool strictSender),
                                                      (''cache_source'', VStr source)],
                                                   w3\<lparr>db := stmtInvoiceMarkPaid (db w3) paidAt
                                                                (Some (tr_event_id m)) (tr_sender m)
                                                                (Some (tr_amount_nano m)) paidAmountTon
                                                                invoiceId\<rparr>))))))))))"

subsection \<open>inv_receipt\<close>

definition invReceipt :: "tool_params \<Rightarrow> tool_context \<Rightarrow> world \<Rightarrow> tool_result \<times> world" where
  "invReceipt params ctx w =
     (case admit ctx ''inv_receipt'' w of
        (Inl error, w1) \<Rightarrow> (Failure error, w1)
      | (Inr u, w1) \<Rightarrow>
          (let invoiceId = trim (str_or_empty (p_invoice_id params)) in
           if invoiceId = [] then (Failure ''invoice_id is required'', w1)
           else
             (case inv_invoices (db w1) invoiceId of
                None \<Rightarrow> (Failure (''invoice_id '' @ invoiceId @ '' not found''), w1)
              | Some invoice \<Rightarrow>
                  if iv_status invoice \<noteq> ''paid''
                  then (Failure (''invoice_id '' @ invoiceId @ '' is not paid (status: '' @
                                 iv_status invoice @ '')''), w1)
                  else (Success
                          [(''invoice_id'', VStr invoiceId),
                           (''status'', VStr (iv_status invoice)),
                           (''created_at'', VIso (iv_created_at invoice)),
                           (''paid_at'', opt_iso (iv_paid_at invoice)),
                           (''amount_ton'', VStr (iv_amount_ton invoice)),
                           (''recipient_wallet'', VStr (iv_recipient_wallet invoice)),
                           (''payer_agent'', opt_str (iv_payer_agent invoice)),
                           (''payer_agent_verified'', VBool (iv_payer_agent_verified invoice = Some 1)),
                           (''expected_sender_wallet'', opt_str (iv_expected_sender_wallet invoice)),
                           (''tx_event_id'', opt_str (iv_tx_event_id invoice)),
                           (''tx_sender_wallet'', opt_str (iv_tx_sender_wallet invoice)),
                           (''tx_amount_ton'', opt_str (iv_tx_amount_ton invoice)),
                           (''description'', opt_str (iv_description invoice)),
                           (''identity_level'', VStr (identity_level invoice))], w1))))"

section \<open>Sequences of tool invocations\<close>

text \<open>
  An invocation names the tool and carries its parameters, its context, the value of
  \<open>Date.now()\<close> when it starts and the random text it draws. \<open>inv_register_agent\<close> shares
  the \<open>execute\<close> function of \<open>inv_begin_verification\<close>.
\<close>

datatype tool =
  inv_begin_verification | inv_confirm_verification | inv_register_agent
  | inv_create | inv_check | inv_receipt

record invocation =
  i_tool :: tool
  i_params :: tool_params
  i_ctx :: tool_context
  i_at :: int
  i_rand :: string

definition execute :: "invocation \<Rightarrow> world \<Rightarrow> tool_result \<times> world" where
  "execute i w =
     (let w0 = w\<lparr>clock := i_at i\<rparr> in
      case i_tool i of
        inv_begin_verification \<Rightarrow> invBeginVerification (i_params i) (i_ctx i) (i_rand i) w0
      | inv_register_agent \<Rightarrow> invBeginVerification (i_params i) (i_ctx i) (i_rand i) w0
      | inv_confirm_verification \<Rightarrow> invConfirmVerification (i_params i) (i_ctx i) w0
      | inv_create \<Rightarrow> invCreate (i_params i) (i_ctx i) (i_rand i) w0
      | inv_check \<Rightarrow> invCheck (i_params i) (i_ctx i) w0
      | inv_receipt \<Rightarrow> invReceipt (i_params i) (i_ctx i) w0)"

fun run :: "invocation list \<Rightarrow> world \<Rightarrow> world" where
  "run [] w = w"
| "run (i # is) w = run is (snd (execute i w))"

definition status_of :: "tool_result \<Rightarrow> string option" where
  "status_of r =
     (case r of
        Failure e \<Rightarrow> None
      | Success data \<Rightarrow> (case map_of data ''status'' of Some (VStr s) \<Rightarrow> Some s | _ \<Rightarrow> None))"

text \<open>
  The tables that hold agents, invoices and rate counters; the sync engine and the
  matcher leave them alone.
\<close>

definition ledger ::
  "database \<Rightarrow> (string \<rightharpoonup> agent_row) \<times> (string \<rightharpoonup> invoice_row) \<times> (string \<rightharpoonup> rate_row)" where
  "ledger d = (inv_agents d, inv_invoices d, inv_rate_limits d)"

section \<open>The requests of a matcher run\<close>

text \<open>
  The worlds in which the loop of \<open>syncNewEvents\<close> calls \<open>tonapiFetchWithRetry\<close>, in the
  order of the calls: the loop \<open>syncNew_loop\<close> with its control flow and without the event
  count and the statistics, which do not influence it.
\<close>

function syncNew_requests ::
  "address_parser \<Rightarrow> string option \<Rightarrow> nat \<Rightarrow> string option \<Rightarrow> world \<Rightarrow> world list" where
  "syncNew_requests parse wallet page afterLt w =
     (if page < EVENT_MAX_PAGES_NEW
      then w # (case tonapiFetchWithRetry w of
                  (Inl err, w1) \<Rightarrow> []
                | (Inr data, w1) \<Rightarrow>
                    (let events = (case data of None \<Rightarrow> [] | Some es \<Rightarrow> es) in
                     if length events = 0 then []
                     else
                       (let pageStats = fst (ingest_page parse wallet events w1);
                            w2 = snd (ingest_page parse wallet events w1);
                            afterLt' = (if truthy_str (max_lt pageStats) then max_lt pageStats else afterLt)
                        in if \<not> truthy_str afterLt' then []
                           else if length events < EVENT_PAGE_LIMIT then []
                           else syncNew_requests parse wallet (page + 1) afterLt' w2)))
      else [])"
  by pat_completeness auto
termination
  by (relation "measure (\<lambda>(p, wl, page, a, w). EVENT_MAX_PAGES_NEW - page)") auto

declare syncNew_requests.simps [simp del]

text \<open>The same for the loop of \<open>syncOlderEvents\<close>.\<close>

function syncOld_requests ::
  "address_parser \<Rightarrow> string option \<Rightarrow> int option \<Rightarrow> nat \<Rightarrow> string option \<Rightarrow> world \<Rightarrow> world list" where
  "syncOld_requests parse wallet startMs page beforeLt w =
     (if page < EVENT_MAX_PAGES_OLD
      then w # (case tonapiFetchWithRetry w of
                  (Inl err, w1) \<Rightarrow> []
                | (Inr data, w1) \<Rightarrow>
                    (let events = (case data of None \<Rightarrow> [] | Some es \<Rightarrow> es) in
                     if length events = 0 then []
                     else
                       (let pageStats = fst (ingest_page parse wallet events w1);
                            w2 = snd (ingest_page parse wallet events w1);
                            beforeLt' = (if truthy_str (min_lt pageStats) then min_lt pageStats else beforeLt)
                        in if (case min_ts pageStats of
                                 None \<Rightarrow> False
                               | Some m \<Rightarrow>
                                   m \<noteq> 0 \<and> (case startMs of None \<Rightarrow> False | Some s \<Rightarrow> s \<noteq> 0 \<and> m \<le> s))
                           then []
                           else if length events < EVENT_PAGE_LIMIT then []
                           else if \<not> truthy_str beforeLt' then []
                           else syncOld_requests parse wallet startMs (page + 1) beforeLt' w2)))
      else [])"
  by pat_completeness auto
termination
  by (relation "measure (\<lambda>(p, wl, s, page, b, w). EVENT_MAX_PAGES_OLD - page)") auto

declare syncOld_requests.simps [simp del]


text \<open>
  The requests of \<open>syncNewEvents\<close>, of \<open>syncOlderEvents\<close> and of \<open>findTransferWithSync\<close>:
  those of the forward sync, followed by those of the backward sync when the matcher
  gets that far.
\<close>

definition syncNewEvents_requests :: "address_parser \<Rightarrow> string option \<Rightarrow> world \<Rightarrow> world list" where
  "syncNewEvents_requests parse wallet w =
     (let sync = getWalletSync (db w) wallet;
          afterLt = (case sync of None \<Rightarrow> None | Some s \<Rightarrow> ws_max_lt s)
      in syncNew_requests parse wallet 0 afterLt w)"

definition syncOlderEvents_requests ::
  "address_parser \<Rightarrow> string option \<Rightarrow> int option \<Rightarrow> world \<Rightarrow> world list" where
  "syncOlderEvents_requests parse wallet startMs w =
     (let sync = getWalletSync (db w) wallet;
          beforeLt = (case sync of None \<Rightarrow> None | Some s \<Rightarrow> ws_min_lt s)
      in if \<not> truthy_str beforeLt then []
         else syncOld_requests parse wallet startMs 0 beforeLt w)"

definition findTransferWithSync_requests ::
  "address_parser \<Rightarrow> string option \<Rightarrow> criteria \<Rightarrow> world \<Rightarrow> world list" where
  "findTransferWithSync_requests parse wallet c w =
     (case query_criteria parse (db w) wallet c of
        Some cached \<Rightarrow> []
      | None \<Rightarrow>
          (let sync = getWalletSync (db w) wallet;
               now = clock w
           in if sync_throttled sync now then []
              else
                syncNewEvents_requests parse wallet w @
                (case syncNewEvents parse wallet w of
                   (Inl err, w1) \<Rightarrow> []
                 | (Inr n, w1) \<Rightarrow>
                     (case query_criteria parse (db w1) wallet c of
                        Some cachedAfterNew \<Rightarrow> []
                      | None \<Rightarrow>
                          (let syncAfter = getWalletSync (db w1) wallet;
                               shouldFetchOlder =
                                 (case syncAfter of
                                    None \<Rightarrow> True
                                  | Some s \<Rightarrow>
                                      (case ws_min_ts s of
                                         None \<Rightarrow> True
                                       | Some m \<Rightarrow>
                                           if m = 0 then True
                                           else (case c_startMs c of
                                                   None \<Rightarrow> False
                                                 | Some st \<Rightarrow> st \<noteq> 0 \<and> m > st)))
                           in if shouldFetchOlder
                              then syncOlderEvents_requests parse wallet (c_startMs c) w1
                              else [])))))"

section \<open>Invocations within the declared parameter ranges\<close>

text \<open>
  The parameter schemas of \<open>inv_begin_verification\<close> (which \<open>inv_register_agent\<close>
  shares) and of \<open>inv_create\<close> declare \<open>expires_in_minutes\<close> as an integer with
  \<open>minimum: 1\<close>; the code does not check it. \<open>within_schema\<close> holds of an invocation
  that respects this minimum and is made at or after the epoch (\<open>Date.now()\<close> is not
  negative).
\<close>

definition within_schema :: "invocation \<Rightarrow> bool" where
  "within_schema i =
     (0 \<le> i_at i \<and>
      (i_tool i = inv_begin_verification \<or> i_tool i = inv_register_agent \<or> i_tool i = inv_create
       \<longrightarrow> (case p_expires_in_minutes (i_params i) of None \<Rightarrow> True | Some n \<Rightarrow> 1 \<le> n)))"

text \<open>Every stored expiry of an invoice or of a challenge lies after the epoch.\<close>

definition expiries_after_epoch :: "database \<Rightarrow> bool" where
  "expiries_after_epoch d =
     ((\<forall>a row e. inv_invoices d a = Some row \<and> iv_expires_at row = Some e \<longrightarrow> 0 < e) \<and>
      (\<forall>b row e. inv_agents d b = Some row \<and> ag_challenge_expires_at row = Some e \<longrightarrow> 0 < e))"

section \<open>Concrete scenarios\<close>

text \<open>
  Small databases and invocations on which the theorems below are exercised. Without
  \<open>@ton/core\<close> the address parser fails everywhere and addresses are compared in lower
  case.
\<close>

definition no_parser :: address_parser where
  "no_parser s = None"

definition demo_row :: "string \<Rightarrow> int \<Rightarrow> string \<Rightarrow> string \<Rightarrow> transfer_row" where
  "demo_row ev t sndr amt =
     \<lparr>tr_wallet = ''0:w'', tr_event_id = ev, tr_action_index = 0, tr_lt = None,
      tr_timestamp = Some t, tr_sender = Some sndr, tr_recipient = Some ''0:w'',
      tr_amount_nano = amt, tr_comment = ''INV#1'', tr_comment_tag = Some ''INV#1'',
      tr_inserted_at = 0\<rparr>"

definition demo_tbl :: "transfer_row list" where
  "demo_tbl =
     [demo_row ''e4'' 4000 ''0:a'' ''9'', demo_row ''e1'' 3000 ''0:a'' ''5'',
      demo_row ''e2'' 2000 ''0:b'' ''7'', demo_row ''e3'' 1000 ''0:a'' ''1'']"

text \<open>A sequence of calls of one caller to one tool at the given times.\<close>

fun call_seq :: "database \<Rightarrow> int \<Rightarrow> string \<Rightarrow> rate_cfg \<Rightarrow> int list \<Rightarrow> rate_result list \<times> database" where
  "call_seq d sid toolName cfg [] = ([], d)"
| "call_seq d sid toolName cfg (t # ts) =
     (case checkRateLimit d t sid toolName cfg of
        (r, d1) \<Rightarrow>
          (case call_seq d1 sid toolName cfg ts of
             (rs, d2) \<Rightarrow> (r # rs, d2)))"

definition is_allowed :: "rate_result \<Rightarrow> bool" where
  "is_allowed r = (case r of Allowed n \<Rightarrow> True | Rejected n \<Rightarrow> False)"

definition empty_db :: database where
  "empty_db =
     \<lparr>inv_agents = Map.empty, inv_invoices = Map.empty, inv_rate_limits = Map.empty,
      inv_wallet_sync = Map.empty, inv_transfers = []\<rparr>"

definition demo_ctx :: tool_context where
  "demo_ctx =
     \<lparr>senderId = Some 7, has_db = True, admin_ids = [], ctx_allowlist = None, ctx_mode = None,
      file_allowlist = [], file_admin_only = None, file_open = None,
      ctx_rate_window_ms = None, file_rate_window_ms = None,
      ctx_rate_max = None, file_rate_max = None,
      ctx_tool_rate = [(''inv_check'', 2)], file_tool_rate = [],
      wallet_file = Some (Some ''0:W''), address_parse = no_parser\<rparr>"

definition demo_transfer :: "string \<Rightarrow> string \<Rightarrow> string \<Rightarrow> action" where
  "demo_transfer sndr amt cmt =
     TonTransfer \<lparr>tt_recipient = Some ''0:W'', tt_sender = Some sndr,
                  tt_amount = Some (JStr amt), tt_comment = Some cmt\<rparr>"

definition demo_event :: "string \<Rightarrow> int \<Rightarrow> int \<Rightarrow> action list \<Rightarrow> raw_event" where
  "demo_event eid l t acts =
     \<lparr>ev_event_id = Some eid, ev_id = None, ev_lt = Some (JNum l), ev_event_lt = None,
      ev_timestamp = Some (Finite t), ev_utime = None, ev_time = None, ev_actions = Some acts\<rparr>"

text \<open>An event without any time field.\<close>

definition timeless_event :: raw_event where
  "timeless_event =
     \<lparr>ev_event_id = Some ''e9'', ev_id = None, ev_lt = Some (JNum 130), ev_event_lt = None,
      ev_timestamp = None, ev_utime = None, ev_time = None,
      ev_actions = Some [demo_transfer ''0:a'' ''5'' ''INV#1'']\<rparr>"

definition demo_events :: "raw_event list" where
  "demo_events =
     [demo_event ''e5'' 120 300 [OtherAction, demo_transfer ''0:A'' ''5'' ''INV#1|payer:bob''],
      timeless_event]"

text \<open>
  A wallet whose watermark spans the logical times 50 to 100, an upstream that answers a
  backward sync with one older event (logical time 40) and a forward sync with one newer
  event (logical time 120).
\<close>

definition synced_db :: database where
  "synced_db =
     empty_db\<lparr>inv_wallet_sync :=
       [''0:w'' \<mapsto> \<lparr>ws_last_sync_at = Some 1700000000000, ws_max_lt = Some ''100'',
                     ws_min_lt = Some ''50'', ws_max_ts = Some 1700000200000,
                     ws_min_ts = Some 1700000100000\<rparr>]\<rparr>"

definition older_world :: world where
  "older_world =
     \<lparr>db = synced_db,
      net = [(200, Events (Some [demo_event ''e0'' 40 1700000050 []]))],
      clock = 1700000300000\<rparr>"

definition newer_world :: world where
  "newer_world =
     \<lparr>db = synced_db,
      net = [(200, Events (Some [demo_event ''e7'' 120 1700000250 []]))],
      clock = 1700000300000\<rparr>"

definition no_params :: tool_params where
  "no_params =
     \<lparr>p_agent_id = None, p_wallet_address = None, p_amount_ton = None,
      p_expires_in_minutes = None, p_description = None, p_payer_agent = None,
      p_payer_wallet = None, p_recipient_wallet = None, p_invoice_id = None,
      p_strict_sender = None, p_allow_unverified_payer = None\<rparr>"




definition check_at :: "string \<Rightarrow> int \<Rightarrow> invocation" where
  "check_at invoiceId t =
     \<lparr>i_tool = inv_check, i_params = no_params\<lparr>p_invoice_id := Some invoiceId\<rparr>,
      i_ctx = demo_ctx, i_at = t, i_rand = []\<rparr>"

text \<open>
  A verified agent, and a caller who starts a new verification for the same agent id
  with another wallet.
\<close>

definition verified_agent :: agent_row where
  "verified_agent =
     \<lparr>ag_wallet_address = Some ''0:a'', ag_status = ''verified'',
      ag_challenge_tag = Some ''REG#alice#0a0b0c0d'', ag_challenge_amount_ton = Some ''0.01'',
      ag_challenge_amount_nano = Some ''10000000'',
      ag_challenge_created_at = Some 1700000000000,
      ag_challenge_expires_at = Some 1700003600000, ag_verified_at = Some 1700000100000,
      ag_proof_event_id = Some ''e1'', ag_proof_sender_wallet = Some ''0:a'',
      ag_updated_at = 1700000150000\<rparr>"

definition verified_world :: world where
  "verified_world =
     \<lparr>db = empty_db\<lparr>inv_agents := [''alice'' \<mapsto> verified_agent]\<rparr>,
      net = [], clock = 1700000300000\<rparr>"

definition begin_alice :: invocation where
  "begin_alice =
     \<lparr>i_tool = inv_begin_verification,
      i_params = no_params\<lparr>p_agent_id := Some ''alice'', p_wallet_address := Some ''0:B''\<rparr>,
      i_ctx = demo_ctx, i_at = 1700000400000, i_rand = ''deadbeef''\<rparr>"

definition confirm_alice :: invocation where
  "confirm_alice =
     \<lparr>i_tool = inv_confirm_verification, i_params = no_params\<lparr>p_agent_id := Some ''alice''\<rparr>,
      i_ctx = demo_ctx, i_at = 1700000500000, i_rand = []\<rparr>"

text \<open>Whether an invocation starts a verification for the agent id \<open>a\<close>.\<close>

definition begins_for :: "string \<Rightarrow> invocation \<Rightarrow> bool" where
  "begins_for a i =
     ((i_tool i = inv_begin_verification \<or> i_tool i = inv_register_agent) \<and>
      trim (str_or_empty (p_agent_id (i_params i))) = a)"

text \<open>
  A pending invoice without expiry and an upstream that answers three times with status
  500; a pending invoice and a pending challenge that have expired, with the payment
  for the invoice in the cache.
\<close>

definition pending_invoice :: invoice_row where
  "pending_invoice =
     \<lparr>iv_created_at = 1700000000000, iv_expires_at = None, iv_amount_ton = ''1.5'',
      iv_amount_nano = ''1500000000'', iv_recipient_wallet = ''0:w'',
      iv_expected_sender_wallet = None, iv_payer_agent = None, iv_payer_agent_verified = Some 0,
      iv_description = None, iv_comment = ''INV#inv_2'', iv_status = ''pending'',
      iv_strict_sender = Some 0, iv_paid_at = None, iv_tx_event_id = None,
      iv_tx_sender_wallet = None, iv_tx_amount_nano = None, iv_tx_amount_ton = None,
      iv_last_checked_at = None\<rparr>"

definition outage_world :: world where
  "outage_world =
     \<lparr>db = empty_db\<lparr>inv_invoices := [''inv_2'' \<mapsto> pending_invoice]\<rparr>,
      net = [(100, HttpStatus 500 ''down''), (100, HttpStatus 500 ''down''),
             (100, HttpStatus 500 ''down'')],
      clock = 1700000300000\<rparr>"

definition matching_payment :: transfer_row where
  "matching_payment =
     \<lparr>tr_wallet = ''0:w'', tr_event_id = ''e3'', tr_action_index = 0, tr_lt = Some ''140'',
      tr_timestamp = Some 1700000050000, tr_sender = Some ''0:a'', tr_recipient = Some ''0:w'',
      tr_amount_nano = ''1500000000'', tr_comment = ''INV#inv_3'',
      tr_comment_tag = Some ''INV#inv_3'', tr_inserted_at = 1700000060000\<rparr>"

definition expired_world :: world where
  "expired_world =
     \<lparr>db = empty_db\<lparr>inv_invoices :=
                       [''inv_3'' \<mapsto> pending_invoice\<lparr>iv_expires_at := Some 1700000100000,
                                                       iv_comment := ''INV#inv_3''\<rparr>],
                     inv_agents :=
                       [''bob'' \<mapsto> verified_agent\<lparr>ag_status := ''pending'', ag_verified_at := None,
                                                  ag_proof_event_id := None,
                                                  ag_proof_sender_wallet := None,
                                                  ag_challenge_expires_at := Some 1700000100000\<rparr>],
                     inv_transfers := [matching_payment]\<rparr>,
      net = [], clock = 1700000300000\<rparr>"

definition confirm_at :: "string \<Rightarrow> int \<Rightarrow> invocation" where
  "confirm_at agentId t =
     \<lparr>i_tool = inv_confirm_verification, i_params = no_params\<lparr>p_agent_id := Some agentId\<rparr>,
      i_ctx = demo_ctx, i_at = t, i_rand = []\<rparr>"

text \<open>
  A pending challenge of agent \<open>dave\<close> for the wallet \<open>0:A\<close> with the verification
  transfer in the cache, once with and once without a reachable upstream.
\<close>

definition pending_agent :: agent_row where
  "pending_agent =
     \<lparr>ag_wallet_address = Some ''0:A'', ag_status = ''pending'',
      ag_challenge_tag = Some ''REG#dave#0a0b0c0d'', ag_challenge_amount_ton = Some ''0.01'',
      ag_challenge_amount_nano = Some ''10000000'',
      ag_challenge_created_at = Some 1700000000000,
      ag_challenge_expires_at = Some 1700003600000, ag_verified_at = None,
      ag_proof_event_id = None, ag_proof_sender_wallet = None,
      ag_updated_at = 1700000000000\<rparr>"

definition challenge_payment :: transfer_row where
  "challenge_payment =
     \<lparr>tr_wallet = ''0:w'', tr_event_id = ''e8'', tr_action_index = 0, tr_lt = Some ''150'',
      tr_timestamp = Some 1700000050000, tr_sender = Some ''0:a'', tr_recipient = Some ''0:w'',
      tr_amount_nano = ''10000000'', tr_comment = ''REG#dave#0a0b0c0d'',
      tr_comment_tag = Some ''REG#dave#0a0b0c0d'', tr_inserted_at = 1700000060000\<rparr>"

definition challenge_world :: world where
  "challenge_world =
     \<lparr>db = empty_db\<lparr>inv_agents := [''dave'' \<mapsto> pending_agent],
                     inv_transfers := [challenge_payment]\<rparr>,
      net = [], clock = 1700000400000\<rparr>"

definition challenge_outage_world :: world where
  "challenge_outage_world =
     \<lparr>db = empty_db\<lparr>inv_agents := [''dave'' \<mapsto> pending_agent]\<rparr>,
      net = [(100, NetworkError ''timeout''), (100, HttpStatus 503 ''busy''),
             (100, HttpStatus 429 ''slow down'')],
      clock = 1700000400000\<rparr>"

definition unexpired_world :: world where
  "unexpired_world = expired_world\<lparr>clock := 1700000050000\<rparr>"

section \<open>Runs and outages\<close>

text \<open>
  A run from an empty database. Invoice \<open>inv_5\<close> is created with one minute to live,
  invoice \<open>inv_6\<close> without expiry, and agent \<open>erin\<close> starts a verification with one
  minute to live. The payments for \<open>inv_5\<close> and for the challenge arrive after 30
  seconds. Two minutes after the start a check of \<open>inv_6\<close> syncs the wallet, which puts
  both payments into the cache.
\<close>

definition create_at :: "string \<Rightarrow> string \<Rightarrow> int option \<Rightarrow> int \<Rightarrow> invocation" where
  "create_at invoiceId amountTon ttl t =
     \<lparr>i_tool = inv_create,
      i_params = no_params\<lparr>p_invoice_id := Some invoiceId, p_amount_ton := Some amountTon,
                           p_expires_in_minutes := ttl, p_strict_sender := Some False\<rparr>,
      i_ctx = demo_ctx, i_at = t, i_rand = []\<rparr>"

definition begin_at :: "string \<Rightarrow> string \<Rightarrow> int option \<Rightarrow> int \<Rightarrow> invocation" where
  "begin_at agentId wallet ttl t =
     \<lparr>i_tool = inv_begin_verification,
      i_params = no_params\<lparr>p_agent_id := Some agentId, p_wallet_address := Some wallet,
                           p_expires_in_minutes := ttl\<rparr>,
      i_ctx = demo_ctx, i_at = t, i_rand = ''0a0b0c0d''\<rparr>"

definition fresh_world :: world where
  "fresh_world =
     \<lparr>db = empty_db,
      net = [(200, Events (Some [demo_event ''e21'' 160 1700000030
                                   [demo_transfer ''0:a'' ''1500000000'' ''INV#inv_5'',
                                    demo_transfer ''0:a'' ''10000000'' ''REG#erin#0a0b0c0d'']])),
             (200, Events (Some []))],
      clock = 0\<rparr>"

definition first_calls :: "invocation list" where
  "first_calls =
     [create_at ''inv_5'' ''1.5'' (Some 1) 1700000000000,
      create_at ''inv_6'' ''2'' None 1700000001000,
      begin_at ''erin'' ''0:A'' (Some 1) 1700000002000,
      check_at ''inv_6'' 1700000120000]"

text \<open>The context of a caller who is not on the allowlist.\<close>

definition outsider_ctx :: tool_context where
  "outsider_ctx = demo_ctx\<lparr>ctx_allowlist := Some [1]\<rparr>"

text \<open>
  The pending invoice \<open>inv_2\<close> in three more worlds. In the first the wallet has a
  watermark, the forward sync receives one event and the backward sync meets an upstream
  that answers three times with status 500. In the second the forward sync receives a
  full page of 50 events and its second request is answered with status 401. In the
  third the upstream answers with an empty page.
\<close>

definition backward_outage_world :: world where
  "backward_outage_world =
     \<lparr>db = synced_db\<lparr>inv_invoices := [''inv_2'' \<mapsto> pending_invoice]\<rparr>,
      net = [(200, Events (Some [demo_event ''e7'' 120 1700000250 []])),
             (100, HttpStatus 500 ''down''), (100, HttpStatus 500 ''down''),
             (100, HttpStatus 500 ''down'')],
      clock = 1700000300000\<rparr>"

definition full_page :: "raw_event list" where
  "full_page = map (\<lambda>k. demo_event (''p'' @ show_int k) (200 + k) 1700000250 []) [1..50]"

definition forward_outage_world :: world where
  "forward_outage_world =
     \<lparr>db = empty_db\<lparr>inv_invoices := [''inv_2'' \<mapsto> pending_invoice]\<rparr>,
      net = [(200, Events (Some full_page)), (100, HttpStatus 401 ''unauthorized'')],
      clock = 1700000300000\<rparr>"

definition quiet_world :: world where
  "quiet_world =
     \<lparr>db = empty_db\<lparr>inv_invoices := [''inv_2'' \<mapsto> pending_invoice]\<rparr>,
      net = [(100, Events (Some []))],
      clock = 1700000300000\<rparr>"

text \<open>The requests of the matcher when \<open>inv_2\<close> is checked in the world \<open>v\<close>.\<close>

definition check_requests :: "world \<Rightarrow> world list" where
  "check_requests v =
     findTransferWithSync_requests no_parser (Some ''0:w'')
       (check_criteria ''inv_2'' pending_invoice 1500000000 (clock v))
       (snd (admit demo_ctx ''inv_check'' v))"

text \<open>
  The pending challenge of \<open>dave\<close> with an upstream that answers with an empty page, and
  the requests of the matcher when the challenge is confirmed in the world \<open>v\<close>.
\<close>

definition challenge_quiet_world :: world where
  "challenge_quiet_world =
     \<lparr>db = empty_db\<lparr>inv_agents := [''dave'' \<mapsto> pending_agent]\<rparr>,
      net = [(100, Events (Some []))],
      clock = 1700000400000\<rparr>"

definition confirm_requests :: "world \<Rightarrow> world list" where
  "confirm_requests v =
     findTransferWithSync_requests no_parser (normalizeAddress no_parser (Some ''0:W''))
       (confirm_criteria pending_agent 10000000 (clock v))
       (snd (admit demo_ctx ''inv_confirm_verification'' v))"


section \<open>The cache query returns the earliest qualifying transfer\<close>

lemma scan_rows_find:
  "scan_rows P m e s rows = List.find (row_accepted P m e s) rows"
  by (induction rows) (auto simp: row_accepted_def split: option.splits)

lemma find_take_Some:
  assumes "List.find Q (take n xs) = Some x"
  shows "\<exists>i<length xs. xs ! i = x \<and> Q x \<and> (\<forall>j<i. \<not> Q (xs ! j))"
proof -
  from assms obtain i where i: "i < length (take n xs)" "Q (take n xs ! i)"
    "x = take n xs ! i" "\<forall>j<i. \<not> Q (take n xs ! j)"
    unfolding find_Some_iff by blast
  from i(1) have lt: "i < length xs" "i < n" by simp_all
  have "\<forall>j<i. \<not> Q (xs ! j)"
  proof (intro allI impI)
    fix j assume "j < i"
    with i(4) lt show "\<not> Q (xs ! j)" by auto
  qed
  with i lt show ?thesis by auto
qed

lemma sorted_first_least:
  assumes "sorted (map f xs)" "i < length xs" "\<forall>j<i. \<not> Q (xs ! j)" "y \<in> set xs" "Q y"
  shows "f (xs ! i) \<le> f y"
proof -
  from assms(4) obtain k where k: "k < length xs" "xs ! k = y" by (auto simp: in_set_conv_nth)
  with assms(3,5) have "i \<le> k" by (metis not_le_imp_less)
  with assms(1) k(1) have "map f xs ! i \<le> map f xs ! k"
    by (simp add: sorted_iff_nth_mono)
  with k assms(2) show ?thesis by simp
qed

lemma qualifies_iff:
  "qualifies P w tg s e m ex st r \<longleftrightarrow>
     row_selected (Some w) (Some tg) (Some s) (Some e) r \<and> row_accepted P m ex st r"
  by (auto simp: qualifies_def row_selected_def row_accepted_def split: option.splits)

lemma query_Some_selected:
  assumes "queryCachedTransfer P tbl wallet tag startMs endMs m ex st = Some row"
  shows "row \<in> set tbl \<and> row_selected wallet tag startMs endMs row \<and> row_accepted P m ex st row"
proof -
  let ?xs = "sort_key ts_key (filter (row_selected wallet tag startMs endMs) tbl)"
  from assms have "List.find (row_accepted P m ex st) (take 50 ?xs) = Some row"
    by (simp add: queryCachedTransfer_def stmtTransferQuery_def scan_rows_find)
  from find_take_Some[OF this] obtain i where
    i: "i < length ?xs" "?xs ! i = row" "row_accepted P m ex st row" by blast
  from i(1,2) have "row \<in> set ?xs" by (metis nth_mem)
  with i(3) show ?thesis by simp
qed

text \<open>
  C1. Whenever \<open>queryCachedTransfer\<close> returns a cached transfer for a wallet, a tag, a
  window \<open>[startMs, endMs]\<close>, a minimum amount and a strictness setting, the transfer is a
  row of the cache that has the tag, a timestamp inside the window, an amount of at least
  the minimum and, in strict mode with an expected sender, the expected sender as its
  sender; and no cached transfer that satisfies these constraints has an earlier
  timestamp. In non-strict mode the sender plays no part.
\<close>

theorem queryCachedTransfer_earliest_qualifying:
  assumes "queryCachedTransfer parse tbl (Some wallet) (Some tag) (Some startMs) (Some endMs)
             minAmountNano expectedSender strictSender = Some row"
  shows "row \<in> set tbl \<and>
         qualifies parse wallet tag startMs endMs minAmountNano expectedSender strictSender row \<and>
         (\<forall>r\<in>set tbl.
            qualifies parse wallet tag startMs endMs minAmountNano expectedSender strictSender r
            \<longrightarrow> ts_key row \<le> ts_key r)"
proof -
  let ?sel = "row_selected (Some wallet) (Some tag) (Some startMs) (Some endMs)"
  let ?acc = "row_accepted parse minAmountNano expectedSender strictSender"
  let ?xs = "sort_key ts_key (filter ?sel tbl)"
  from assms have "List.find ?acc (take 50 ?xs) = Some row"
    by (simp add: queryCachedTransfer_def stmtTransferQuery_def scan_rows_find)
  from find_take_Some[OF this] obtain i where
    i: "i < length ?xs" "?xs ! i = row" "?acc row" "\<forall>j<i. \<not> ?acc (?xs ! j)" by blast
  from i(1,2) have "row \<in> set ?xs" by (metis nth_mem)
  then have mem: "row \<in> set tbl" and sel: "?sel row" by simp_all
  have srt: "sorted (map ts_key ?xs)" by (rule sorted_sort_key)
  have least: "ts_key row \<le> ts_key r"
    if "r \<in> set tbl"
      and "qualifies parse wallet tag startMs endMs minAmountNano expectedSender strictSender r" for r
  proof -
    from that have "r \<in> set ?xs" "?acc r" by (simp_all add: qualifies_iff)
    from sorted_first_least[OF srt i(1) i(4) this] i(2) show ?thesis by simp
  qed
  from mem sel i(3) least show ?thesis by (simp add: qualifies_iff)
qed

text \<open>
  Four cached transfers with the tag: in strict mode the one at 3000 is returned, the
  earlier ones have another sender or too small an amount, the later one at 4000
  qualifies too.
\<close>

theorem queryCachedTransfer_earliest_witness:
  "queryCachedTransfer no_parser demo_tbl (Some ''0:w'') (Some ''INV#1'') (Some 0) (Some 5000)
     5 (Some ''0:A'') True = Some (demo_row ''e1'' 3000 ''0:a'' ''5'') \<and>
   demo_row ''e1'' 3000 ''0:a'' ''5'' \<in> set demo_tbl \<and>
   qualifies no_parser ''0:w'' ''INV#1'' 0 5000 5 (Some ''0:A'') True (demo_row ''e1'' 3000 ''0:a'' ''5'') \<and>
   qualifies no_parser ''0:w'' ''INV#1'' 0 5000 5 (Some ''0:A'') True (demo_row ''e4'' 4000 ''0:a'' ''9'') \<and>
   ts_key (demo_row ''e1'' 3000 ''0:a'' ''5'') \<le> ts_key (demo_row ''e4'' 4000 ''0:a'' ''9'')"
proof -
  have h: "queryCachedTransfer no_parser demo_tbl (Some ''0:w'') (Some ''INV#1'') (Some 0) (Some 5000)
     5 (Some ''0:A'') True = Some (demo_row ''e1'' 3000 ''0:a'' ''5'')"
    by code_simp
  have q4: "qualifies no_parser ''0:w'' ''INV#1'' 0 5000 5 (Some ''0:A'') True
              (demo_row ''e4'' 4000 ''0:a'' ''9'')"
    by code_simp
  have m4: "demo_row ''e4'' 4000 ''0:a'' ''9'' \<in> set demo_tbl"
    by (simp add: demo_tbl_def)
  from queryCachedTransfer_earliest_qualifying[OF h] q4 m4 h show ?thesis by blast
qed

section \<open>The rate limiter\<close>

lemma call_seq_in_window:
  assumes "inv_rate_limits d (rate_key tool sid) = Some \<lparr>window_start = t0, count = c\<rparr>"
    and "\<forall>t\<in>set ts. t - t0 < windowMs cfg"
    and "c + int (length ts) \<le> rate_max cfg"
  shows "list_all is_allowed (fst (call_seq d sid tool cfg ts)) \<and>
         length (fst (call_seq d sid tool cfg ts)) = length ts \<and>
         inv_rate_limits (snd (call_seq d sid tool cfg ts)) (rate_key tool sid) =
           Some \<lparr>window_start = t0, count = c + int (length ts)\<rparr>"
  using assms
proof (induction ts arbitrary: d c)
  case Nil
  then show ?case by simp
next
  case (Cons t ts)
  let ?k = "rate_key tool sid"
  let ?d1 = "d\<lparr>inv_rate_limits := (inv_rate_limits d)(?k \<mapsto> \<lparr>window_start = t0, count = c + 1\<rparr>)\<rparr>"
  from Cons.prems have step: "checkRateLimit d t sid tool cfg = (Allowed (rate_max cfg - c - 1), ?d1)"
    by (simp add: checkRateLimit_def Let_def)
  have row1: "inv_rate_limits ?d1 ?k = Some \<lparr>window_start = t0, count = c + 1\<rparr>" by simp
  from Cons.prems have w: "\<forall>t\<in>set ts. t - t0 < windowMs cfg" and
    b: "(c + 1) + int (length ts) \<le> rate_max cfg" by simp_all
  from Cons.IH[OF row1 w b] step show ?case
    by (simp add: split_beta is_allowed_def add.assoc)
qed

text \<open>
  C7. For a (tool, caller) key with the configured window \<open>W\<close> and maximum \<open>N\<close>: let a
  call at time \<open>t0\<close> open a window (the key has no counter, or its window has elapsed)
  and let \<open>N - 1\<close> further calls arrive inside that window. All \<open>N\<close> calls are allowed.
  A further call inside the window is rejected, the state is unchanged and the
  retry-after duration \<open>W - (t - t0)\<close> is strictly positive; a call that arrives at
  least \<open>W\<close> after \<open>t0\<close> is allowed, and the counter is reset to \<open>1\<close> with the window
  starting at that call.
\<close>

theorem rate_limit_fixed_window:
  assumes opens: "case inv_rate_limits d (rate_key tool sid) of
                    None \<Rightarrow> True
                  | Some row \<Rightarrow> t0 - window_start row \<ge> windowMs cfg"
    and cfg: "cfg = getRateLimitConfig ctx tool"
    and len: "int (length ts) + 1 = rate_max cfg"
    and win: "\<forall>t\<in>set ts. t - t0 < windowMs cfg"
  shows "list_all is_allowed (fst (call_seq d sid tool cfg (t0 # ts))) \<and>
         int (length (fst (call_seq d sid tool cfg (t0 # ts)))) = rate_max cfg \<and>
         (t - t0 < windowMs cfg \<longrightarrow>
            checkRateLimit (snd (call_seq d sid tool cfg (t0 # ts))) t sid tool cfg =
              (Rejected (windowMs cfg - (t - t0)), snd (call_seq d sid tool cfg (t0 # ts))) \<and>
            0 < windowMs cfg - (t - t0)) \<and>
         (t - t0 \<ge> windowMs cfg \<longrightarrow>
            fst (checkRateLimit (snd (call_seq d sid tool cfg (t0 # ts))) t sid tool cfg) =
              Allowed (rate_max cfg - 1) \<and>
            inv_rate_limits (snd (checkRateLimit (snd (call_seq d sid tool cfg (t0 # ts))) t sid tool cfg))
              (rate_key tool sid) = Some \<lparr>window_start = t, count = 1\<rparr>)"
proof -
  let ?k = "rate_key tool sid"
  let ?d1 = "d\<lparr>inv_rate_limits := (inv_rate_limits d)(?k \<mapsto> \<lparr>window_start = t0, count = 1\<rparr>)\<rparr>"
  let ?rs = "fst (call_seq d sid tool cfg (t0 # ts))"
  let ?d' = "snd (call_seq d sid tool cfg (t0 # ts))"
  have first: "checkRateLimit d t0 sid tool cfg = (Allowed (rate_max cfg - 1), ?d1)"
  proof (cases "inv_rate_limits d ?k")
    case None
    then show ?thesis by (simp add: checkRateLimit_def Let_def)
  next
    case (Some row)
    with opens have "t0 - window_start row \<ge> windowMs cfg" by simp
    with Some show ?thesis by (simp add: checkRateLimit_def Let_def)
  qed
  have row1: "inv_rate_limits ?d1 ?k = Some \<lparr>window_start = t0, count = 1\<rparr>" by simp
  from len have b: "1 + int (length ts) \<le> rate_max cfg" by simp
  note rest = call_seq_in_window[OF row1 win b]
  from first have rs: "?rs = Allowed (rate_max cfg - 1) # fst (call_seq ?d1 sid tool cfg ts)"
    and d': "?d' = snd (call_seq ?d1 sid tool cfg ts)"
    by (simp_all add: split_beta)
  from rest d' len have row: "inv_rate_limits ?d' ?k = Some \<lparr>window_start = t0, count = rate_max cfg\<rparr>"
    by (simp add: add.commute)
  from rs rest len have "list_all is_allowed ?rs" "int (length ?rs) = rate_max cfg"
    by (simp_all add: is_allowed_def)
  moreover from row have "t - t0 < windowMs cfg \<longrightarrow>
            checkRateLimit ?d' t sid tool cfg = (Rejected (windowMs cfg - (t - t0)), ?d') \<and>
            0 < windowMs cfg - (t - t0)"
    by (simp add: checkRateLimit_def Let_def)
  moreover from row have "t - t0 \<ge> windowMs cfg \<longrightarrow>
            fst (checkRateLimit ?d' t sid tool cfg) = Allowed (rate_max cfg - 1) \<and>
            inv_rate_limits (snd (checkRateLimit ?d' t sid tool cfg)) ?k =
              Some \<lparr>window_start = t, count = 1\<rparr>"
    by (simp add: checkRateLimit_def Let_def)
  ultimately show ?thesis by blast
qed

text \<open>
  With a maximum of two calls per minute: calls at 1000 and 2000 are allowed, a call at
  5000 is rejected for 56000 ms, a call at 61000 is allowed.
\<close>

theorem rate_limit_fixed_window_witness:
  "rate_max (getRateLimitConfig demo_ctx ''inv_check'') = 2 \<and>
   windowMs (getRateLimitConfig demo_ctx ''inv_check'') = 60000 \<and>
   list_all is_allowed
     (fst (call_seq empty_db 7 ''inv_check'' (getRateLimitConfig demo_ctx ''inv_check'') [1000, 2000])) \<and>
   fst (checkRateLimit
          (snd (call_seq empty_db 7 ''inv_check'' (getRateLimitConfig demo_ctx ''inv_check'') [1000, 2000]))
          5000 7 ''inv_check'' (getRateLimitConfig demo_ctx ''inv_check'')) = Rejected 56000 \<and>
   fst (checkRateLimit
          (snd (call_seq empty_db 7 ''inv_check'' (getRateLimitConfig demo_ctx ''inv_check'') [1000, 2000]))
          61000 7 ''inv_check'' (getRateLimitConfig demo_ctx ''inv_check'')) = Allowed 1"
proof -
  let ?cfg = "getRateLimitConfig demo_ctx ''inv_check''"
  have n: "rate_max ?cfg = 2" and w: "windowMs ?cfg = 60000" by code_simp+
  have opens: "case inv_rate_limits empty_db (rate_key ''inv_check'' 7) of
                 None \<Rightarrow> True
               | Some row \<Rightarrow> 1000 - window_start row \<ge> windowMs ?cfg"
    by (simp add: empty_db_def)
  have len: "int (length [2000::int]) + 1 = rate_max ?cfg" using n by simp
  have win: "\<forall>t\<in>set [2000::int]. t - 1000 < windowMs ?cfg" using w by simp
  from rate_limit_fixed_window[OF opens refl len win, of 5000]
       rate_limit_fixed_window[OF opens refl len win, of 61000] n w
  show ?thesis by simp
qed

section \<open>Ingestion is idempotent\<close>


lemma insert_keys: "keys_of (stmtTransferInsert tbl row) = insert (tr_key row) (keys_of tbl)"
  by (auto simp: stmtTransferInsert_def keys_of_def)

lemma insert_present: "tr_key row \<in> keys_of tbl \<Longrightarrow> stmtTransferInsert tbl row = tbl"
  by (simp add: stmtTransferInsert_def keys_of_def)

lemma insert_distinct: "distinct (map tr_key tbl) \<Longrightarrow> distinct (map tr_key (stmtTransferInsert tbl row))"
  by (auto simp: stmtTransferInsert_def)

lemma ingest_actions_mono:
  "keys_of tbl \<subseteq> keys_of (ingest_actions P w n eid lt ts i acts tbl)"
proof (induction acts arbitrary: i tbl)
  case Nil
  then show ?case by simp
next
  case (Cons a acts)
  show ?case
  proof (cases a)
    case OtherAction
    with Cons.IH show ?thesis by simp
  next
    case (TonTransfer t)
    show ?thesis
    proof (cases "sameAddress P (tt_recipient t) w")
      case False
      with TonTransfer Cons.IH show ?thesis by simp
    next
      case True
      have "keys_of tbl \<subseteq> keys_of (stmtTransferInsert tbl row)" for row
        by (auto simp: insert_keys)
      moreover have "keys_of tb \<subseteq> keys_of (ingest_actions P w n eid lt ts (Suc i) acts tb)" for tb
        by (rule Cons.IH)
      ultimately show ?thesis using True TonTransfer
        by simp (meson subset_trans)
    qed
  qed
qed

lemma ingest_actions_distinct:
  "distinct (map tr_key tbl) \<Longrightarrow> distinct (map tr_key (ingest_actions P w n eid lt ts i acts tbl))"
  by (induction acts arbitrary: i tbl) (auto simp: Let_def insert_distinct split: action.splits)

lemma ingest_actions_again:
  "keys_of (ingest_actions P w n1 eid lt ts i acts tbl0) \<subseteq> keys_of tbl
   \<Longrightarrow> ingest_actions P w n2 eid lt ts i acts tbl = tbl"
proof (induction acts arbitrary: i tbl0 tbl)
  case Nil
  then show ?case by simp
next
  case (Cons a acts)
  show ?case
  proof (cases a)
    case OtherAction
    with Cons show ?thesis by simp
  next
    case (TonTransfer t)
    show ?thesis
    proof (cases "sameAddress P (tt_recipient t) w")
      case False
      with TonTransfer Cons show ?thesis by simp
    next
      case True
      define mk where "mk n = transfer_row_for P w n eid lt ts i t" for n
      have key: "tr_key (mk n2) = tr_key (mk n1)"
        by (simp add: mk_def tr_key_def transfer_row_for_def Let_def)
      from True TonTransfer have e1: "ingest_actions P w n1 eid lt ts i (a # acts) tbl0 =
          ingest_actions P w n1 eid lt ts (Suc i) acts (stmtTransferInsert tbl0 (mk n1))"
        by (simp add: mk_def)
      from True TonTransfer have e2: "ingest_actions P w n2 eid lt ts i (a # acts) tbl =
          ingest_actions P w n2 eid lt ts (Suc i) acts (stmtTransferInsert tbl (mk n2))"
        by (simp add: mk_def)
      from Cons.prems e1 have sub: "keys_of (ingest_actions P w n1 eid lt ts (Suc i) acts
              (stmtTransferInsert tbl0 (mk n1))) \<subseteq> keys_of tbl" by simp
      have "tr_key (mk n1) \<in> keys_of (stmtTransferInsert tbl0 (mk n1))"
        by (simp add: insert_keys)
      with ingest_actions_mono sub have "tr_key (mk n1) \<in> keys_of tbl" by blast
      with key have "stmtTransferInsert tbl (mk n2) = tbl" by (simp add: insert_present)
      with e2 Cons.IH[OF sub] show ?thesis by simp
    qed
  qed
qed

lemma ingest_loop_mono:
  "keys_of tbl \<subseteq> keys_of (snd (ingest_loop P w n evs acc tbl))"
proof (induction evs arbitrary: acc tbl)
  case Nil
  then show ?case by simp
next
  case (Cons ev evs)
  have "keys_of tbl \<subseteq> keys_of (ingest_actions P w n eid lt ts 0 acts tbl)" for eid lt ts acts
    by (rule ingest_actions_mono)
  moreover have "keys_of tb \<subseteq> keys_of (snd (ingest_loop P w n evs ac tb))" for ac tb
    by (rule Cons.IH)
  ultimately show ?case
    by (simp add: Let_def) (meson subset_trans)
qed

lemma ingest_loop_distinct:
  "distinct (map tr_key tbl) \<Longrightarrow> distinct (map tr_key (snd (ingest_loop P w n evs acc tbl)))"
  by (induction evs arbitrary: acc tbl) (simp_all add: Let_def ingest_actions_distinct)

lemma ingest_loop_again:
  "keys_of (snd (ingest_loop P w n1 evs acc1 tbl0)) \<subseteq> keys_of tbl
   \<Longrightarrow> snd (ingest_loop P w n2 evs acc2 tbl) = tbl"
proof (induction evs arbitrary: acc1 acc2 tbl0 tbl)
  case Nil
  then show ?case by simp
next
  case (Cons ev evs)
  let ?eid = "nullish (ev_event_id ev) (ev_id ev)"
  let ?lt = "nullish (ev_lt ev) (ev_event_lt ev)"
  let ?ts = "eventTimeMs (nullish (ev_timestamp ev) (nullish (ev_utime ev) (ev_time ev)))"
  let ?acts = "case ev_actions ev of None \<Rightarrow> [] | Some acts \<Rightarrow> acts"
  let ?t1 = "ingest_actions P w n1 ?eid ?lt ?ts 0 ?acts tbl0"
  from Cons.prems obtain acc' where
    sub: "keys_of (snd (ingest_loop P w n1 evs acc' ?t1)) \<subseteq> keys_of tbl"
    by (simp add: Let_def)
  from ingest_loop_mono[of ?t1 P w n1 evs acc'] sub
  have "keys_of ?t1 \<subseteq> keys_of tbl" by blast
  from ingest_actions_again[OF this] have same: "ingest_actions P w n2 ?eid ?lt ?ts 0 ?acts tbl = tbl" .
  show ?case
    by (simp add: Let_def same Cons.IH[OF sub])
qed

lemma ingestEvents_snd:
  "snd (ingestEvents parse tb wallet events n) =
     snd (ingest_loop parse wallet n events \<lparr>minLt = None, maxLt = None, minTs = None, maxTs = None\<rparr> tb)"
  by (simp add: ingestEvents_def split_beta)

text \<open>
  C8. Ingestion is idempotent. For every wallet, event list and cache whose rows have
  distinct keys \<open>(wallet, event_id, action_index)\<close>, running \<open>ingestEvents\<close> a second
  time on the same events leaves the cache exactly as the first run left it, and the keys
  of the cache stay distinct: a key never yields a second row.
\<close>

theorem ingestEvents_idempotent:
  assumes "distinct (map tr_key tbl)"
  shows "snd (ingestEvents parse (snd (ingestEvents parse tbl wallet events now1)) wallet events now2) =
           snd (ingestEvents parse tbl wallet events now1) \<and>
         distinct (map tr_key (snd (ingestEvents parse tbl wallet events now1)))"
  using assms
  by (simp add: ingestEvents_snd ingest_loop_distinct ingest_loop_again[OF subset_refl])

text \<open>Two events with one native transfer each, ingested twice into an empty cache.\<close>

theorem ingestEvents_idempotent_witness:
  "distinct (map tr_key ([] :: transfer_row list)) \<and>
   snd (ingestEvents no_parser (snd (ingestEvents no_parser [] (Some ''0:w'') demo_events 1000))
          (Some ''0:w'') demo_events 2000) =
     snd (ingestEvents no_parser [] (Some ''0:w'') demo_events 1000) \<and>
   distinct (map tr_key (snd (ingestEvents no_parser [] (Some ''0:w'') demo_events 1000))) \<and>
   length (snd (ingestEvents no_parser [] (Some ''0:w'') demo_events 1000)) = 2"
proof -
  have d: "distinct (map tr_key ([] :: transfer_row list))" by simp
  have l: "length (snd (ingestEvents no_parser [] (Some ''0:w'') demo_events 1000)) = 2"
    by code_simp
  from ingestEvents_idempotent[OF d, of no_parser "Some ''0:w''" demo_events 1000 2000] d l
  show ?thesis by simp
qed

section \<open>What the sync engine and the matcher change\<close>

lemma tonapiFetch_db: "db (snd (tonapiFetch w)) = db w"
  by (auto simp: tonapiFetch_def Let_def split: list.splits upstream.splits prod.splits)

lemma retry_loop_db: "db (snd (retry_loop m a l w)) = db w"
proof (induction m a l w rule: retry_loop.induct)
  case (1 m a l w)
  show ?case
  proof (cases "tonapiFetch w")
    case (Pair r w')
    with tonapiFetch_db[of w] have dbw: "db w' = db w" by simp
    show ?thesis
    proof (cases r)
      case (Inl err)
      with Pair dbw 1[OF _ Pair[symmetric] ] show ?thesis
        by (subst retry_loop.simps) auto
    next
      case (Inr d)
      with Pair dbw show ?thesis by (subst retry_loop.simps) auto
    qed
  qed
qed

lemma fetchRetry_db: "db (snd (tonapiFetchWithRetry w)) = db w"
  by (simp add: tonapiFetchWithRetry_def retry_loop_db)

lemma ingest_page_ledger: "ledger (db (snd (ingest_page P wl evs w))) = ledger (db w)"
  by (simp add: ingest_page_def ledger_def split_beta)

lemma updateWalletSync_ledger: "ledger (updateWalletSync d now wl stats) = ledger d"
  by (simp add: updateWalletSync_def ledger_def Let_def split: option.splits)

lemma syncNew_loop_ledger:
  "ledger (db (snd (syncNew_loop P wl page afterLt n stats w))) = ledger (db w)"
proof (induction P wl page afterLt n stats w rule: syncNew_loop.induct)
  case (1 P wl page afterLt n stats w)
  obtain r w1 where f: "tonapiFetchWithRetry w = (r, w1)" by (cases "tonapiFetchWithRetry w")
  with fetchRetry_db[of w] have d1: "db w1 = db w" by simp
  show ?case
  proof (cases r)
    case (Inl err)
    with f d1 show ?thesis by (subst syncNew_loop.simps) simp
  next
    case (Inr data)
    note IH = 1[OF _ f[symmetric] Inr refl _ refl refl refl refl refl]
    from f Inr d1 IH show ?thesis
      by (subst syncNew_loop.simps) (auto simp: Let_def ingest_page_ledger)
  qed
qed

lemma syncOld_loop_ledger:
  "ledger (db (snd (syncOld_loop P wl st page b n stats w))) = ledger (db w)"
proof (induction P wl st page b n stats w rule: syncOld_loop.induct)
  case (1 P wl st page b n stats w)
  obtain r w1 where f: "tonapiFetchWithRetry w = (r, w1)" by (cases "tonapiFetchWithRetry w")
  with fetchRetry_db[of w] have d1: "db w1 = db w" by simp
  show ?case
  proof (cases r)
    case (Inl err)
    with f d1 show ?thesis by (subst syncOld_loop.simps) simp
  next
    case (Inr data)
    note IH = 1[OF _ f[symmetric] Inr refl _ refl refl refl refl refl]
    from f Inr d1 IH show ?thesis
      by (subst syncOld_loop.simps) (auto simp: Let_def ingest_page_ledger)
  qed
qed

lemma syncNew_loop_ledgerD:
  "syncNew_loop P wl page afterLt n stats w = (r, w') \<Longrightarrow> ledger (db w') = ledger (db w)"
  using syncNew_loop_ledger[of P wl page afterLt n stats w] by simp

lemma syncOld_loop_ledgerD:
  "syncOld_loop P wl st page b n stats w = (r, w') \<Longrightarrow> ledger (db w') = ledger (db w)"
  using syncOld_loop_ledger[of P wl st page b n stats w] by simp

lemma ledger_db_update: "ledger (db (w\<lparr>db := d\<rparr>)) = ledger d"
  by simp

lemma syncNewEvents_ledger:
  "syncNewEvents P wl w = (r, w') \<Longrightarrow> ledger (db w') = ledger (db w)"
  by (auto simp: syncNewEvents_def Let_def updateWalletSync_ledger
      split: prod.splits sum.splits if_splits dest: syncNew_loop_ledgerD)

lemma syncOlderEvents_ledger:
  "syncOlderEvents P wl st w = (r, w') \<Longrightarrow> ledger (db w') = ledger (db w)"
  by (auto simp: syncOlderEvents_def Let_def updateWalletSync_ledger
      split: prod.splits sum.splits if_splits dest: syncOld_loop_ledgerD)

lemma findTransferWithSync_ledger:
  "findTransferWithSync P wl c w = (r, w') \<Longrightarrow> ledger (db w') = ledger (db w)"
  by (auto simp: findTransferWithSync_def Let_def
      split: option.splits prod.splits sum.splits if_splits
      dest!: syncNewEvents_ledger syncOlderEvents_ledger)

lemma findTransferWithSync_match:
  "findTransferWithSync P wl c w = (Inr (Some m, src), w') \<Longrightarrow> query_criteria P (db w') wl c = Some m"
  by (auto simp: findTransferWithSync_def Let_def split: option.splits prod.splits sum.splits if_splits)



lemma checkRateLimit_frame:
  "checkRateLimit d now sid tool cfg = (r, d') \<Longrightarrow>
     inv_agents d' = inv_agents d \<and> inv_invoices d' = inv_invoices d \<and>
     inv_wallet_sync d' = inv_wallet_sync d \<and> inv_transfers d' = inv_transfers d"
  by (auto simp: checkRateLimit_def Let_def split: option.splits if_splits)

lemma admit_frame:
  "admit ctx tool w = (r, w1) \<Longrightarrow>
     inv_agents (db w1) = inv_agents (db w) \<and> inv_invoices (db w1) = inv_invoices (db w) \<and>
     inv_wallet_sync (db w1) = inv_wallet_sync (db w) \<and> inv_transfers (db w1) = inv_transfers (db w) \<and>
     net w1 = net w \<and> clock w1 = clock w"
  by (auto simp: admit_def split: sum.splits if_splits prod.splits rate_result.splits
      dest: checkRateLimit_frame)

lemma ledgerD:
  "ledger d' = ledger d \<Longrightarrow> inv_agents d' = inv_agents d \<and> inv_invoices d' = inv_invoices d \<and>
     inv_rate_limits d' = inv_rate_limits d"
  by (simp add: ledger_def)


section \<open>Transfers without a timestamp\<close>


lemma insert_rows: "set (stmtTransferInsert tbl row) \<subseteq> insert row (set tbl)"
  by (auto simp: stmtTransferInsert_def)

lemma insert_prefix: "\<exists>extra. stmtTransferInsert tbl row = tbl @ extra"
  by (simp add: stmtTransferInsert_def)

lemma ingest_actions_rows:
  "set (ingest_actions P w n eid lt ts i acts tbl) \<subseteq> set tbl \<union> {r. tr_timestamp r = ts}"
proof (induction acts arbitrary: i tbl)
  case Nil
  then show ?case by simp
next
  case (Cons a acts)
  have ins: "set (stmtTransferInsert tbl row) \<subseteq> set tbl \<union> {r. tr_timestamp r = ts}"
    if "tr_timestamp row = ts" for row
    using insert_rows[of tbl row] that by auto
  have IH: "set (ingest_actions P w n eid lt ts (Suc i) acts tb) \<subseteq> set tb \<union> {r. tr_timestamp r = ts}" for tb
    by (rule Cons.IH)
  show ?case
  proof (cases a)
    case OtherAction
    with IH show ?thesis by simp
  next
    case (TonTransfer t)
    show ?thesis
    proof (cases "sameAddress P (tt_recipient t) w")
      case False
      with TonTransfer IH show ?thesis by simp
    next
      case True
      have "tr_timestamp (transfer_row_for P w n eid lt ts i t) = ts"
        by (simp add: transfer_row_for_def Let_def)
      from ins[OF this] IH[of "stmtTransferInsert tbl (transfer_row_for P w n eid lt ts i t)"]
      show ?thesis using True TonTransfer by auto
    qed
  qed
qed

lemma ingest_actions_prefix:
  "\<exists>extra. ingest_actions P w n eid lt ts i acts tbl = tbl @ extra"
proof (induction acts arbitrary: i tbl)
  case Nil
  then show ?case by simp
next
  case (Cons a acts)
  have IH: "\<exists>extra. ingest_actions P w n eid lt ts (Suc i) acts tb = tb @ extra" for tb
    by (rule Cons.IH)
  show ?case
  proof (cases a)
    case OtherAction
    with IH show ?thesis by simp
  next
    case (TonTransfer t)
    show ?thesis
    proof (cases "sameAddress P (tt_recipient t) w")
      case False
      with TonTransfer IH show ?thesis by simp
    next
      case True
      obtain row where e: "ingest_actions P w n eid lt ts i (a # acts) tbl =
         ingest_actions P w n eid lt ts (Suc i) acts (stmtTransferInsert tbl row)"
        using True TonTransfer by simp
      from insert_prefix obtain x where x: "stmtTransferInsert tbl row = tbl @ x" by blast
      from IH obtain y where "ingest_actions P w n eid lt ts (Suc i) acts (stmtTransferInsert tbl row)
          = stmtTransferInsert tbl row @ y" by blast
      with e x show ?thesis by simp
    qed
  qed
qed

lemma ingest_loop_prefix:
  "\<exists>extra. snd (ingest_loop P w n evs acc tbl) = tbl @ extra"
proof (induction evs arbitrary: acc tbl)
  case Nil
  then show ?case by simp
next
  case (Cons ev evs)
  let ?t1 = "ingest_actions P w n (nullish (ev_event_id ev) (ev_id ev)) (nullish (ev_lt ev) (ev_event_lt ev))
       (eventTimeMs (nullish (ev_timestamp ev) (nullish (ev_utime ev) (ev_time ev)))) 0
       (case ev_actions ev of None \<Rightarrow> [] | Some acts \<Rightarrow> acts) tbl"
  obtain acc' where e: "snd (ingest_loop P w n (ev # evs) acc tbl) = snd (ingest_loop P w n evs acc' ?t1)"
    by (simp add: Let_def)
  from ingest_actions_prefix obtain x where x: "?t1 = tbl @ x" by blast
  from Cons.IH obtain y where "snd (ingest_loop P w n evs acc' ?t1) = ?t1 @ y" by blast
  with e x show ?case by simp
qed

lemma ingestEvents_prefix: "\<exists>extra. snd (ingestEvents P tbl w evs n) = tbl @ extra"
  by (simp add: ingestEvents_snd ingest_loop_prefix)

lemma ingestEvents_single_rows:
  "set (snd (ingestEvents P tbl w [ev] n)) \<subseteq>
     set tbl \<union> {r. tr_timestamp r = eventTimeMs (nullish (ev_timestamp ev) (nullish (ev_utime ev) (ev_time ev)))}"
  by (simp add: ingestEvents_snd Let_def ingest_actions_rows)

lemma query_timestamp:
  "queryCachedTransfer P tbl wl tag s e m ex st = Some row \<Longrightarrow> row \<in> set tbl \<and> tr_timestamp row \<noteq> None"
  by (drule query_Some_selected) (auto simp: row_selected_def split: option.splits)

lemma query_all_null:
  assumes "\<forall>r\<in>set tbl. tr_timestamp r = None"
  shows "queryCachedTransfer P tbl wl tag s e m ex st = None"
proof (cases "queryCachedTransfer P tbl wl tag s e m ex st")
  case None
  then show ?thesis .
next
  case (Some row)
  from query_timestamp[OF this] assms show ?thesis by auto
qed

lemma matcher_timestamp:
  "findTransferWithSync P wl c w = (Inr (Some m, src), w') \<Longrightarrow>
     m \<in> set (inv_transfers (db w')) \<and> tr_timestamp m \<noteq> None"
  by (drule findTransferWithSync_match) (auto simp: query_criteria_def dest: query_timestamp)

lemma invCheck_paid_backed:
  assumes run: "invCheck params ctx w = (Success data, w')"
    and paid: "map_of data ''status'' = Some (VStr ''paid'')"
    and inv: "inv_invoices (db w) (trim (str_or_empty (p_invoice_id params))) = Some invoice"
    and unpaid: "iv_status invoice \<noteq> ''paid''"
  shows "\<exists>m\<in>set (inv_transfers (db w')). tr_timestamp m \<noteq> None \<and>
           map_of data ''tx_event_id'' = Some (VStr (tr_event_id m))"
proof -
  obtain a w1 where ad: "admit ctx ''inv_check'' w = (a, w1)" by (cases "admit ctx ''inv_check'' w")
  from admit_frame[OF ad] inv have inv1: "inv_invoices (db w1) (trim (str_or_empty (p_invoice_id params))) = Some invoice"
    by simp
  from run ad obtain u where a: "a = Inr u" by (cases a) (auto simp: invCheck_def)
  from run paid ad a inv1 unpaid obtain amt m src w2 where
    f: "findTransferWithSync (address_parse ctx) (Some (iv_recipient_wallet invoice))
          (check_criteria (trim (str_or_empty (p_invoice_id params))) invoice amt (clock w1)) w1 =
        (Inr (Some m, src), w2)"
    and tr: "inv_transfers (db w') = inv_transfers (db w2)"
    and ev: "map_of data ''tx_event_id'' = Some (VStr (tr_event_id m))"
    by (auto simp: invCheck_def Let_def stmtInvoiceMarkPaid_def stmtInvoiceUpdateLastCheck_def
        split: if_splits option.splits sum.splits prod.splits)
  from matcher_timestamp[OF f] tr ev show ?thesis by auto
qed

lemma invConfirm_verified_backed:
  assumes run: "invConfirmVerification params ctx w = (Success data, w')"
    and ver: "map_of data ''status'' = Some (VStr ''verified'')"
    and ag: "inv_agents (db w) (trim (str_or_empty (p_agent_id params))) = Some agent"
    and unver: "ag_status agent \<noteq> ''verified''"
  shows "\<exists>m\<in>set (inv_transfers (db w')). tr_timestamp m \<noteq> None \<and>
           map_of data ''proof_event_id'' = Some (VStr (tr_event_id m))"
proof -
  obtain a w1 where ad: "admit ctx ''inv_confirm_verification'' w = (a, w1)"
    by (cases "admit ctx ''inv_confirm_verification'' w")
  from admit_frame[OF ad] ag have ag1: "inv_agents (db w1) (trim (str_or_empty (p_agent_id params))) = Some agent"
    by simp
  from run ad obtain u where a: "a = Inr u" by (cases a) (auto simp: invConfirmVerification_def)
  from run ver ad a ag1 unver obtain wl c m src w2 where
    f: "findTransferWithSync (address_parse ctx) wl c w1 = (Inr (Some m, src), w2)"
    and tr: "inv_transfers (db w') = inv_transfers (db w2)"
    and ev: "map_of data ''proof_event_id'' = Some (VStr (tr_event_id m))"
    by (auto simp: invConfirmVerification_def Let_def stmtAgentVerify_def
        split: if_splits option.splits sum.splits prod.splits)
  from matcher_timestamp[OF f] tr ev show ?thesis by auto
qed

text \<open>
  C9. A cached transfer without a timestamp is never matched. When an upstream event has
  no parsable time field, every row that \<open>ingestEvents\<close> adds for it has a \<open>null\<close>
  timestamp; ingestion only appends rows, so the timestamp stays \<open>null\<close>; the cache
  query and the matcher never return a row with a \<open>null\<close> timestamp, whatever the
  wallet, tag, window, amount and sender of the invoice or challenge; and whenever
  \<open>inv_check\<close> turns an unpaid invoice into \<open>paid\<close>, or \<open>inv_confirm_verification\<close> an
  unverified agent into \<open>verified\<close>, the event it records belongs to a cached row with a
  timestamp.
\<close>

theorem null_timestamp_never_matched:
  "(eventTimeMs (nullish (ev_timestamp ev) (nullish (ev_utime ev) (ev_time ev))) = None \<longrightarrow>
      (\<forall>row\<in>set (snd (ingestEvents parse tbl wallet [ev] now)). row \<in> set tbl \<or> tr_timestamp row = None)) \<and>
   (\<exists>extra. snd (ingestEvents parse tbl wallet evs now) = tbl @ extra) \<and>
   (queryCachedTransfer parse tbl wallet tag startMs endMs minAmountNano expectedSender strictSender = Some row
      \<longrightarrow> tr_timestamp row \<noteq> None) \<and>
   ((\<forall>r\<in>set tbl. tr_timestamp r = None) \<longrightarrow>
      queryCachedTransfer parse tbl wallet tag startMs endMs minAmountNano expectedSender strictSender = None) \<and>
   (findTransferWithSync parse wallet c w = (Inr (Some m, src), w') \<longrightarrow>
      m \<in> set (inv_transfers (db w')) \<and> tr_timestamp m \<noteq> None) \<and>
   (invCheck params ctx w = (Success data, w') \<and> map_of data ''status'' = Some (VStr ''paid'') \<and>
    inv_invoices (db w) (trim (str_or_empty (p_invoice_id params))) = Some invoice \<and>
    iv_status invoice \<noteq> ''paid'' \<longrightarrow>
      (\<exists>m\<in>set (inv_transfers (db w')). tr_timestamp m \<noteq> None \<and>
         map_of data ''tx_event_id'' = Some (VStr (tr_event_id m)))) \<and>
   (invConfirmVerification params ctx w = (Success data, w') \<and>
    map_of data ''status'' = Some (VStr ''verified'') \<and>
    inv_agents (db w) (trim (str_or_empty (p_agent_id params))) = Some agent \<and>
    ag_status agent \<noteq> ''verified'' \<longrightarrow>
      (\<exists>m\<in>set (inv_transfers (db w')). tr_timestamp m \<noteq> None \<and>
         map_of data ''proof_event_id'' = Some (VStr (tr_event_id m))))"
proof (intro conjI impI)
  assume "eventTimeMs (nullish (ev_timestamp ev) (nullish (ev_utime ev) (ev_time ev))) = None"
  with ingestEvents_single_rows[of parse tbl wallet ev now]
  show "\<forall>row\<in>set (snd (ingestEvents parse tbl wallet [ev] now)). row \<in> set tbl \<or> tr_timestamp row = None"
    by auto
next
  show "\<exists>extra. snd (ingestEvents parse tbl wallet evs now) = tbl @ extra"
    by (rule ingestEvents_prefix)
next
  assume "queryCachedTransfer parse tbl wallet tag startMs endMs minAmountNano expectedSender strictSender = Some row"
  from query_timestamp[OF this] show "tr_timestamp row \<noteq> None" by simp
next
  assume "\<forall>r\<in>set tbl. tr_timestamp r = None"
  then show "queryCachedTransfer parse tbl wallet tag startMs endMs minAmountNano expectedSender strictSender = None"
    by (rule query_all_null)
next
  assume "findTransferWithSync parse wallet c w = (Inr (Some m, src), w')"
  from matcher_timestamp[OF this] show "m \<in> set (inv_transfers (db w'))" "tr_timestamp m \<noteq> None"
    by simp_all
next
  assume "invCheck params ctx w = (Success data, w') \<and> map_of data ''status'' = Some (VStr ''paid'') \<and>
    inv_invoices (db w) (trim (str_or_empty (p_invoice_id params))) = Some invoice \<and>
    iv_status invoice \<noteq> ''paid''"
  then show "\<exists>m\<in>set (inv_transfers (db w')). tr_timestamp m \<noteq> None \<and>
         map_of data ''tx_event_id'' = Some (VStr (tr_event_id m))"
    using invCheck_paid_backed by blast
next
  assume "invConfirmVerification params ctx w = (Success data, w') \<and>
    map_of data ''status'' = Some (VStr ''verified'') \<and>
    inv_agents (db w) (trim (str_or_empty (p_agent_id params))) = Some agent \<and>
    ag_status agent \<noteq> ''verified''"
  then show "\<exists>m\<in>set (inv_transfers (db w')). tr_timestamp m \<noteq> None \<and>
         map_of data ''proof_event_id'' = Some (VStr (tr_event_id m))"
    using invConfirm_verified_backed by blast
qed

text \<open>
  The event without a time field yields one row without a timestamp, which no query
  returns; the rows that the query, the matcher and the two tools do return carry one.
\<close>

theorem null_timestamp_never_matched_witness:
  "eventTimeMs (nullish (ev_timestamp timeless_event)
      (nullish (ev_utime timeless_event) (ev_time timeless_event))) = None \<and>
   length (snd (ingestEvents no_parser [] (Some ''0:w'') [timeless_event] 1000)) = 1 \<and>
   list_all (\<lambda>r. tr_timestamp r = None \<and> tr_comment_tag r = Some ''INV#1'')
     (snd (ingestEvents no_parser [] (Some ''0:w'') [timeless_event] 1000)) \<and>
   queryCachedTransfer no_parser (snd (ingestEvents no_parser [] (Some ''0:w'') [timeless_event] 1000))
     (Some ''0:w'') (Some ''INV#1'') (Some 0) (Some 5000) 1 None False = None \<and>
   queryCachedTransfer no_parser demo_tbl (Some ''0:w'') (Some ''INV#1'') (Some 0) (Some 5000)
     5 (Some ''0:A'') True = Some (demo_row ''e1'' 3000 ''0:a'' ''5'') \<and>
   tr_timestamp (demo_row ''e1'' 3000 ''0:a'' ''5'') \<noteq> None \<and>
   fst (findTransferWithSync no_parser (Some ''0:w'')
          (confirm_criteria pending_agent 10000000 1700000400000) challenge_world) =
     Inr (Some challenge_payment, ''cache'') \<and>
   tr_timestamp challenge_payment \<noteq> None \<and>
   status_of (fst (invCheck (i_params (check_at ''inv_3'' 0)) demo_ctx unexpired_world)) = Some ''paid'' \<and>
   (\<exists>m\<in>set (inv_transfers (db (snd (invCheck (i_params (check_at ''inv_3'' 0)) demo_ctx unexpired_world)))).
      tr_timestamp m \<noteq> None \<and> tr_event_id m = ''e3'') \<and>
   status_of (fst (invConfirmVerification (i_params (confirm_at ''dave'' 0)) demo_ctx challenge_world)) =
     Some ''verified'' \<and>
   (\<exists>m\<in>set (inv_transfers
               (db (snd (invConfirmVerification (i_params (confirm_at ''dave'' 0)) demo_ctx challenge_world)))).
      tr_timestamp m \<noteq> None \<and> tr_event_id m = ''e8'')"
proof -
  let ?tbl = "snd (ingestEvents no_parser [] (Some ''0:w'') [timeless_event] 1000)"
  have t: "eventTimeMs (nullish (ev_timestamp timeless_event)
      (nullish (ev_utime timeless_event) (ev_time timeless_event))) = None"
    by code_simp
  have l: "length ?tbl = 1" by code_simp
  have g: "list_all (\<lambda>r. tr_comment_tag r = Some ''INV#1'') ?tbl" by code_simp
  from null_timestamp_never_matched[where ev = timeless_event and parse = no_parser
      and tbl = "[]" and wallet = "Some ''0:w''" and now = 1000] t
  have n: "\<forall>r\<in>set ?tbl. tr_timestamp r = None" by simp
  from null_timestamp_never_matched[where parse = no_parser and tbl = ?tbl and wallet = "Some ''0:w''"
      and tag = "Some ''INV#1''" and startMs = "Some 0" and endMs = "Some 5000" and minAmountNano = 1
      and expectedSender = None and strictSender = False] n
  have q: "queryCachedTransfer no_parser ?tbl (Some ''0:w'') (Some ''INV#1'') (Some 0) (Some 5000) 1 None False = None"
    by blast
  have q1: "queryCachedTransfer no_parser demo_tbl (Some ''0:w'') (Some ''INV#1'') (Some 0) (Some 5000)
     5 (Some ''0:A'') True = Some (demo_row ''e1'' 3000 ''0:a'' ''5'')"
    by code_simp
  from null_timestamp_never_matched[where parse = no_parser and tbl = demo_tbl and wallet = "Some ''0:w''"
      and tag = "Some ''INV#1''" and startMs = "Some 0" and endMs = "Some 5000" and minAmountNano = 5
      and expectedSender = "Some ''0:A''" and strictSender = True
      and row = "demo_row ''e1'' 3000 ''0:a'' ''5''"] q1
  have r1: "tr_timestamp (demo_row ''e1'' 3000 ''0:a'' ''5'') \<noteq> None" by blast
  let ?c = "confirm_criteria pending_agent 10000000 1700000400000"
  let ?f = "findTransferWithSync no_parser (Some ''0:w'') ?c challenge_world"
  have f1: "fst ?f = Inr (Some challenge_payment, ''cache'')" by code_simp
  then have f2: "?f = (Inr (Some challenge_payment, ''cache''), snd ?f)" by (simp add: prod_eq_iff)
  from null_timestamp_never_matched[where parse = no_parser and wallet = "Some ''0:w''" and c = ?c
      and w = challenge_world and m = challenge_payment and src = "''cache''" and w' = "snd ?f"] f2
  have r2: "tr_timestamp challenge_payment \<noteq> None" by blast
  let ?ck = "invCheck (i_params (check_at ''inv_3'' 0)) demo_ctx unexpired_world"
  let ?inv = "pending_invoice\<lparr>iv_expires_at := Some 1700000100000, iv_comment := ''INV#inv_3''\<rparr>"
  obtain data where d: "fst ?ck = Success data"
    by (cases "fst ?ck") (simp_all, code_simp)
  have s1: "status_of (fst ?ck) = Some ''paid''" by code_simp
  have e1: "(case fst ?ck of Failure e \<Rightarrow> None | Success dt \<Rightarrow> map_of dt ''tx_event_id'') = Some (VStr ''e3'')"
    by code_simp
  have i1: "inv_invoices (db unexpired_world) (trim (str_or_empty (p_invoice_id (i_params (check_at ''inv_3'' 0)))))
      = Some ?inv \<and> iv_status ?inv \<noteq> ''paid''"
    by code_simp
  from d s1 have sd: "map_of data ''status'' = Some (VStr ''paid'')"
    by (auto simp: status_of_def split: option.splits jv.splits)
  from d have ckp: "?ck = (Success data, snd ?ck)" by (simp add: prod_eq_iff)
  from null_timestamp_never_matched[where params = "i_params (check_at ''inv_3'' 0)" and ctx = demo_ctx
      and w = unexpired_world and data = data and w' = "snd ?ck" and invoice = ?inv] ckp sd i1
  have "\<exists>m\<in>set (inv_transfers (db (snd ?ck))). tr_timestamp m \<noteq> None \<and>
         map_of data ''tx_event_id'' = Some (VStr (tr_event_id m))" by blast
  with d e1 have r3: "\<exists>m\<in>set (inv_transfers (db (snd ?ck))). tr_timestamp m \<noteq> None \<and> tr_event_id m = ''e3''"
    by auto
  let ?cf = "invConfirmVerification (i_params (confirm_at ''dave'' 0)) demo_ctx challenge_world"
  obtain data2 where d2: "fst ?cf = Success data2"
    by (cases "fst ?cf") (simp_all, code_simp)
  have s2: "status_of (fst ?cf) = Some ''verified''" by code_simp
  have e2: "(case fst ?cf of Failure e \<Rightarrow> None | Success dt \<Rightarrow> map_of dt ''proof_event_id'') = Some (VStr ''e8'')"
    by code_simp
  have i2: "inv_agents (db challenge_world) (trim (str_or_empty (p_agent_id (i_params (confirm_at ''dave'' 0)))))
      = Some pending_agent \<and> ag_status pending_agent \<noteq> ''verified''"
    by code_simp
  from d2 s2 have sd2: "map_of data2 ''status'' = Some (VStr ''verified'')"
    by (auto simp: status_of_def split: option.splits jv.splits)
  from d2 have cfp: "?cf = (Success data2, snd ?cf)" by (simp add: prod_eq_iff)
  from null_timestamp_never_matched[where params = "i_params (confirm_at ''dave'' 0)" and ctx = demo_ctx
      and w = challenge_world and data = data2 and w' = "snd ?cf" and agent = pending_agent] cfp sd2 i2
  have "\<exists>m\<in>set (inv_transfers (db (snd ?cf))). tr_timestamp m \<noteq> None \<and>
         map_of data2 ''proof_event_id'' = Some (VStr (tr_event_id m))" by blast
  with d2 e2 have r4: "\<exists>m\<in>set (inv_transfers (db (snd ?cf))). tr_timestamp m \<noteq> None \<and> tr_event_id m = ''e8''"
    by auto
  from t l g n q q1 r1 f1 r2 s1 r3 s2 r4 show ?thesis by (simp add: list_all_iff)
qed

section \<open>What each tool changes\<close>

lemma begin_invoices:
  "invBeginVerification params ctx hex w = (r, w') \<Longrightarrow> inv_invoices (db w') = inv_invoices (db w)"
  by (auto simp: invBeginVerification_def Let_def stmtAgentUpsert_def
      split: prod.splits sum.splits if_splits dest!: admit_frame)

lemma begin_other_agent:
  "invBeginVerification params ctx hex w = (r, w') \<Longrightarrow>
   trim (str_or_empty (p_agent_id params)) \<noteq> a \<Longrightarrow> inv_agents (db w') a = inv_agents (db w) a"
  by (auto simp: invBeginVerification_def Let_def stmtAgentUpsert_def
      split: prod.splits sum.splits if_splits dest!: admit_frame)

lemma begin_sets_pending:
  "invBeginVerification params ctx hex w = (Success data, w') \<Longrightarrow>
   \<exists>row. inv_agents (db w') (trim (str_or_empty (p_agent_id params))) = Some row \<and>
     ag_status row = ''pending'' \<and> ag_verified_at row = None \<and>
     ag_proof_event_id row = None \<and> ag_proof_sender_wallet row = None \<and>
     ag_challenge_created_at row = Some (clock w)"
  by (auto simp: invBeginVerification_def Let_def stmtAgentUpsert_def
      split: prod.splits sum.splits if_splits dest!: admit_frame)

lemma confirm_invoices:
  "invConfirmVerification params ctx w = (r, w') \<Longrightarrow> inv_invoices (db w') = inv_invoices (db w)"
  by (auto simp: invConfirmVerification_def Let_def stmtAgentVerify_def
      split: prod.splits sum.splits if_splits option.splits
      dest!: admit_frame findTransferWithSync_ledger ledgerD)

lemma confirm_verified_kept:
  "invConfirmVerification params ctx w = (r, w') \<Longrightarrow> inv_agents (db w) a = Some row \<Longrightarrow>
   ag_status row = ''verified'' \<Longrightarrow> inv_agents (db w') a = Some row"
  by (auto simp: invConfirmVerification_def Let_def stmtAgentVerify_def
      split: prod.splits sum.splits if_splits option.splits
      dest!: admit_frame findTransferWithSync_ledger ledgerD)

lemma receipt_frame:
  "invReceipt params ctx w = (r, w') \<Longrightarrow>
     inv_invoices (db w') = inv_invoices (db w) \<and> inv_agents (db w') = inv_agents (db w)"
  by (auto simp: invReceipt_def Let_def
      split: prod.splits sum.splits if_splits option.splits dest!: admit_frame)

lemma check_agents:
  "invCheck params ctx w = (r, w') \<Longrightarrow> inv_agents (db w') = inv_agents (db w)"
  by (auto simp: invCheck_def Let_def stmtInvoiceMarkPaid_def stmtInvoiceUpdateLastCheck_def
        stmtInvoiceUpdateStatus_def
      split: prod.splits sum.splits if_splits option.splits
      dest!: admit_frame findTransferWithSync_ledger ledgerD)




lemma insert_effect:
  "stmtInvoiceInsert d iid c e at an rc es pa pv ds cm st ss = Inr d' \<Longrightarrow>
     inv_agents d' = inv_agents d \<and> inv_invoices d iid = None \<and>
     (\<forall>a. a \<noteq> iid \<longrightarrow> inv_invoices d' a = inv_invoices d a)"
  by (auto simp: stmtInvoiceInsert_def split: option.splits)

lemma create_effect:
  assumes "invCreate params ctx hex w = (r, w')"
  shows "inv_agents (db w') = inv_agents (db w) \<and>
         (\<forall>a row. inv_invoices (db w) a = Some row \<longrightarrow> inv_invoices (db w') a = Some row)"
proof -
  obtain a w1 where ad: "admit ctx ''inv_create'' w = (a, w1)" by (cases "admit ctx ''inv_create'' w")
  note fr = admit_frame[OF ad]
  from assms ad have "db w' = db w1 \<or>
     (\<exists>iid c e at an rc es pa pv ds cm st ss d'.
        stmtInvoiceInsert (db w1) iid c e at an rc es pa pv ds cm st ss = Inr d' \<and> db w' = d')"
    unfolding invCreate_def Let_def
    by (auto split: sum.splits prod.splits if_splits)
  then show ?thesis
  proof
    assume "db w' = db w1"
    with fr show ?thesis by simp
  next
    assume "\<exists>iid c e at an rc es pa pv ds cm st ss d'.
        stmtInvoiceInsert (db w1) iid c e at an rc es pa pv ds cm st ss = Inr d' \<and> db w' = d'"
    then obtain iid c e at an rc es pa pv ds cm st ss d' where
      i: "stmtInvoiceInsert (db w1) iid c e at an rc es pa pv ds cm st ss = Inr d'" and d: "db w' = d'"
      by blast
    from insert_effect[OF i] d fr show ?thesis by (metis option.distinct(1))
  qed
qed

lemma invCheck_refused:
  "admit ctx ''inv_check'' w = (Inl msg, w1) \<Longrightarrow> invCheck params ctx w = (Failure msg, w1)"
  by (simp add: invCheck_def)

lemma invConfirm_refused:
  "admit ctx ''inv_confirm_verification'' w = (Inl msg, w1) \<Longrightarrow>
   invConfirmVerification params ctx w = (Failure msg, w1)"
  by (simp add: invConfirmVerification_def)

section \<open>A paid invoice is terminal\<close>


lemma clock_update_db [simp]: "db (w\<lparr>clock := t\<rparr>) = db w"
  by simp









section \<open>A verified agent and a new challenge\<close>


lemma execute_verified_kept:
  assumes "inv_agents (db w) a = Some row" "ag_status row = ''verified''" "\<not> begins_for a i"
  shows "inv_agents (db (snd (execute i w))) a = Some row"
proof -
  let ?w0 = "w\<lparr>clock := i_at i\<rparr>"
  from assms(1) have r0: "inv_agents (db ?w0) a = Some row" by simp
  show ?thesis
  proof (cases "i_tool i")
    case inv_begin_verification
    with assms(3) have "trim (str_or_empty (p_agent_id (i_params i))) \<noteq> a" by (simp add: begins_for_def)
    from begin_other_agent[OF surjective_pairing this, of "i_ctx i" "i_rand i" ?w0] r0 inv_begin_verification
    show ?thesis by (simp add: execute_def)
  next
    case inv_register_agent
    with assms(3) have "trim (str_or_empty (p_agent_id (i_params i))) \<noteq> a" by (simp add: begins_for_def)
    from begin_other_agent[OF surjective_pairing this, of "i_ctx i" "i_rand i" ?w0] r0 inv_register_agent
    show ?thesis by (simp add: execute_def)
  next
    case inv_confirm_verification
    with confirm_verified_kept[OF surjective_pairing r0 assms(2), of "i_params i" "i_ctx i"]
    show ?thesis by (simp add: execute_def)
  next
    case inv_create
    with create_effect[OF surjective_pairing, of "i_params i" "i_ctx i" "i_rand i" ?w0] r0
    show ?thesis by (simp add: execute_def)
  next
    case inv_check
    with check_agents[OF surjective_pairing, of "i_params i" "i_ctx i" ?w0] r0
    show ?thesis by (simp add: execute_def)
  next
    case inv_receipt
    with receipt_frame[OF surjective_pairing, of "i_params i" "i_ctx i" ?w0] r0
    show ?thesis by (simp add: execute_def)
  qed
qed

lemma run_verified_kept:
  "inv_agents (db w) a = Some row \<Longrightarrow> ag_status row = ''verified'' \<Longrightarrow>
   list_all (\<lambda>i. \<not> begins_for a i) invs \<Longrightarrow> inv_agents (db (run invs w)) a = Some row"
  by (induction invs arbitrary: w) (simp_all add: execute_verified_kept)

text \<open>
  C2, as the code has it. A verified agent stays verified, with its whole row unchanged,
  through every sequence of tool invocations that contains no \<open>inv_begin_verification\<close>
  (or \<open>inv_register_agent\<close>) for the same agent id. A successful
  \<open>inv_begin_verification\<close> for an agent id overwrites the stored row with a fresh
  pending challenge whatever the previous status was: the status is \<open>pending\<close>, and
  \<open>verified_at\<close> and the proof are cleared.
\<close>

theorem verified_until_rebegun:
  "(inv_agents (db w) a = Some row \<and> ag_status row = ''verified'' \<and>
    list_all (\<lambda>i. \<not> begins_for a i) invs
      \<longrightarrow> inv_agents (db (run invs w)) a = Some row) \<and>
   (begins_for a i \<and> fst (execute i w) = Success data
      \<longrightarrow> (\<exists>row'. inv_agents (db (snd (execute i w))) a = Some row' \<and>
             ag_status row' = ''pending'' \<and> ag_verified_at row' = None \<and>
             ag_proof_event_id row' = None \<and> ag_proof_sender_wallet row' = None))"
proof (intro conjI impI)
  assume "inv_agents (db w) a = Some row \<and> ag_status row = ''verified'' \<and>
    list_all (\<lambda>i. \<not> begins_for a i) invs"
  then show "inv_agents (db (run invs w)) a = Some row"
    using run_verified_kept by blast
next
  assume h: "begins_for a i \<and> fst (execute i w) = Success data"
  let ?w0 = "w\<lparr>clock := i_at i\<rparr>"
  from h have e: "execute i w = invBeginVerification (i_params i) (i_ctx i) (i_rand i) ?w0"
    and ag: "trim (str_or_empty (p_agent_id (i_params i))) = a"
    by (auto simp: begins_for_def execute_def)
  from h e obtain w' where "invBeginVerification (i_params i) (i_ctx i) (i_rand i) ?w0 = (Success data, w')"
    by (cases "invBeginVerification (i_params i) (i_ctx i) (i_rand i) ?w0") auto
  from begin_sets_pending[OF this] this e ag
  show "\<exists>row'. inv_agents (db (snd (execute i w))) a = Some row' \<and>
             ag_status row' = ''pending'' \<and> ag_verified_at row' = None \<and>
             ag_proof_event_id row' = None \<and> ag_proof_sender_wallet row' = None"
    by auto
qed


text \<open>
  The regression from \<open>verified\<close> to \<open>pending\<close> on the code: agent \<open>alice\<close> is verified,
  a caller starts a verification for \<open>alice\<close> with another wallet, the call succeeds and
  the stored status is \<open>pending\<close> with \<open>verified_at\<close> cleared.
\<close>

theorem verified_reset_to_pending_counterexample:
  "map_option ag_status (inv_agents (db verified_world) ''alice'') = Some ''verified'' \<and>
   status_of (fst (execute begin_alice verified_world)) = Some ''pending'' \<and>
   map_option ag_status (inv_agents (db (snd (execute begin_alice verified_world))) ''alice'') =
     Some ''pending'' \<and>
   map_option ag_verified_at (inv_agents (db (snd (execute begin_alice verified_world))) ''alice'') =
     Some None"
  by code_simp

text \<open>
  The same world: a confirmation and an invoice check leave the row of \<open>alice\<close> as it
  is, the new challenge resets it.
\<close>

theorem verified_until_rebegun_witness:
  "inv_agents (db verified_world) ''alice'' = Some verified_agent \<and>
   ag_status verified_agent = ''verified'' \<and>
   inv_agents (db (run [confirm_alice, check_at ''inv_1'' 1700000600000] verified_world)) ''alice'' =
     Some verified_agent \<and>
   begins_for ''alice'' begin_alice \<and>
   (\<exists>row'. inv_agents (db (snd (execute begin_alice verified_world))) ''alice'' = Some row' \<and>
      ag_status row' = ''pending'' \<and> ag_verified_at row' = None \<and>
      ag_proof_event_id row' = None \<and> ag_proof_sender_wallet row' = None)"
proof -
  let ?invs = "[confirm_alice, check_at ''inv_1'' 1700000600000]"
  have r: "inv_agents (db verified_world) ''alice'' = Some verified_agent" by code_simp
  have v: "ag_status verified_agent = ''verified''" by code_simp
  have l: "list_all (\<lambda>i. \<not> begins_for ''alice'' i) ?invs" by code_simp
  have b: "begins_for ''alice'' begin_alice" by code_simp
  obtain data where s: "fst (execute begin_alice verified_world) = Success data"
    by (cases "fst (execute begin_alice verified_world)") (simp_all, code_simp)
  note a = verified_until_rebegun[of verified_world "''alice''" verified_agent ?invs begin_alice data]
  from a r v l b s show ?thesis by blast
qed


section \<open>Expiry\<close>


lemma invCheck_expired_result:
  assumes ad: "admit ctx ''inv_check'' w = (Inr u, w1)"
    and idn: "trim (str_or_empty (p_invoice_id params)) = a" "a \<noteq> []"
    and row: "inv_invoices (db w) a = Some invoice" "iv_status invoice \<noteq> ''paid''"
    and ex: "past_expiry (iv_expires_at invoice) (clock w)"
  shows "invCheck params ctx w =
           (Success [(''invoice_id'', VStr a), (''status'', VStr ''expired''),
                     (''expires_at'', opt_iso (iv_expires_at invoice))],
            w1\<lparr>db := stmtInvoiceUpdateStatus (db w1) ''expired'' a\<rparr>)"
proof -
  from admit_frame[OF ad] row ex have "inv_invoices (db w1) a = Some invoice"
    "past_expiry (iv_expires_at invoice) (clock w1)" by simp_all
  with ad idn row(2) show ?thesis by (simp add: invCheck_def Let_def)
qed

lemma invConfirm_expired_result:
  assumes ad: "admit ctx ''inv_confirm_verification'' w = (Inr u, w1)"
    and idn: "trim (str_or_empty (p_agent_id params)) = a" "a \<noteq> []"
    and row: "inv_agents (db w) a = Some agent" "ag_status agent \<noteq> ''verified''"
    and ex: "past_expiry (ag_challenge_expires_at agent) (clock w)"
  shows "invConfirmVerification params ctx w =
           (Success [(''agent_id'', VStr a), (''status'', VStr ''expired''),
                     (''challenge_expires_at'', opt_iso (ag_challenge_expires_at agent))], w1)"
proof -
  from admit_frame[OF ad] row ex have "inv_agents (db w1) a = Some agent"
    "past_expiry (ag_challenge_expires_at agent) (clock w1)" by simp_all
  with ad idn row(2) show ?thesis by (simp add: invConfirmVerification_def Let_def)
qed

lemma admitted_obtain:
  "fst (admit ctx tool w) = Inr () \<Longrightarrow> \<exists>w1. admit ctx tool w = (Inr (), w1)"
  by (cases "admit ctx tool w") auto

text \<open>What the tools write into the expiry columns.\<close>

lemma toISOString_value: "toISOString ms = Inr t \<Longrightarrow> t = ms"
  by (auto simp: toISOString_def split: if_splits)

lemma begin_agents_expiry:
  assumes "invBeginVerification params ctx hex w = (r, w')"
    and "0 \<le> clock w"
    and "case p_expires_in_minutes params of None \<Rightarrow> True | Some n \<Rightarrow> 1 \<le> n"
    and "inv_agents (db w') b = Some row" "ag_challenge_expires_at row = Some e"
  shows "0 < e \<or> inv_agents (db w) b = Some row"
  using assms
  by (auto simp: invBeginVerification_def Let_def stmtAgentUpsert_def VERIFY_TTL_MINUTES_def
      split: prod.splits sum.splits if_splits option.splits
      dest!: admit_frame toISOString_value)

lemma confirm_agents_expiry:
  assumes "invConfirmVerification params ctx w = (r, w')"
    and "inv_agents (db w') b = Some row"
  shows "\<exists>row0. inv_agents (db w) b = Some row0 \<and>
           ag_challenge_expires_at row0 = ag_challenge_expires_at row"
  using assms
  by (auto simp: invConfirmVerification_def Let_def stmtAgentVerify_def
      split: prod.splits sum.splits if_splits option.splits
      dest!: admit_frame findTransferWithSync_ledger ledgerD)

lemma check_invoices_expiry:
  assumes "invCheck params ctx w = (r, w')"
    and "inv_invoices (db w') a = Some row"
  shows "\<exists>row0. inv_invoices (db w) a = Some row0 \<and> iv_expires_at row0 = iv_expires_at row"
  using assms
  by (auto simp: invCheck_def Let_def stmtInvoiceMarkPaid_def stmtInvoiceUpdateLastCheck_def
        stmtInvoiceUpdateStatus_def
      split: prod.splits sum.splits if_splits option.splits
      dest!: admit_frame findTransferWithSync_ledger ledgerD)

lemma create_expiry_positive:
  assumes "create_expiry params now = Inr (Some e)" "0 \<le> now"
    and "case p_expires_in_minutes params of None \<Rightarrow> True | Some n \<Rightarrow> 1 \<le> n"
  shows "0 < e"
  using assms
  by (auto simp: create_expiry_def truthy_num_def split: if_splits sum.splits option.splits dest!: toISOString_value)

lemma insert_expiry:
  "stmtInvoiceInsert d iid c e at an rc es pa pv ds cm st ss = Inr d' \<Longrightarrow>
   inv_invoices d' a = Some row \<Longrightarrow> iv_expires_at row = e \<or> inv_invoices d a = Some row"
  by (auto simp: stmtInvoiceInsert_def split: option.splits if_splits)

lemma create_invoices_expiry:
  assumes c: "invCreate params ctx hex w = (r, w')"
    and now: "0 \<le> clock w"
    and ttl: "case p_expires_in_minutes params of None \<Rightarrow> True | Some n \<Rightarrow> 1 \<le> n"
    and row: "inv_invoices (db w') a = Some row" "iv_expires_at row = Some e"
  shows "0 < e \<or> inv_invoices (db w) a = Some row"
proof -
  obtain x w1 where ad: "admit ctx ''inv_create'' w = (x, w1)" by (cases "admit ctx ''inv_create'' w")
  note fr = admit_frame[OF ad]
  from c ad have "db w' = db w1 \<or>
     (\<exists>iid c e0 at an rc es pa pv ds cm st ss d'.
        create_expiry params (clock w1) = Inr e0 \<and>
        stmtInvoiceInsert (db w1) iid c e0 at an rc es pa pv ds cm st ss = Inr d' \<and> db w' = d')"
    unfolding invCreate_def Let_def
    by (auto split: sum.splits prod.splits if_splits)
  then show ?thesis
  proof
    assume "db w' = db w1"
    with fr row show ?thesis by simp
  next
    assume "\<exists>iid c e0 at an rc es pa pv ds cm st ss d'.
        create_expiry params (clock w1) = Inr e0 \<and>
        stmtInvoiceInsert (db w1) iid c e0 at an rc es pa pv ds cm st ss = Inr d' \<and> db w' = d'"
    then obtain iid c e0 at an rc es pa pv ds cm st ss d' where
      ce: "create_expiry params (clock w1) = Inr e0" and
      i: "stmtInvoiceInsert (db w1) iid c e0 at an rc es pa pv ds cm st ss = Inr d'" and d: "db w' = d'"
      by blast
    from row(1) d have "inv_invoices d' a = Some row" by simp
    from insert_expiry[OF i this] show ?thesis
    proof
      assume "iv_expires_at row = e0"
      with row(2) ce have "create_expiry params (clock w1) = Inr (Some e)" by simp
      with create_expiry_positive[OF this _ ttl] now fr show ?thesis by simp
    next
      assume "inv_invoices (db w1) a = Some row"
      with fr show ?thesis by simp
    qed
  qed
qed

lemma execute_expiries:
  assumes s: "within_schema i" and inv: "expiries_after_epoch (db w)"
  shows "expiries_after_epoch (db (snd (execute i w)))"
proof -
  let ?w0 = "w\<lparr>clock := i_at i\<rparr>"
  from s have now: "0 \<le> clock ?w0"
    and ttl: "i_tool i = inv_begin_verification \<or> i_tool i = inv_register_agent \<or>
              i_tool i = inv_create \<Longrightarrow>
              case p_expires_in_minutes (i_params i) of None \<Rightarrow> True | Some n \<Rightarrow> 1 \<le> n"
    by (simp_all add: within_schema_def)
  from inv have iv: "\<And>a row e. inv_invoices (db ?w0) a = Some row \<Longrightarrow> iv_expires_at row = Some e \<Longrightarrow> 0 < e"
    and ag: "\<And>b row e. inv_agents (db ?w0) b = Some row \<Longrightarrow> ag_challenge_expires_at row = Some e \<Longrightarrow> 0 < e"
    unfolding expiries_after_epoch_def by auto
  {
    assume "i_tool i = inv_begin_verification \<or> i_tool i = inv_register_agent"
    with ttl have tb: "case p_expires_in_minutes (i_params i) of None \<Rightarrow> True | Some n \<Rightarrow> 1 \<le> n"
      by blast
    have "expiries_after_epoch (db (snd (invBeginVerification (i_params i) (i_ctx i) (i_rand i) ?w0)))"
      unfolding expiries_after_epoch_def
    proof (intro conjI allI impI)
      fix a row e
      assume "inv_invoices (db (snd (invBeginVerification (i_params i) (i_ctx i) (i_rand i) ?w0))) a = Some row \<and>
              iv_expires_at row = Some e"
      with begin_invoices[OF surjective_pairing, of "i_params i" "i_ctx i" "i_rand i" ?w0] iv
      show "0 < e" by auto
    next
      fix b row e
      assume h: "inv_agents (db (snd (invBeginVerification (i_params i) (i_ctx i) (i_rand i) ?w0))) b = Some row \<and>
              ag_challenge_expires_at row = Some e"
      from begin_agents_expiry[OF surjective_pairing now tb] h ag
      show "0 < e" by blast
    qed
  }
  note beg = this
  show ?thesis
  proof (cases "i_tool i")
    case inv_begin_verification
    with beg show ?thesis by (simp add: execute_def)
  next
    case inv_register_agent
    with beg show ?thesis by (simp add: execute_def)
  next
    case inv_confirm_verification
    have "expiries_after_epoch (db (snd (invConfirmVerification (i_params i) (i_ctx i) ?w0)))"
      unfolding expiries_after_epoch_def
    proof (intro conjI allI impI)
      fix a row e
      assume "inv_invoices (db (snd (invConfirmVerification (i_params i) (i_ctx i) ?w0))) a = Some row \<and>
              iv_expires_at row = Some e"
      with confirm_invoices[OF surjective_pairing, of "i_params i" "i_ctx i" ?w0] iv
      show "0 < e" by auto
    next
      fix b row e
      assume h: "inv_agents (db (snd (invConfirmVerification (i_params i) (i_ctx i) ?w0))) b = Some row \<and>
              ag_challenge_expires_at row = Some e"
      with confirm_agents_expiry[OF surjective_pairing, of "i_params i" "i_ctx i" ?w0 b row]
      obtain row0 where "inv_agents (db ?w0) b = Some row0" "ag_challenge_expires_at row0 = Some e"
        by auto
      with ag show "0 < e" by blast
    qed
    with inv_confirm_verification show ?thesis by (simp add: execute_def)
  next
    case inv_create
    with ttl have ttl: "case p_expires_in_minutes (i_params i) of None \<Rightarrow> True | Some n \<Rightarrow> 1 \<le> n"
      by blast
    have "expiries_after_epoch (db (snd (invCreate (i_params i) (i_ctx i) (i_rand i) ?w0)))"
      unfolding expiries_after_epoch_def
    proof (intro conjI allI impI)
      fix a row e
      assume h: "inv_invoices (db (snd (invCreate (i_params i) (i_ctx i) (i_rand i) ?w0))) a = Some row \<and>
              iv_expires_at row = Some e"
      from create_invoices_expiry[OF surjective_pairing now ttl] h iv
      show "0 < e" by blast
    next
      fix b row e
      assume "inv_agents (db (snd (invCreate (i_params i) (i_ctx i) (i_rand i) ?w0))) b = Some row \<and>
              ag_challenge_expires_at row = Some e"
      with create_effect[OF surjective_pairing, of "i_params i" "i_ctx i" "i_rand i" ?w0] ag
      show "0 < e" by auto
    qed
    with inv_create show ?thesis by (simp add: execute_def)
  next
    case inv_check
    have "expiries_after_epoch (db (snd (invCheck (i_params i) (i_ctx i) ?w0)))"
      unfolding expiries_after_epoch_def
    proof (intro conjI allI impI)
      fix a row e
      assume h: "inv_invoices (db (snd (invCheck (i_params i) (i_ctx i) ?w0))) a = Some row \<and>
              iv_expires_at row = Some e"
      with check_invoices_expiry[OF surjective_pairing, of "i_params i" "i_ctx i" ?w0 a row]
      obtain row0 where "inv_invoices (db ?w0) a = Some row0" "iv_expires_at row0 = Some e"
        by auto
      with iv show "0 < e" by blast
    next
      fix b row e
      assume "inv_agents (db (snd (invCheck (i_params i) (i_ctx i) ?w0))) b = Some row \<and>
              ag_challenge_expires_at row = Some e"
      with check_agents[OF surjective_pairing, of "i_params i" "i_ctx i" ?w0] ag
      show "0 < e" by auto
    qed
    with inv_check show ?thesis by (simp add: execute_def)
  next
    case inv_receipt
    have "expiries_after_epoch (db (snd (invReceipt (i_params i) (i_ctx i) ?w0)))"
      using receipt_frame[OF surjective_pairing, of "i_params i" "i_ctx i" ?w0] inv
      by (simp add: expiries_after_epoch_def)
    with inv_receipt show ?thesis by (simp add: execute_def)
  qed
qed

lemma run_expiries:
  "list_all within_schema invs \<Longrightarrow> expiries_after_epoch (db w) \<Longrightarrow>
   expiries_after_epoch (db (run invs w))"
  by (induction invs arbitrary: w) (simp_all add: execute_expiries)

lemma fresh_expiries:
  "inv_invoices d = Map.empty \<Longrightarrow> inv_agents d = Map.empty \<Longrightarrow> expiries_after_epoch d"
  by (simp add: expiries_after_epoch_def)


text \<open>
  C6, as the code has it. Take a database that started without invoices and agents and
  has since been changed only by tool invocations that respect the declared minimum of
  \<open>expires_in_minutes\<close> and are made at or after the epoch, and in it a pending invoice
  whose \<open>expires_at\<close> is set and lies strictly before the time of the check. An
  \<open>inv_check\<close> does not always return the status \<open>expired\<close> for it: the access check
  and the rate limit come first. A call that passes them returns the status \<open>expired\<close>;
  a call that they refuse returns a failure with the text of the refusal. In both cases
  the status is not \<open>paid\<close>, whatever the cache holds: the matcher is not run, no request
  is sent and the cache is not changed. The same holds for \<open>inv_confirm_verification\<close>
  and a pending challenge: the status is \<open>expired\<close> or the call is refused, and it is
  not \<open>verified\<close>.
\<close>

theorem expired_wins_over_match:
  assumes "inv_invoices (db w0) = Map.empty" and "inv_agents (db w0) = Map.empty"
    and "list_all within_schema invs"
  shows
  "(i_tool i = inv_check \<and>
    trim (str_or_empty (p_invoice_id (i_params i))) = a \<and> a \<noteq> [] \<and>
    inv_invoices (db (run invs w0)) a = Some invoice \<and> iv_status invoice = ''pending'' \<and>
    iv_expires_at invoice = Some e \<and> e < i_at i
    \<longrightarrow> (fst (admit (i_ctx i) ''inv_check'' ((run invs w0)\<lparr>clock := i_at i\<rparr>)) = Inr ()
         \<longrightarrow> status_of (fst (execute i (run invs w0))) = Some ''expired'') \<and>
        (fst (admit (i_ctx i) ''inv_check'' ((run invs w0)\<lparr>clock := i_at i\<rparr>)) = Inl msg
         \<longrightarrow> fst (execute i (run invs w0)) = Failure msg) \<and>
        status_of (fst (execute i (run invs w0))) \<noteq> Some ''paid'' \<and>
        net (snd (execute i (run invs w0))) = net (run invs w0) \<and>
        inv_transfers (db (snd (execute i (run invs w0)))) = inv_transfers (db (run invs w0))) \<and>
   (i_tool i = inv_confirm_verification \<and>
    trim (str_or_empty (p_agent_id (i_params i))) = b \<and> b \<noteq> [] \<and>
    inv_agents (db (run invs w0)) b = Some agent \<and> ag_status agent = ''pending'' \<and>
    ag_challenge_expires_at agent = Some e \<and> e < i_at i
    \<longrightarrow> (fst (admit (i_ctx i) ''inv_confirm_verification'' ((run invs w0)\<lparr>clock := i_at i\<rparr>)) = Inr ()
         \<longrightarrow> status_of (fst (execute i (run invs w0))) = Some ''expired'') \<and>
        (fst (admit (i_ctx i) ''inv_confirm_verification'' ((run invs w0)\<lparr>clock := i_at i\<rparr>)) = Inl msg
         \<longrightarrow> fst (execute i (run invs w0)) = Failure msg) \<and>
        status_of (fst (execute i (run invs w0))) \<noteq> Some ''verified'' \<and>
        net (snd (execute i (run invs w0))) = net (run invs w0) \<and>
        inv_transfers (db (snd (execute i (run invs w0)))) = inv_transfers (db (run invs w0)))"
proof (intro conjI impI)
  let ?cur = "run invs w0"
  let ?now = "?cur\<lparr>clock := i_at i\<rparr>"
  from assms have reach: "expiries_after_epoch (db ?cur)"
    by (simp add: run_expiries fresh_expiries)
  {
    assume h: "i_tool i = inv_check \<and>
      trim (str_or_empty (p_invoice_id (i_params i))) = a \<and> a \<noteq> [] \<and>
      inv_invoices (db ?cur) a = Some invoice \<and> iv_status invoice = ''pending'' \<and>
      iv_expires_at invoice = Some e \<and> e < i_at i"
    with reach have pos: "0 < e" unfolding expiries_after_epoch_def by blast
    from h have ex: "execute i ?cur = invCheck (i_params i) (i_ctx i) ?now" by (simp add: execute_def)
    from h have idn: "trim (str_or_empty (p_invoice_id (i_params i))) = a" "a \<noteq> []"
      and row: "inv_invoices (db ?now) a = Some invoice" "iv_status invoice \<noteq> ''paid''"
      by simp_all
    from h pos have pe: "past_expiry (iv_expires_at invoice) (clock ?now)"
      by (simp add: past_expiry_def parseIso_def)
    obtain x w1 where ad: "admit (i_ctx i) ''inv_check'' ?now = (x, w1)"
      by (cases "admit (i_ctx i) ''inv_check'' ?now")
    note fr = admit_frame[OF ad]
    have both: "(x = Inr () \<longrightarrow> status_of (fst (execute i ?cur)) = Some ''expired'') \<and>
      (x = Inl msg \<longrightarrow> fst (execute i ?cur) = Failure msg) \<and>
      status_of (fst (execute i ?cur)) \<noteq> Some ''paid'' \<and>
      net (snd (execute i ?cur)) = net ?cur \<and>
      inv_transfers (db (snd (execute i ?cur))) = inv_transfers (db ?cur)"
    proof (cases x)
      case (Inl m)
      with ad invCheck_refused have "invCheck (i_params i) (i_ctx i) ?now = (Failure m, w1)" by blast
      with ex fr Inl show ?thesis by (simp add: status_of_def)
    next
      case (Inr u)
      with ad have ad': "admit (i_ctx i) ''inv_check'' ?now = (Inr u, w1)" by simp
      note res = invCheck_expired_result[OF ad' idn row pe]
      from res ex fr Inr show ?thesis
        by (simp add: status_of_def stmtInvoiceUpdateStatus_def split: option.splits)
    qed
    {
      assume "fst (admit (i_ctx i) ''inv_check'' ?now) = Inr ()"
      with ad both show "status_of (fst (execute i ?cur)) = Some ''expired''" by simp
    }
    {
      assume "fst (admit (i_ctx i) ''inv_check'' ?now) = Inl msg"
      with ad both show "fst (execute i ?cur) = Failure msg" by simp
    }
    from both show "status_of (fst (execute i ?cur)) \<noteq> Some ''paid''" by simp
    from both show "net (snd (execute i ?cur)) = net ?cur" by simp
    from both show "inv_transfers (db (snd (execute i ?cur))) = inv_transfers (db ?cur)" by simp
  }
  {
    assume h: "i_tool i = inv_confirm_verification \<and>
      trim (str_or_empty (p_agent_id (i_params i))) = b \<and> b \<noteq> [] \<and>
      inv_agents (db ?cur) b = Some agent \<and> ag_status agent = ''pending'' \<and>
      ag_challenge_expires_at agent = Some e \<and> e < i_at i"
    with reach have pos: "0 < e" unfolding expiries_after_epoch_def by blast
    from h have ex: "execute i ?cur = invConfirmVerification (i_params i) (i_ctx i) ?now"
      by (simp add: execute_def)
    from h have idn: "trim (str_or_empty (p_agent_id (i_params i))) = b" "b \<noteq> []"
      and row: "inv_agents (db ?now) b = Some agent" "ag_status agent \<noteq> ''verified''"
      by simp_all
    from h pos have pe: "past_expiry (ag_challenge_expires_at agent) (clock ?now)"
      by (simp add: past_expiry_def parseIso_def)
    obtain x w1 where ad: "admit (i_ctx i) ''inv_confirm_verification'' ?now = (x, w1)"
      by (cases "admit (i_ctx i) ''inv_confirm_verification'' ?now")
    note fr = admit_frame[OF ad]
    have both: "(x = Inr () \<longrightarrow> status_of (fst (execute i ?cur)) = Some ''expired'') \<and>
      (x = Inl msg \<longrightarrow> fst (execute i ?cur) = Failure msg) \<and>
      status_of (fst (execute i ?cur)) \<noteq> Some ''verified'' \<and>
      net (snd (execute i ?cur)) = net ?cur \<and>
      inv_transfers (db (snd (execute i ?cur))) = inv_transfers (db ?cur)"
    proof (cases x)
      case (Inl m)
      with ad invConfirm_refused have "invConfirmVerification (i_params i) (i_ctx i) ?now = (Failure m, w1)"
        by blast
      with ex fr Inl show ?thesis by (simp add: status_of_def)
    next
      case (Inr u)
      with ad have ad': "admit (i_ctx i) ''inv_confirm_verification'' ?now = (Inr u, w1)" by simp
      note res = invConfirm_expired_result[OF ad' idn row pe]
      from res ex fr Inr show ?thesis by (simp add: status_of_def)
    qed
    {
      assume "fst (admit (i_ctx i) ''inv_confirm_verification'' ?now) = Inr ()"
      with ad both show "status_of (fst (execute i ?cur)) = Some ''expired''" by simp
    }
    {
      assume "fst (admit (i_ctx i) ''inv_confirm_verification'' ?now) = Inl msg"
      with ad both show "fst (execute i ?cur) = Failure msg" by simp
    }
    from both show "status_of (fst (execute i ?cur)) \<noteq> Some ''verified''" by simp
    from both show "net (snd (execute i ?cur)) = net ?cur" by simp
    from both show "inv_transfers (db (snd (execute i ?cur))) = inv_transfers (db ?cur)" by simp
  }
qed


text \<open>
  After the run from the empty database \<open>inv_5\<close> is pending, its expiry has passed and
  its payment is in the cache. A caller who may check twice a minute has checked
  \<open>inv_6\<close> twice; the check of \<open>inv_5\<close> ten seconds later returns a failure and no
  status. The challenge of \<open>erin\<close> is pending and has expired; the confirmation by a
  caller who is not on the allowlist returns a failure and no status.
\<close>

theorem expired_call_refused_counterexample:
  "map_option iv_status
     (inv_invoices (db (run (first_calls @ [check_at ''inv_6'' 1700000121000]) fresh_world)) ''inv_5'') =
     Some ''pending'' \<and>
   map_option iv_expires_at
     (inv_invoices (db (run (first_calls @ [check_at ''inv_6'' 1700000121000]) fresh_world)) ''inv_5'') =
     Some (Some 1700000060000) \<and>
   (1700000060000 :: int) < 1700000130000 \<and>
   fst (execute (check_at ''inv_5'' 1700000130000)
          (run (first_calls @ [check_at ''inv_6'' 1700000121000]) fresh_world)) =
     Failure ''Rate limit exceeded. Retry in 50000ms.'' \<and>
   status_of (fst (execute (check_at ''inv_5'' 1700000130000)
          (run (first_calls @ [check_at ''inv_6'' 1700000121000]) fresh_world))) = None \<and>
   map_option ag_status (inv_agents (db (run first_calls fresh_world)) ''erin'') = Some ''pending'' \<and>
   map_option ag_challenge_expires_at (inv_agents (db (run first_calls fresh_world)) ''erin'') =
     Some (Some 1700000062000) \<and>
   fst (execute ((confirm_at ''erin'' 1700000130000)\<lparr>i_ctx := outsider_ctx\<rparr>)
          (run first_calls fresh_world)) =
     Failure ''Access denied for tool inv_confirm_verification'' \<and>
   status_of (fst (execute ((confirm_at ''erin'' 1700000130000)\<lparr>i_ctx := outsider_ctx\<rparr>)
          (run first_calls fresh_world))) = None"
  by code_simp

text \<open>
  The run from the empty database: the invocations respect the schema, \<open>inv_5\<close> is
  pending with its expiry at 1700000060000, the payment of event \<open>e21\<close> in the cache
  matches it, and the check and the confirmation at 1700000130000 return \<open>expired\<close>.
  After one more check of \<open>inv_6\<close> the check of \<open>inv_5\<close> is refused, and so is the
  confirmation by a caller who is not on the allowlist.
\<close>

theorem expired_wins_over_match_witness:
  "list_all within_schema first_calls \<and>
   map_option iv_status (inv_invoices (db (run first_calls fresh_world)) ''inv_5'') = Some ''pending'' \<and>
   map_option iv_expires_at (inv_invoices (db (run first_calls fresh_world)) ''inv_5'') =
     Some (Some 1700000060000) \<and>
   map_option tr_event_id
     (query_criteria no_parser (db (run first_calls fresh_world)) (Some ''0:w'')
        \<lparr>c_tag = Some ''INV#inv_5'', c_minAmountNano = 1500000000, c_expectedSender = None,
          c_strictSender = False, c_startMs = Some 1700000000000, c_endMs = Some 1700000060000\<rparr>) =
     Some ''e21'' \<and>
   status_of (fst (execute (check_at ''inv_5'' 1700000130000) (run first_calls fresh_world))) =
     Some ''expired'' \<and>
   status_of (fst (execute (confirm_at ''erin'' 1700000130000) (run first_calls fresh_world))) =
     Some ''expired'' \<and>
   fst (execute (check_at ''inv_5'' 1700000130000)
          (run (first_calls @ [check_at ''inv_6'' 1700000121000]) fresh_world)) =
     Failure ''Rate limit exceeded. Retry in 50000ms.'' \<and>
   fst (execute ((confirm_at ''erin'' 1700000130000)\<lparr>i_ctx := outsider_ctx\<rparr>)
          (run first_calls fresh_world)) =
     Failure ''Access denied for tool inv_confirm_verification''"
proof -
  let ?cur = "run first_calls fresh_world"
  let ?more = "first_calls @ [check_at ''inv_6'' 1700000121000]"
  let ?i = "check_at ''inv_5'' 1700000130000"
  let ?j = "confirm_at ''erin'' 1700000130000"
  let ?msg = "''Rate limit exceeded. Retry in 50000ms.''"
  let ?inv = "\<lparr>iv_created_at = 1700000000000, iv_expires_at = Some 1700000060000,
     iv_amount_ton = ''1.5'', iv_amount_nano = ''1500000000'',
     iv_recipient_wallet = ''0:w'', iv_expected_sender_wallet = None,
     iv_payer_agent = None, iv_payer_agent_verified = Some 0,
     iv_description = None, iv_comment = ''INV#inv_5'',
     iv_status = ''pending'', iv_strict_sender = Some 0, iv_paid_at = None,
     iv_tx_event_id = None, iv_tx_sender_wallet = None,
     iv_tx_amount_nano = None, iv_tx_amount_ton = None,
     iv_last_checked_at = None\<rparr>"
  let ?ag = "\<lparr>ag_wallet_address = Some ''0:A'', ag_status = ''pending'',
     ag_challenge_tag = Some ''REG#erin#0a0b0c0d'',
     ag_challenge_amount_ton = Some ''0.01'',
     ag_challenge_amount_nano = Some ''10000000'',
     ag_challenge_created_at = Some 1700000002000,
     ag_challenge_expires_at = Some 1700000062000, ag_verified_at = None,
     ag_proof_event_id = None, ag_proof_sender_wallet = None,
     ag_updated_at = 1700000002000\<rparr>"
  have e1: "inv_invoices (db fresh_world) = Map.empty" and e2: "inv_agents (db fresh_world) = Map.empty"
    by (simp_all add: fresh_world_def empty_db_def)
  have s1: "list_all within_schema first_calls" by code_simp
  have s2: "list_all within_schema ?more" by code_simp
  have h1: "i_tool ?i = inv_check \<and>
    trim (str_or_empty (p_invoice_id (i_params ?i))) = ''inv_5'' \<and> ''inv_5'' \<noteq> [] \<and>
    inv_invoices (db ?cur) ''inv_5'' = Some ?inv \<and> iv_status ?inv = ''pending'' \<and>
    iv_expires_at ?inv = Some 1700000060000 \<and> 1700000060000 < i_at ?i"
    by code_simp
  have a1: "fst (admit (i_ctx ?i) ''inv_check'' (?cur\<lparr>clock := i_at ?i\<rparr>)) = Inr ()" by code_simp
  have h2: "i_tool ?j = inv_confirm_verification \<and>
    trim (str_or_empty (p_agent_id (i_params ?j))) = ''erin'' \<and> ''erin'' \<noteq> [] \<and>
    inv_agents (db ?cur) ''erin'' = Some ?ag \<and> ag_status ?ag = ''pending'' \<and>
    ag_challenge_expires_at ?ag = Some 1700000062000 \<and> 1700000062000 < i_at ?j"
    by code_simp
  have a2: "fst (admit (i_ctx ?j) ''inv_confirm_verification'' (?cur\<lparr>clock := i_at ?j\<rparr>)) = Inr ()"
    by code_simp
  have h3: "i_tool ?i = inv_check \<and>
    trim (str_or_empty (p_invoice_id (i_params ?i))) = ''inv_5'' \<and> ''inv_5'' \<noteq> [] \<and>
    inv_invoices (db (run ?more fresh_world)) ''inv_5'' = Some ?inv \<and> iv_status ?inv = ''pending'' \<and>
    iv_expires_at ?inv = Some 1700000060000 \<and> 1700000060000 < i_at ?i"
    by code_simp
  have a3: "fst (admit (i_ctx ?i) ''inv_check'' ((run ?more fresh_world)\<lparr>clock := i_at ?i\<rparr>)) = Inl ?msg"
    by code_simp
  have q: "map_option tr_event_id
     (query_criteria no_parser (db ?cur) (Some ''0:w'')
        \<lparr>c_tag = Some ''INV#inv_5'', c_minAmountNano = 1500000000, c_expectedSender = None,
          c_strictSender = False, c_startMs = Some 1700000000000, c_endMs = Some 1700000060000\<rparr>) =
     Some ''e21''"
    by code_simp
  from expired_wins_over_match[OF e1 e2 s1, of ?i "''inv_5''" ?inv 1700000060000 ?msg "''erin''" ?ag] h1 a1
  have r1: "status_of (fst (execute ?i ?cur)) = Some ''expired''" by blast
  from expired_wins_over_match[OF e1 e2 s1, of ?j "''inv_5''" ?inv 1700000062000 ?msg "''erin''" ?ag] h2 a2
  have r2: "status_of (fst (execute ?j ?cur)) = Some ''expired''" by blast
  from expired_wins_over_match[OF e1 e2 s2, of ?i "''inv_5''" ?inv 1700000060000 ?msg "''erin''" ?ag] h3 a3
  have r3: "fst (execute ?i (run ?more fresh_world)) = Failure ?msg" by blast
  from h1 have p1: "map_option iv_status (inv_invoices (db ?cur) ''inv_5'') = Some ''pending''"
    "map_option iv_expires_at (inv_invoices (db ?cur) ''inv_5'') = Some (Some 1700000060000)"
    by simp_all
  let ?k = "(confirm_at ''erin'' 1700000130000)\<lparr>i_ctx := outsider_ctx\<rparr>"
  let ?den = "''Access denied for tool inv_confirm_verification''"
  have h4: "i_tool ?k = inv_confirm_verification \<and>
    trim (str_or_empty (p_agent_id (i_params ?k))) = ''erin'' \<and> ''erin'' \<noteq> [] \<and>
    inv_agents (db ?cur) ''erin'' = Some ?ag \<and> ag_status ?ag = ''pending'' \<and>
    ag_challenge_expires_at ?ag = Some 1700000062000 \<and> 1700000062000 < i_at ?k"
    by code_simp
  have a4: "fst (admit (i_ctx ?k) ''inv_confirm_verification'' (?cur\<lparr>clock := i_at ?k\<rparr>)) = Inl ?den"
    by code_simp
  from expired_wins_over_match[OF e1 e2 s1, of ?k "''inv_5''" ?inv 1700000062000 ?den "''erin''" ?ag] h4 a4
  have r4: "fst (execute ?k ?cur) = Failure ?den" by blast
  from s1 p1 q r1 r2 r3 r4 show ?thesis by simp
qed



lemma confirm_expired_agents_kept:
  "invConfirmVerification params ctx w = (r, w') \<Longrightarrow> status_of r = Some ''expired'' \<Longrightarrow>
   inv_agents (db w') = inv_agents (db w)"
  by (auto simp: invConfirmVerification_def Let_def status_of_def
      split: prod.splits sum.splits if_splits option.splits
      dest!: admit_frame findTransferWithSync_ledger ledgerD)

text \<open>
  C10. Expiry of a verification challenge is reported but not stored. When
  \<open>inv_confirm_verification\<close>, having passed the access check and the rate limit, finds
  the \<open>expires_at\<close> of a pending challenge in the past (its test: the parsed instant is
  not \<open>0\<close> and lies before the current time), it returns the status \<open>expired\<close>
  and leaves the table of agents as it was, so the stored status is still \<open>pending\<close>;
  more generally, whenever it returns \<open>expired\<close> no agent row has changed. On the same
  condition \<open>inv_check\<close> returns \<open>expired\<close> and writes the status \<open>expired\<close> to the
  invoice row, leaving its other fields as they were.
\<close>

theorem expiry_reported_not_persisted:
  "(fst (admit ctx ''inv_confirm_verification'' w) = Inr () \<and>
    trim (str_or_empty (p_agent_id params)) = b \<and> b \<noteq> [] \<and>
    inv_agents (db w) b = Some agent \<and> ag_status agent = ''pending'' \<and>
    past_expiry (ag_challenge_expires_at agent) (clock w)
    \<longrightarrow> status_of (fst (invConfirmVerification params ctx w)) = Some ''expired'' \<and>
        inv_agents (db (snd (invConfirmVerification params ctx w))) = inv_agents (db w) \<and>
        map_option ag_status (inv_agents (db (snd (invConfirmVerification params ctx w))) b) =
          Some ''pending'') \<and>
   (status_of (fst (invConfirmVerification params ctx w)) = Some ''expired''
    \<longrightarrow> inv_agents (db (snd (invConfirmVerification params ctx w))) = inv_agents (db w)) \<and>
   (fst (admit ctx ''inv_check'' w) = Inr () \<and>
    trim (str_or_empty (p_invoice_id params)) = a \<and> a \<noteq> [] \<and>
    inv_invoices (db w) a = Some invoice \<and> iv_status invoice = ''pending'' \<and>
    past_expiry (iv_expires_at invoice) (clock w)
    \<longrightarrow> status_of (fst (invCheck params ctx w)) = Some ''expired'' \<and>
        inv_invoices (db (snd (invCheck params ctx w))) a = Some (invoice\<lparr>iv_status := ''expired''\<rparr>))"
proof (intro conjI impI)
  assume h: "fst (admit ctx ''inv_confirm_verification'' w) = Inr () \<and>
    trim (str_or_empty (p_agent_id params)) = b \<and> b \<noteq> [] \<and>
    inv_agents (db w) b = Some agent \<and> ag_status agent = ''pending'' \<and>
    past_expiry (ag_challenge_expires_at agent) (clock w)"
  then obtain w1 where ad: "admit ctx ''inv_confirm_verification'' w = (Inr (), w1)"
    using admitted_obtain by blast
  from h have idn: "trim (str_or_empty (p_agent_id params)) = b" "b \<noteq> []"
    and row: "inv_agents (db w) b = Some agent" "ag_status agent \<noteq> ''verified''"
    and ex: "past_expiry (ag_challenge_expires_at agent) (clock w)"
    by simp_all
  note res = invConfirm_expired_result[OF ad idn row ex]
  note fr = admit_frame[OF ad]
  from res show "status_of (fst (invConfirmVerification params ctx w)) = Some ''expired''"
    by (simp add: status_of_def)
  from res fr show "inv_agents (db (snd (invConfirmVerification params ctx w))) = inv_agents (db w)"
    by simp
  from res fr row(1) h
  show "map_option ag_status (inv_agents (db (snd (invConfirmVerification params ctx w))) b) =
          Some ''pending''"
    by simp
next
  assume "status_of (fst (invConfirmVerification params ctx w)) = Some ''expired''"
  with confirm_expired_agents_kept[OF surjective_pairing]
  show "inv_agents (db (snd (invConfirmVerification params ctx w))) = inv_agents (db w)" .
next
  assume h: "fst (admit ctx ''inv_check'' w) = Inr () \<and>
    trim (str_or_empty (p_invoice_id params)) = a \<and> a \<noteq> [] \<and>
    inv_invoices (db w) a = Some invoice \<and> iv_status invoice = ''pending'' \<and>
    past_expiry (iv_expires_at invoice) (clock w)"
  then obtain w1 where ad: "admit ctx ''inv_check'' w = (Inr (), w1)"
    using admitted_obtain by blast
  from h have idn: "trim (str_or_empty (p_invoice_id params)) = a" "a \<noteq> []"
    and row: "inv_invoices (db w) a = Some invoice" "iv_status invoice \<noteq> ''paid''"
    and ex: "past_expiry (iv_expires_at invoice) (clock w)"
    by simp_all
  note res = invCheck_expired_result[OF ad idn row ex]
  note fr = admit_frame[OF ad]
  from res show "status_of (fst (invCheck params ctx w)) = Some ''expired''"
    by (simp add: status_of_def)
  from res fr row(1)
  show "inv_invoices (db (snd (invCheck params ctx w))) a = Some (invoice\<lparr>iv_status := ''expired''\<rparr>)"
    by (simp add: stmtInvoiceUpdateStatus_def)
qed

text \<open>The expired challenge of \<open>bob\<close> and the expired invoice \<open>inv_3\<close>.\<close>

theorem expiry_reported_not_persisted_witness:
  "status_of (fst (invConfirmVerification (i_params (confirm_at ''bob'' 0)) demo_ctx expired_world)) =
     Some ''expired'' \<and>
   map_option ag_status
     (inv_agents (db (snd (invConfirmVerification (i_params (confirm_at ''bob'' 0)) demo_ctx expired_world)))
        ''bob'') = Some ''pending'' \<and>
   status_of (fst (invCheck (i_params (check_at ''inv_3'' 0)) demo_ctx expired_world)) = Some ''expired'' \<and>
   map_option iv_status
     (inv_invoices (db (snd (invCheck (i_params (check_at ''inv_3'' 0)) demo_ctx expired_world))) ''inv_3'') =
     Some ''expired'' \<and>
   inv_agents (db (snd (invConfirmVerification (i_params (confirm_at ''bob'' 0)) demo_ctx expired_world)))
     ''bob'' = inv_agents (db expired_world) ''bob''"
proof -
  let ?inv = "pending_invoice\<lparr>iv_expires_at := Some 1700000100000, iv_comment := ''INV#inv_3''\<rparr>"
  let ?ag = "verified_agent\<lparr>ag_status := ''pending'', ag_verified_at := None,
               ag_proof_event_id := None, ag_proof_sender_wallet := None,
               ag_challenge_expires_at := Some 1700000100000\<rparr>"
  have h1: "fst (admit demo_ctx ''inv_check'' expired_world) = Inr () \<and>
    trim (str_or_empty (p_invoice_id (i_params (check_at ''inv_3'' 0)))) = ''inv_3'' \<and> ''inv_3'' \<noteq> [] \<and>
    inv_invoices (db expired_world) ''inv_3'' = Some ?inv \<and> iv_status ?inv = ''pending'' \<and>
    past_expiry (iv_expires_at ?inv) (clock expired_world)"
    by code_simp
  have h2: "fst (admit demo_ctx ''inv_confirm_verification'' expired_world) = Inr () \<and>
    trim (str_or_empty (p_agent_id (i_params (confirm_at ''bob'' 0)))) = ''bob'' \<and> ''bob'' \<noteq> [] \<and>
    inv_agents (db expired_world) ''bob'' = Some ?ag \<and> ag_status ?ag = ''pending'' \<and>
    past_expiry (ag_challenge_expires_at ?ag) (clock expired_world)"
    by code_simp
  from expiry_reported_not_persisted[of demo_ctx expired_world "i_params (confirm_at ''bob'' 0)" "''bob''" ?ag
      "''inv_3''" ?inv] h2
  have a: "status_of (fst (invConfirmVerification (i_params (confirm_at ''bob'' 0)) demo_ctx expired_world)) =
     Some ''expired''"
    "map_option ag_status
     (inv_agents (db (snd (invConfirmVerification (i_params (confirm_at ''bob'' 0)) demo_ctx expired_world)))
        ''bob'') = Some ''pending''"
    by blast+
  from expiry_reported_not_persisted[of demo_ctx expired_world "i_params (check_at ''inv_3'' 0)" "''bob''" ?ag
      "''inv_3''" ?inv] h1
  have b: "status_of (fst (invCheck (i_params (check_at ''inv_3'' 0)) demo_ctx expired_world)) = Some ''expired''"
    "inv_invoices (db (snd (invCheck (i_params (check_at ''inv_3'' 0)) demo_ctx expired_world))) ''inv_3'' =
     Some (?inv\<lparr>iv_status := ''expired''\<rparr>)"
    by blast+
  from expiry_reported_not_persisted[of demo_ctx expired_world "i_params (confirm_at ''bob'' 0)" "''bob''" ?ag
      "''inv_3''" ?inv] a(1)
  have c: "inv_agents (db (snd (invConfirmVerification (i_params (confirm_at ''bob'' 0)) demo_ctx expired_world)))
     = inv_agents (db expired_world)"
    by blast
  from a b c show ?thesis by simp
qed


section \<open>Failure of the event source\<close>


lemma retry_exhausted:
  assumes "tonapiFetch w = (Inl e1, w1)" "retryable e1"
    and "tonapiFetch w1 = (Inl e2, w2)" "retryable e2"
    and "tonapiFetch w2 = (Inl e3, w3)"
  shows "tonapiFetchWithRetry w = (Inl e3, w3)"
proof -
  from assms(5) have "retry_loop 3 (Suc (Suc 0)) (Some e2) w2 = (Inl e3, w3)"
    by (subst retry_loop.simps) simp
  with assms(3,4) have "retry_loop 3 (Suc 0) (Some e1) w1 = (Inl e3, w3)"
    by (subst retry_loop.simps) simp
  with assms(1,2) have "retry_loop 3 0 None w = (Inl e3, w3)"
    by (subst retry_loop.simps) simp
  then show ?thesis by (simp add: tonapiFetchWithRetry_def)
qed

lemma retry_fatal:
  assumes "tonapiFetch w = (Inl e1, w1)" "\<not> retryable e1"
  shows "tonapiFetchWithRetry w = (Inl e1, w1)"
  using assms unfolding tonapiFetchWithRetry_def by (subst retry_loop.simps) simp

lemma syncNew_first_fail:
  "tonapiFetchWithRetry w = (Inl e, w') \<Longrightarrow> syncNewEvents P wl w = (Inl e, w')"
  by (simp add: syncNewEvents_def Let_def syncNew_loop.simps[of P wl 0] EVENT_MAX_PAGES_NEW_def)

lemma matcher_first_fail:
  assumes "query_criteria P (db w) wl c = None" "\<not> sync_throttled (getWalletSync (db w) wl) (clock w)"
    and "tonapiFetchWithRetry w = (Inl e, w')"
  shows "findTransferWithSync P wl c w = (Inl e, w')"
  using assms syncNew_first_fail[OF assms(3), of P wl]
  by (simp add: findTransferWithSync_def Let_def)

lemma invCheck_matcher_fail:
  assumes ad: "admit ctx ''inv_check'' w = (Inr u, w1)"
    and idn: "trim (str_or_empty (p_invoice_id params)) = a" "a \<noteq> []"
    and row: "inv_invoices (db w) a = Some invoice" "iv_status invoice \<noteq> ''paid''"
    and nex: "\<not> past_expiry (iv_expires_at invoice) (clock w)"
    and str: "\<not> (iv_strict_sender invoice = Some 1 \<and> \<not> truthy_str (iv_expected_sender_wallet invoice))"
    and amt: "toBigIntSafe (Some (JStr (iv_amount_nano invoice))) = Some amountNanoMin"
    and f: "findTransferWithSync (address_parse ctx) (Some (iv_recipient_wallet invoice))
              (check_criteria a invoice amountNanoMin (clock w)) w1 = (Inl err, w2)"
  shows "invCheck params ctx w = (Failure (catch_msg err), w2) \<and>
         inv_invoices (db w2) = inv_invoices (db w) \<and> inv_agents (db w2) = inv_agents (db w)"
proof -
  note fr = admit_frame[OF ad]
  from fr row nex have r1: "inv_invoices (db w1) a = Some invoice"
    "\<not> past_expiry (iv_expires_at invoice) (clock w1)" by simp_all
  from fr f have f1: "findTransferWithSync (address_parse ctx) (Some (iv_recipient_wallet invoice))
              (check_criteria a invoice amountNanoMin (clock w1)) w1 = (Inl err, w2)" by simp
  from ad idn row(2) r1 str amt f1 have "invCheck params ctx w = (Failure (catch_msg err), w2)"
    by (auto simp: invCheck_def Let_def)
  moreover from ledgerD[OF findTransferWithSync_ledger[OF f]] fr
  have "inv_invoices (db w2) = inv_invoices (db w)" "inv_agents (db w2) = inv_agents (db w)" by simp_all
  ultimately show ?thesis by simp
qed

lemma invConfirm_matcher_fail:
  assumes ad: "admit ctx ''inv_confirm_verification'' w = (Inr u, w1)"
    and idn: "trim (str_or_empty (p_agent_id params)) = b" "b \<noteq> []"
    and row: "inv_agents (db w) b = Some agent" "ag_status agent \<noteq> ''verified''"
    and nex: "\<not> past_expiry (ag_challenge_expires_at agent) (clock w)"
    and wf: "getAgentWalletAddress ctx = Inr addr"
    and amt: "toBigIntSafe (Some (JStr (case ag_challenge_amount_nano agent of None \<Rightarrow> ''0'' | Some s \<Rightarrow> s)))
                = Some amountNanoMin"
    and f: "findTransferWithSync (address_parse ctx) (normalizeAddress (address_parse ctx) (Some addr))
              (confirm_criteria agent amountNanoMin (clock w)) w1 = (Inl err, w2)"
  shows "invConfirmVerification params ctx w = (Failure (catch_msg err), w2) \<and>
         inv_invoices (db w2) = inv_invoices (db w) \<and> inv_agents (db w2) = inv_agents (db w)"
proof -
  note fr = admit_frame[OF ad]
  from fr row nex have r1: "inv_agents (db w1) b = Some agent"
    "\<not> past_expiry (ag_challenge_expires_at agent) (clock w1)" by simp_all
  from fr f have f1: "findTransferWithSync (address_parse ctx) (normalizeAddress (address_parse ctx) (Some addr))
              (confirm_criteria agent amountNanoMin (clock w1)) w1 = (Inl err, w2)" by simp
  from ad idn row(2) r1 wf amt f1 have "invConfirmVerification params ctx w = (Failure (catch_msg err), w2)"
    by (auto simp: invConfirmVerification_def Let_def)
  moreover from ledgerD[OF findTransferWithSync_ledger[OF f]] fr
  have "inv_invoices (db w2) = inv_invoices (db w)" "inv_agents (db w2) = inv_agents (db w)" by simp_all
  ultimately show ?thesis by simp
qed

text \<open>
  A request that fails makes the loop, the sync and the matcher fail with its error, in
  the world in which the request left off; and they fail only in this way.
\<close>

lemma syncNew_request_fails:
  "u \<in> set (syncNew_requests P wl page a w) \<Longrightarrow> tonapiFetchWithRetry u = (Inl err, u') \<Longrightarrow>
   syncNew_loop P wl page a n s w = (Inl err, u')"
proof (induction P wl page a n s w rule: syncNew_loop.induct)
  case (1 P wl page a n s w)
  obtain r w1 where f: "tonapiFetchWithRetry w = (r, w1)" by (cases "tonapiFetchWithRetry w")
  show ?case
  proof (cases r)
    case (Inl e)
    with f "1.prems" show ?thesis
      by (subst syncNew_loop.simps, subst (asm) syncNew_requests.simps) (auto split: if_splits)
  next
    case (Inr data)
    note IH = 1(1)[OF _ f[symmetric] Inr refl _ refl refl refl refl refl]
    from f Inr IH "1.prems" show ?thesis
      by (subst syncNew_loop.simps, subst (asm) syncNew_requests.simps)
         (auto simp: Let_def split: if_splits)
  qed
qed

lemma syncNew_loop_error:
  "syncNew_loop P wl page a n s w = (Inl err, w') \<Longrightarrow>
   \<exists>u \<in> set (syncNew_requests P wl page a w). tonapiFetchWithRetry u = (Inl err, w')"
proof (induction P wl page a n s w rule: syncNew_loop.induct)
  case (1 P wl page a n s w)
  obtain r w1 where f: "tonapiFetchWithRetry w = (r, w1)" by (cases "tonapiFetchWithRetry w")
  show ?case
  proof (cases r)
    case (Inl e)
    with f "1.prems" show ?thesis
      by (subst syncNew_requests.simps, subst (asm) syncNew_loop.simps) (auto split: if_splits)
  next
    case (Inr data)
    note IH = 1(1)[OF _ f[symmetric] Inr refl _ refl refl refl refl refl]
    from f Inr IH "1.prems" show ?thesis
      by (subst syncNew_requests.simps, subst (asm) syncNew_loop.simps)
         (auto simp: Let_def split: if_splits)
  qed
qed


lemma syncOld_request_fails:
  "u \<in> set (syncOld_requests P wl st page b w) \<Longrightarrow> tonapiFetchWithRetry u = (Inl err, u') \<Longrightarrow>
   syncOld_loop P wl st page b n s w = (Inl err, u')"
proof (induction P wl st page b n s w rule: syncOld_loop.induct)
  case (1 P wl st page b n s w)
  obtain r w1 where f: "tonapiFetchWithRetry w = (r, w1)" by (cases "tonapiFetchWithRetry w")
  show ?case
  proof (cases r)
    case (Inl e)
    with f "1.prems" show ?thesis
      by (subst syncOld_loop.simps, subst (asm) syncOld_requests.simps) (auto split: if_splits)
  next
    case (Inr data)
    note IH = 1(1)[OF _ f[symmetric] Inr refl _ refl refl refl refl refl]
    from f Inr IH "1.prems" show ?thesis
      by (subst syncOld_loop.simps, subst (asm) syncOld_requests.simps)
         (auto simp: Let_def split: if_splits)
  qed
qed

lemma syncOld_loop_error:
  "syncOld_loop P wl st page b n s w = (Inl err, w') \<Longrightarrow>
   \<exists>u \<in> set (syncOld_requests P wl st page b w). tonapiFetchWithRetry u = (Inl err, w')"
proof (induction P wl st page b n s w rule: syncOld_loop.induct)
  case (1 P wl st page b n s w)
  obtain r w1 where f: "tonapiFetchWithRetry w = (r, w1)" by (cases "tonapiFetchWithRetry w")
  show ?case
  proof (cases r)
    case (Inl e)
    with f "1.prems" show ?thesis
      by (subst syncOld_requests.simps, subst (asm) syncOld_loop.simps) (auto split: if_splits)
  next
    case (Inr data)
    note IH = 1(1)[OF _ f[symmetric] Inr refl _ refl refl refl refl refl]
    from f Inr IH "1.prems" show ?thesis
      by (subst syncOld_requests.simps, subst (asm) syncOld_loop.simps)
         (auto simp: Let_def split: if_splits)
  qed
qed

lemma syncNewEvents_request_fails:
  "u \<in> set (syncNewEvents_requests P wl w) \<Longrightarrow> tonapiFetchWithRetry u = (Inl err, u') \<Longrightarrow>
   syncNewEvents P wl w = (Inl err, u')"
  by (simp add: syncNewEvents_requests_def syncNewEvents_def Let_def syncNew_request_fails)

lemma syncNewEvents_error:
  "syncNewEvents P wl w = (Inl err, w') \<Longrightarrow>
   \<exists>u \<in> set (syncNewEvents_requests P wl w). tonapiFetchWithRetry u = (Inl err, w')"
  by (auto simp: syncNewEvents_requests_def syncNewEvents_def Let_def
      split: prod.splits sum.splits dest: syncNew_loop_error)

lemma syncOlderEvents_request_fails:
  "u \<in> set (syncOlderEvents_requests P wl st w) \<Longrightarrow> tonapiFetchWithRetry u = (Inl err, u') \<Longrightarrow>
   syncOlderEvents P wl st w = (Inl err, u')"
  by (auto simp: syncOlderEvents_requests_def syncOlderEvents_def Let_def syncOld_request_fails
      split: if_splits)

lemma syncOlderEvents_error:
  "syncOlderEvents P wl st w = (Inl err, w') \<Longrightarrow>
   \<exists>u \<in> set (syncOlderEvents_requests P wl st w). tonapiFetchWithRetry u = (Inl err, w')"
  by (auto simp: syncOlderEvents_requests_def syncOlderEvents_def Let_def
      split: prod.splits sum.splits if_splits dest: syncOld_loop_error)


lemma matcher_request_fails:
  assumes mem: "u \<in> set (findTransferWithSync_requests P wl c w)"
    and fail: "tonapiFetchWithRetry u = (Inl err, u')"
  shows "findTransferWithSync P wl c w = (Inl err, u')"
proof -
  define older where "older = (\<lambda>w1 :: world.
     case getWalletSync (db w1) wl of
       None \<Rightarrow> True
     | Some s \<Rightarrow>
         (case ws_min_ts s of
            None \<Rightarrow> True
          | Some m \<Rightarrow>
              if m = 0 then True
              else (case c_startMs c of None \<Rightarrow> False | Some st \<Rightarrow> st \<noteq> 0 \<and> m > st)))"
  from mem have q: "query_criteria P (db w) wl c = None"
    and th: "\<not> sync_throttled (getWalletSync (db w) wl) (clock w)"
    by (auto simp: findTransferWithSync_requests_def Let_def split: option.splits if_splits)
  obtain r1 w1 where n: "syncNewEvents P wl w = (r1, w1)" by (cases "syncNewEvents P wl w")
  from q th n have R: "findTransferWithSync_requests P wl c w =
      syncNewEvents_requests P wl w @
      (case r1 of
         Inl e \<Rightarrow> []
       | Inr k \<Rightarrow>
           (case query_criteria P (db w1) wl c of
              Some m \<Rightarrow> []
            | None \<Rightarrow> if older w1 then syncOlderEvents_requests P wl (c_startMs c) w1 else []))"
    unfolding findTransferWithSync_requests_def Let_def older_def by simp
  from q th n have M: "findTransferWithSync P wl c w =
      (case r1 of
         Inl e \<Rightarrow> (Inl e, w1)
       | Inr k \<Rightarrow>
           (case query_criteria P (db w1) wl c of
              Some m \<Rightarrow> (Inr (Some m, ''sync_new''), w1)
            | None \<Rightarrow>
                (case (if older w1 then syncOlderEvents P wl (c_startMs c) w1 else (Inr 0, w1)) of
                   (Inl e, w2) \<Rightarrow> (Inl e, w2)
                 | (Inr k2, w2) \<Rightarrow>
                     (case query_criteria P (db w2) wl c of
                        Some m \<Rightarrow> (Inr (Some m, ''sync_old''), w2)
                      | None \<Rightarrow> (Inr (None, ''not_found''), w2)))))"
    unfolding findTransferWithSync_def Let_def older_def by simp
  from mem R consider
    (new) "u \<in> set (syncNewEvents_requests P wl w)"
    | (old) k where "r1 = Inr k" "query_criteria P (db w1) wl c = None" "older w1"
        "u \<in> set (syncOlderEvents_requests P wl (c_startMs c) w1)"
    by (auto split: sum.splits option.splits if_splits)
  then show ?thesis
  proof cases
    case new
    from syncNewEvents_request_fails[OF new fail] n have "r1 = Inl err" "w1 = u'" by simp_all
    with M show ?thesis by simp
  next
    case old
    from syncOlderEvents_request_fails[OF old(4) fail] old(1,2,3) M show ?thesis by simp
  qed
qed

lemma matcher_error:
  assumes res: "findTransferWithSync P wl c w = (Inl err, w')"
  shows "\<exists>u \<in> set (findTransferWithSync_requests P wl c w). tonapiFetchWithRetry u = (Inl err, w')"
proof -
  define older where "older = (\<lambda>w1 :: world.
     case getWalletSync (db w1) wl of
       None \<Rightarrow> True
     | Some s \<Rightarrow>
         (case ws_min_ts s of
            None \<Rightarrow> True
          | Some m \<Rightarrow>
              if m = 0 then True
              else (case c_startMs c of None \<Rightarrow> False | Some st \<Rightarrow> st \<noteq> 0 \<and> m > st)))"
  from res have q: "query_criteria P (db w) wl c = None"
    and th: "\<not> sync_throttled (getWalletSync (db w) wl) (clock w)"
    by (auto simp: findTransferWithSync_def Let_def split: option.splits if_splits)
  obtain r1 w1 where n: "syncNewEvents P wl w = (r1, w1)" by (cases "syncNewEvents P wl w")
  from q th n have R: "findTransferWithSync_requests P wl c w =
      syncNewEvents_requests P wl w @
      (case r1 of
         Inl e \<Rightarrow> []
       | Inr k \<Rightarrow>
           (case query_criteria P (db w1) wl c of
              Some m \<Rightarrow> []
            | None \<Rightarrow> if older w1 then syncOlderEvents_requests P wl (c_startMs c) w1 else []))"
    unfolding findTransferWithSync_requests_def Let_def older_def by simp
  from q th n have M: "findTransferWithSync P wl c w =
      (case r1 of
         Inl e \<Rightarrow> (Inl e, w1)
       | Inr k \<Rightarrow>
           (case query_criteria P (db w1) wl c of
              Some m \<Rightarrow> (Inr (Some m, ''sync_new''), w1)
            | None \<Rightarrow>
                (case (if older w1 then syncOlderEvents P wl (c_startMs c) w1 else (Inr 0, w1)) of
                   (Inl e, w2) \<Rightarrow> (Inl e, w2)
                 | (Inr k2, w2) \<Rightarrow>
                     (case query_criteria P (db w2) wl c of
                        Some m \<Rightarrow> (Inr (Some m, ''sync_old''), w2)
                      | None \<Rightarrow> (Inr (None, ''not_found''), w2)))))"
    unfolding findTransferWithSync_def Let_def older_def by simp
  from res M consider
    (new) "r1 = Inl err" "w1 = w'"
    | (old) k where "r1 = Inr k" "query_criteria P (db w1) wl c = None" "older w1"
        "syncOlderEvents P wl (c_startMs c) w1 = (Inl err, w')"
    by (auto split: sum.splits option.splits if_splits prod.splits)
  then show ?thesis
  proof cases
    case new
    with n syncNewEvents_error[of P wl w err w'] R show ?thesis by auto
  next
    case old
    with syncOlderEvents_error[OF old(4)] R show ?thesis by auto
  qed
qed

text \<open>
  Every scripted attempt that a matcher run uses up belongs to one of its requests: a
  request makes at most three attempts.
\<close>

lemma tonapiFetch_net: "length (net w) \<le> length (net (snd (tonapiFetch w))) + 1"
  by (auto simp: tonapiFetch_def Let_def split: list.splits upstream.splits prod.splits)

lemma retry_loop_net: "length (net w) \<le> length (net (snd (retry_loop m a l w))) + (m - a)"
proof (induction m a l w rule: retry_loop.induct)
  case (1 m a l w)
  show ?case
  proof (cases "tonapiFetch w")
    case (Pair r w')
    with tonapiFetch_net[of w] have n: "length (net w) \<le> length (net w') + 1" by simp
    show ?thesis
    proof (cases r)
      case (Inl err)
      with Pair n 1[OF _ Pair[symmetric]] show ?thesis
        by (subst retry_loop.simps) (auto split: if_splits)
    next
      case (Inr d)
      with Pair n show ?thesis by (subst retry_loop.simps) auto
    qed
  qed
qed

lemma fetchRetry_net: "length (net w) \<le> length (net (snd (tonapiFetchWithRetry w))) + 3"
  using retry_loop_net[of w 3 0 None] by (simp add: tonapiFetchWithRetry_def)

lemma ingest_page_net: "net (snd (ingest_page P wl evs w)) = net w"
  by (simp add: ingest_page_def split_beta)

lemma syncNew_requests_account:
  "length (net w) \<le> length (net (snd (syncNew_loop P wl page a n s w))) +
     3 * length (syncNew_requests P wl page a w)"
proof (induction P wl page a n s w rule: syncNew_loop.induct)
  case (1 P wl page a n s w)
  obtain r w1 where f: "tonapiFetchWithRetry w = (r, w1)" by (cases "tonapiFetchWithRetry w")
  with fetchRetry_net[of w] have n1: "length (net w) \<le> length (net w1) + 3" by simp
  show ?case
  proof (cases r)
    case (Inl e)
    with f n1 show ?thesis
      by (subst syncNew_loop.simps, subst syncNew_requests.simps) simp
  next
    case (Inr data)
    note IH = 1(1)[OF _ f[symmetric] Inr refl _ refl refl refl refl refl]
    from f Inr IH n1 show ?thesis
      by (subst syncNew_loop.simps, subst syncNew_requests.simps)
         (auto simp: Let_def ingest_page_net)
  qed
qed

lemma syncOld_requests_account:
  "length (net w) \<le> length (net (snd (syncOld_loop P wl st page b n s w))) +
     3 * length (syncOld_requests P wl st page b w)"
proof (induction P wl st page b n s w rule: syncOld_loop.induct)
  case (1 P wl st page b n s w)
  obtain r w1 where f: "tonapiFetchWithRetry w = (r, w1)" by (cases "tonapiFetchWithRetry w")
  with fetchRetry_net[of w] have n1: "length (net w) \<le> length (net w1) + 3" by simp
  show ?case
  proof (cases r)
    case (Inl e)
    with f n1 show ?thesis
      by (subst syncOld_loop.simps, subst syncOld_requests.simps) simp
  next
    case (Inr data)
    note IH = 1(1)[OF _ f[symmetric] Inr refl _ refl refl refl refl refl]
    from f Inr IH n1 show ?thesis
      by (subst syncOld_loop.simps, subst syncOld_requests.simps)
         (auto simp: Let_def ingest_page_net)
  qed
qed

lemma syncNewEvents_requests_account:
  "length (net w) \<le> length (net (snd (syncNewEvents P wl w))) +
     3 * length (syncNewEvents_requests P wl w)"
proof -
  let ?a = "case getWalletSync (db w) wl of None \<Rightarrow> None | Some s \<Rightarrow> ws_max_lt s"
  have "net (snd (syncNewEvents P wl w)) = net (snd (syncNew_loop P wl 0 ?a 0 empty_stats w))"
    by (simp add: syncNewEvents_def Let_def split: prod.splits sum.splits)
  with syncNew_requests_account[of w P wl 0 ?a 0 empty_stats] show ?thesis
    by (simp add: syncNewEvents_requests_def Let_def)
qed

lemma syncOlderEvents_requests_account:
  "length (net w) \<le> length (net (snd (syncOlderEvents P wl st w))) +
     3 * length (syncOlderEvents_requests P wl st w)"
proof -
  let ?b = "case getWalletSync (db w) wl of None \<Rightarrow> None | Some s \<Rightarrow> ws_min_lt s"
  show ?thesis
  proof (cases "truthy_str ?b")
    case False
    then show ?thesis by (simp add: syncOlderEvents_def syncOlderEvents_requests_def Let_def)
  next
    case True
    then have "net (snd (syncOlderEvents P wl st w)) = net (snd (syncOld_loop P wl st 0 ?b 0 empty_stats w))"
      by (simp add: syncOlderEvents_def Let_def split: prod.splits sum.splits)
    with True syncOld_requests_account[of w P wl st 0 ?b 0 empty_stats] show ?thesis
      by (simp add: syncOlderEvents_requests_def Let_def)
  qed
qed

lemma matcher_requests_account:
  "length (net w) \<le> length (net (snd (findTransferWithSync P wl c w))) +
     3 * length (findTransferWithSync_requests P wl c w)"
proof -
  define older where "older = (\<lambda>w1 :: world.
     case getWalletSync (db w1) wl of
       None \<Rightarrow> True
     | Some s \<Rightarrow>
         (case ws_min_ts s of
            None \<Rightarrow> True
          | Some m \<Rightarrow>
              if m = 0 then True
              else (case c_startMs c of None \<Rightarrow> False | Some st \<Rightarrow> st \<noteq> 0 \<and> m > st)))"
  show ?thesis
  proof (cases "query_criteria P (db w) wl c = None \<and>
                \<not> sync_throttled (getWalletSync (db w) wl) (clock w)")
    case False
    then have "snd (findTransferWithSync P wl c w) = w"
      by (auto simp: findTransferWithSync_def Let_def split: option.splits)
    then show ?thesis by simp
  next
    case True
    then have q: "query_criteria P (db w) wl c = None"
      and th: "\<not> sync_throttled (getWalletSync (db w) wl) (clock w)" by simp_all
    obtain r1 w1 where n: "syncNewEvents P wl w = (r1, w1)" by (cases "syncNewEvents P wl w")
    with syncNewEvents_requests_account[of w P wl]
    have n1: "length (net w) \<le> length (net w1) + 3 * length (syncNewEvents_requests P wl w)" by simp
    from q th n have R: "findTransferWithSync_requests P wl c w =
      syncNewEvents_requests P wl w @
      (case r1 of
         Inl e \<Rightarrow> []
       | Inr k \<Rightarrow>
           (case query_criteria P (db w1) wl c of
              Some m \<Rightarrow> []
            | None \<Rightarrow> if older w1 then syncOlderEvents_requests P wl (c_startMs c) w1 else []))"
      unfolding findTransferWithSync_requests_def Let_def older_def by simp
    from q th n have M: "findTransferWithSync P wl c w =
      (case r1 of
         Inl e \<Rightarrow> (Inl e, w1)
       | Inr k \<Rightarrow>
           (case query_criteria P (db w1) wl c of
              Some m \<Rightarrow> (Inr (Some m, ''sync_new''), w1)
            | None \<Rightarrow>
                (case (if older w1 then syncOlderEvents P wl (c_startMs c) w1 else (Inr 0, w1)) of
                   (Inl e, w2) \<Rightarrow> (Inl e, w2)
                 | (Inr k2, w2) \<Rightarrow>
                     (case query_criteria P (db w2) wl c of
                        Some m \<Rightarrow> (Inr (Some m, ''sync_old''), w2)
                      | None \<Rightarrow> (Inr (None, ''not_found''), w2)))))"
      unfolding findTransferWithSync_def Let_def older_def by simp
    have "snd (findTransferWithSync P wl c w) = w1 \<and>
            length (findTransferWithSync_requests P wl c w) = length (syncNewEvents_requests P wl w) \<or>
          snd (findTransferWithSync P wl c w) = snd (syncOlderEvents P wl (c_startMs c) w1) \<and>
            length (findTransferWithSync_requests P wl c w) =
              length (syncNewEvents_requests P wl w) +
              length (syncOlderEvents_requests P wl (c_startMs c) w1)"
      unfolding M R by (auto split: sum.splits option.splits prod.splits)
    with n1 syncOlderEvents_requests_account[of w1 P wl "c_startMs c"] show ?thesis by auto
  qed
qed

text \<open>
  A pending invoice, a cache miss and an upstream that answers three times with status
  500: \<open>inv_check\<close> returns a failure with the message of the last error, and the three
  scripted answers are used up.
\<close>

theorem source_outage_counterexample:
  "map_option iv_status (inv_invoices (db outage_world) ''inv_2'') = Some ''pending'' \<and>
   fst (execute (check_at ''inv_2'' 1700000400000) outage_world) = Failure ''TONAPI error: 500 down'' \<and>
   status_of (fst (execute (check_at ''inv_2'' 1700000400000) outage_world)) = None \<and>
   net (snd (execute (check_at ''inv_2'' 1700000400000) outage_world)) = []"
  by code_simp


text \<open>
  C5, as the code has it. When the upstream fetch exhausts its retries (three attempts
  that fail with a retryable error) \<open>tonapiFetchWithRetry\<close> throws the last error. The
  sync engine and the matcher do not catch it: after a cache miss outside the throttle
  interval \<open>findTransferWithSync\<close> fails with the error of its first request if that
  fails, and whichever of its requests fails, the first or a later page of the forward
  sync or a page of the backward sync, it fails with the error of that request and does
  nothing after it; it fails only if one of its requests has failed. \<open>inv_check\<close> and
  \<open>inv_confirm_verification\<close> catch an error of the matcher at the tool boundary and
  return a failure result that carries the error message cut to 500 characters, not a
  \<open>pending\<close>, \<open>throttled\<close> or \<open>not_found\<close> status; the tables of invoices and agents are
  left as they were, so no status changes. Hence a call that has got as far as the
  matcher returns a status only when every request of its matcher run has succeeded.
\<close>

theorem source_failure_surfaces_as_error:
  "(fst (tonapiFetch w) = Inl e1 \<and> retryable e1 \<and>
    fst (tonapiFetch (snd (tonapiFetch w))) = Inl e2 \<and> retryable e2 \<and>
    fst (tonapiFetch (snd (tonapiFetch (snd (tonapiFetch w))))) = Inl e3
    \<longrightarrow> tonapiFetchWithRetry w = (Inl e3, snd (tonapiFetch (snd (tonapiFetch (snd (tonapiFetch w))))))) \<and>
   (query_criteria parse (db w) wallet c = None \<and>
    \<not> sync_throttled (getWalletSync (db w) wallet) (clock w) \<and>
    fst (tonapiFetchWithRetry w) = Inl err
    \<longrightarrow> findTransferWithSync parse wallet c w = (Inl err, snd (tonapiFetchWithRetry w))) \<and>
   (fst (admit ctx ''inv_check'' v) = Inr () \<and>
    trim (str_or_empty (p_invoice_id params)) = a \<and> a \<noteq> [] \<and>
    inv_invoices (db v) a = Some invoice \<and> iv_status invoice \<noteq> ''paid'' \<and>
    \<not> past_expiry (iv_expires_at invoice) (clock v) \<and>
    \<not> (iv_strict_sender invoice = Some 1 \<and> \<not> truthy_str (iv_expected_sender_wallet invoice)) \<and>
    toBigIntSafe (Some (JStr (iv_amount_nano invoice))) = Some amountNanoMin \<and>
    fst (findTransferWithSync (address_parse ctx) (Some (iv_recipient_wallet invoice))
           (check_criteria a invoice amountNanoMin (clock v)) (snd (admit ctx ''inv_check'' v))) = Inl err
    \<longrightarrow> fst (invCheck params ctx v) = Failure (catch_msg err) \<and>
        inv_invoices (db (snd (invCheck params ctx v))) = inv_invoices (db v) \<and>
        inv_agents (db (snd (invCheck params ctx v))) = inv_agents (db v)) \<and>
   (fst (admit ctx ''inv_confirm_verification'' v) = Inr () \<and>
    trim (str_or_empty (p_agent_id params)) = b \<and> b \<noteq> [] \<and>
    inv_agents (db v) b = Some agent \<and> ag_status agent \<noteq> ''verified'' \<and>
    \<not> past_expiry (ag_challenge_expires_at agent) (clock v) \<and>
    getAgentWalletAddress ctx = Inr addr \<and>
    toBigIntSafe (Some (JStr (case ag_challenge_amount_nano agent of None \<Rightarrow> ''0'' | Some s \<Rightarrow> s)))
      = Some amountNanoMin \<and>
    fst (findTransferWithSync (address_parse ctx) (normalizeAddress (address_parse ctx) (Some addr))
           (confirm_criteria agent amountNanoMin (clock v))
           (snd (admit ctx ''inv_confirm_verification'' v))) = Inl err
    \<longrightarrow> fst (invConfirmVerification params ctx v) = Failure (catch_msg err) \<and>
        inv_invoices (db (snd (invConfirmVerification params ctx v))) = inv_invoices (db v) \<and>
        inv_agents (db (snd (invConfirmVerification params ctx v))) = inv_agents (db v)) \<and>
   (u \<in> set (findTransferWithSync_requests parse wallet c w) \<and>
    fst (tonapiFetchWithRetry u) = Inl err
    \<longrightarrow> findTransferWithSync parse wallet c w = (Inl err, snd (tonapiFetchWithRetry u))) \<and>
   (fst (findTransferWithSync parse wallet c w) = Inl err
    \<longrightarrow> (\<exists>u \<in> set (findTransferWithSync_requests parse wallet c w).
           tonapiFetchWithRetry u = (Inl err, snd (findTransferWithSync parse wallet c w)))) \<and>
   (fst (admit ctx ''inv_check'' v) = Inr () \<and>
    trim (str_or_empty (p_invoice_id params)) = a \<and> a \<noteq> [] \<and>
    inv_invoices (db v) a = Some invoice \<and> iv_status invoice \<noteq> ''paid'' \<and>
    \<not> past_expiry (iv_expires_at invoice) (clock v) \<and>
    \<not> (iv_strict_sender invoice = Some 1 \<and> \<not> truthy_str (iv_expected_sender_wallet invoice)) \<and>
    toBigIntSafe (Some (JStr (iv_amount_nano invoice))) = Some amountNanoMin \<and>
    status_of (fst (invCheck params ctx v)) = Some s
    \<longrightarrow> (\<forall>u \<in> set (findTransferWithSync_requests (address_parse ctx)
                      (Some (iv_recipient_wallet invoice))
                      (check_criteria a invoice amountNanoMin (clock v))
                      (snd (admit ctx ''inv_check'' v))).
           \<exists>data. fst (tonapiFetchWithRetry u) = Inr data)) \<and>
   (fst (admit ctx ''inv_confirm_verification'' v) = Inr () \<and>
    trim (str_or_empty (p_agent_id params)) = b \<and> b \<noteq> [] \<and>
    inv_agents (db v) b = Some agent \<and> ag_status agent \<noteq> ''verified'' \<and>
    \<not> past_expiry (ag_challenge_expires_at agent) (clock v) \<and>
    getAgentWalletAddress ctx = Inr addr \<and>
    toBigIntSafe (Some (JStr (case ag_challenge_amount_nano agent of None \<Rightarrow> ''0'' | Some s \<Rightarrow> s)))
      = Some amountNanoMin \<and>
    status_of (fst (invConfirmVerification params ctx v)) = Some s
    \<longrightarrow> (\<forall>u \<in> set (findTransferWithSync_requests (address_parse ctx)
                      (normalizeAddress (address_parse ctx) (Some addr))
                      (confirm_criteria agent amountNanoMin (clock v))
                      (snd (admit ctx ''inv_confirm_verification'' v))).
           \<exists>data. fst (tonapiFetchWithRetry u) = Inr data))"
proof (intro conjI impI)
  assume h: "fst (tonapiFetch w) = Inl e1 \<and> retryable e1 \<and>
    fst (tonapiFetch (snd (tonapiFetch w))) = Inl e2 \<and> retryable e2 \<and>
    fst (tonapiFetch (snd (tonapiFetch (snd (tonapiFetch w))))) = Inl e3"
  let ?w1 = "snd (tonapiFetch w)"
  let ?w2 = "snd (tonapiFetch ?w1)"
  let ?w3 = "snd (tonapiFetch ?w2)"
  from h have f: "tonapiFetch w = (Inl e1, ?w1)" "tonapiFetch ?w1 = (Inl e2, ?w2)"
    "tonapiFetch ?w2 = (Inl e3, ?w3)" and r: "retryable e1" "retryable e2"
    by (simp_all add: prod_eq_iff)
  from retry_exhausted[OF f(1) r(1) f(2) r(2) f(3)]
  show "tonapiFetchWithRetry w = (Inl e3, ?w3)" .
next
  assume h: "query_criteria parse (db w) wallet c = None \<and>
    \<not> sync_throttled (getWalletSync (db w) wallet) (clock w) \<and>
    fst (tonapiFetchWithRetry w) = Inl err"
  then have f: "tonapiFetchWithRetry w = (Inl err, snd (tonapiFetchWithRetry w))"
    by (simp add: prod_eq_iff)
  from h matcher_first_fail[OF _ _ f]
  show "findTransferWithSync parse wallet c w = (Inl err, snd (tonapiFetchWithRetry w))" by blast
next
  assume h: "fst (admit ctx ''inv_check'' v) = Inr () \<and>
    trim (str_or_empty (p_invoice_id params)) = a \<and> a \<noteq> [] \<and>
    inv_invoices (db v) a = Some invoice \<and> iv_status invoice \<noteq> ''paid'' \<and>
    \<not> past_expiry (iv_expires_at invoice) (clock v) \<and>
    \<not> (iv_strict_sender invoice = Some 1 \<and> \<not> truthy_str (iv_expected_sender_wallet invoice)) \<and>
    toBigIntSafe (Some (JStr (iv_amount_nano invoice))) = Some amountNanoMin \<and>
    fst (findTransferWithSync (address_parse ctx) (Some (iv_recipient_wallet invoice))
           (check_criteria a invoice amountNanoMin (clock v)) (snd (admit ctx ''inv_check'' v))) = Inl err"
  let ?w1 = "snd (admit ctx ''inv_check'' v)"
  let ?f = "findTransferWithSync (address_parse ctx) (Some (iv_recipient_wallet invoice))
           (check_criteria a invoice amountNanoMin (clock v)) ?w1"
  from h have ad: "admit ctx ''inv_check'' v = (Inr (), ?w1)" and f: "?f = (Inl err, snd ?f)"
    by (simp_all add: prod_eq_iff)
  from h have rest: "trim (str_or_empty (p_invoice_id params)) = a" "a \<noteq> []"
    "inv_invoices (db v) a = Some invoice" "iv_status invoice \<noteq> ''paid''"
    "\<not> past_expiry (iv_expires_at invoice) (clock v)"
    "\<not> (iv_strict_sender invoice = Some 1 \<and> \<not> truthy_str (iv_expected_sender_wallet invoice))"
    "toBigIntSafe (Some (JStr (iv_amount_nano invoice))) = Some amountNanoMin"
    by simp_all
  note res = invCheck_matcher_fail[OF ad rest f]
  from res show "fst (invCheck params ctx v) = Failure (catch_msg err)" by simp
  from res show "inv_invoices (db (snd (invCheck params ctx v))) = inv_invoices (db v)" by simp
  from res show "inv_agents (db (snd (invCheck params ctx v))) = inv_agents (db v)" by simp
next
  assume h: "fst (admit ctx ''inv_confirm_verification'' v) = Inr () \<and>
    trim (str_or_empty (p_agent_id params)) = b \<and> b \<noteq> [] \<and>
    inv_agents (db v) b = Some agent \<and> ag_status agent \<noteq> ''verified'' \<and>
    \<not> past_expiry (ag_challenge_expires_at agent) (clock v) \<and>
    getAgentWalletAddress ctx = Inr addr \<and>
    toBigIntSafe (Some (JStr (case ag_challenge_amount_nano agent of None \<Rightarrow> ''0'' | Some s \<Rightarrow> s)))
      = Some amountNanoMin \<and>
    fst (findTransferWithSync (address_parse ctx) (normalizeAddress (address_parse ctx) (Some addr))
           (confirm_criteria agent amountNanoMin (clock v))
           (snd (admit ctx ''inv_confirm_verification'' v))) = Inl err"
  let ?w1 = "snd (admit ctx ''inv_confirm_verification'' v)"
  let ?f = "findTransferWithSync (address_parse ctx) (normalizeAddress (address_parse ctx) (Some addr))
           (confirm_criteria agent amountNanoMin (clock v)) ?w1"
  from h have ad: "admit ctx ''inv_confirm_verification'' v = (Inr (), ?w1)" and f: "?f = (Inl err, snd ?f)"
    by (simp_all add: prod_eq_iff)
  from h have rest: "trim (str_or_empty (p_agent_id params)) = b" "b \<noteq> []"
    "inv_agents (db v) b = Some agent" "ag_status agent \<noteq> ''verified''"
    "\<not> past_expiry (ag_challenge_expires_at agent) (clock v)"
    "getAgentWalletAddress ctx = Inr addr"
    "toBigIntSafe (Some (JStr (case ag_challenge_amount_nano agent of None \<Rightarrow> ''0'' | Some s \<Rightarrow> s)))
      = Some amountNanoMin"
    by simp_all
  note res = invConfirm_matcher_fail[OF ad rest f]
  from res show "fst (invConfirmVerification params ctx v) = Failure (catch_msg err)" by simp
  from res show "inv_invoices (db (snd (invConfirmVerification params ctx v))) = inv_invoices (db v)" by simp
  from res show "inv_agents (db (snd (invConfirmVerification params ctx v))) = inv_agents (db v)" by simp
next
  assume h: "u \<in> set (findTransferWithSync_requests parse wallet c w) \<and>
    fst (tonapiFetchWithRetry u) = Inl err"
  then have f: "tonapiFetchWithRetry u = (Inl err, snd (tonapiFetchWithRetry u))"
    by (simp add: prod_eq_iff)
  from h matcher_request_fails[OF _ f]
  show "findTransferWithSync parse wallet c w = (Inl err, snd (tonapiFetchWithRetry u))" by blast
next
  assume "fst (findTransferWithSync parse wallet c w) = Inl err"
  then have "findTransferWithSync parse wallet c w =
      (Inl err, snd (findTransferWithSync parse wallet c w))"
    by (simp add: prod_eq_iff)
  then show "\<exists>u \<in> set (findTransferWithSync_requests parse wallet c w).
           tonapiFetchWithRetry u = (Inl err, snd (findTransferWithSync parse wallet c w))"
    by (rule matcher_error)
next
  assume h: "fst (admit ctx ''inv_check'' v) = Inr () \<and>
    trim (str_or_empty (p_invoice_id params)) = a \<and> a \<noteq> [] \<and>
    inv_invoices (db v) a = Some invoice \<and> iv_status invoice \<noteq> ''paid'' \<and>
    \<not> past_expiry (iv_expires_at invoice) (clock v) \<and>
    \<not> (iv_strict_sender invoice = Some 1 \<and> \<not> truthy_str (iv_expected_sender_wallet invoice)) \<and>
    toBigIntSafe (Some (JStr (iv_amount_nano invoice))) = Some amountNanoMin \<and>
    status_of (fst (invCheck params ctx v)) = Some s"
  let ?w1 = "snd (admit ctx ''inv_check'' v)"
  let ?P = "address_parse ctx"
  let ?wl = "Some (iv_recipient_wallet invoice)"
  let ?c = "check_criteria a invoice amountNanoMin (clock v)"
  from h have ad: "admit ctx ''inv_check'' v = (Inr (), ?w1)" by (simp add: prod_eq_iff)
  from h have rest: "trim (str_or_empty (p_invoice_id params)) = a" "a \<noteq> []"
    "inv_invoices (db v) a = Some invoice" "iv_status invoice \<noteq> ''paid''"
    "\<not> past_expiry (iv_expires_at invoice) (clock v)"
    "\<not> (iv_strict_sender invoice = Some 1 \<and> \<not> truthy_str (iv_expected_sender_wallet invoice))"
    "toBigIntSafe (Some (JStr (iv_amount_nano invoice))) = Some amountNanoMin"
    by simp_all
  show "\<forall>u \<in> set (findTransferWithSync_requests ?P ?wl ?c ?w1).
           \<exists>data. fst (tonapiFetchWithRetry u) = Inr data"
  proof
    fix u assume mem: "u \<in> set (findTransferWithSync_requests ?P ?wl ?c ?w1)"
    show "\<exists>data. fst (tonapiFetchWithRetry u) = Inr data"
    proof (cases "fst (tonapiFetchWithRetry u)")
      case (Inl e)
      then have f: "tonapiFetchWithRetry u = (Inl e, snd (tonapiFetchWithRetry u))"
        by (simp add: prod_eq_iff)
      note m = matcher_request_fails[OF mem f]
      from invCheck_matcher_fail[OF ad rest m] have "status_of (fst (invCheck params ctx v)) = None"
        by (simp add: status_of_def)
      with h show ?thesis by simp
    next
      case (Inr data)
      then show ?thesis by blast
    qed
  qed
next
  assume h: "fst (admit ctx ''inv_confirm_verification'' v) = Inr () \<and>
    trim (str_or_empty (p_agent_id params)) = b \<and> b \<noteq> [] \<and>
    inv_agents (db v) b = Some agent \<and> ag_status agent \<noteq> ''verified'' \<and>
    \<not> past_expiry (ag_challenge_expires_at agent) (clock v) \<and>
    getAgentWalletAddress ctx = Inr addr \<and>
    toBigIntSafe (Some (JStr (case ag_challenge_amount_nano agent of None \<Rightarrow> ''0'' | Some s \<Rightarrow> s)))
      = Some amountNanoMin \<and>
    status_of (fst (invConfirmVerification params ctx v)) = Some s"
  let ?w1 = "snd (admit ctx ''inv_confirm_verification'' v)"
  let ?P = "address_parse ctx"
  let ?wl = "normalizeAddress (address_parse ctx) (Some addr)"
  let ?c = "confirm_criteria agent amountNanoMin (clock v)"
  from h have ad: "admit ctx ''inv_confirm_verification'' v = (Inr (), ?w1)" by (simp add: prod_eq_iff)
  from h have rest: "trim (str_or_empty (p_agent_id params)) = b" "b \<noteq> []"
    "inv_agents (db v) b = Some agent" "ag_status agent \<noteq> ''verified''"
    "\<not> past_expiry (ag_challenge_expires_at agent) (clock v)"
    "getAgentWalletAddress ctx = Inr addr"
    "toBigIntSafe (Some (JStr (case ag_challenge_amount_nano agent of None \<Rightarrow> ''0'' | Some s \<Rightarrow> s)))
      = Some amountNanoMin"
    by simp_all
  show "\<forall>u \<in> set (findTransferWithSync_requests ?P ?wl ?c ?w1).
           \<exists>data. fst (tonapiFetchWithRetry u) = Inr data"
  proof
    fix u assume mem: "u \<in> set (findTransferWithSync_requests ?P ?wl ?c ?w1)"
    show "\<exists>data. fst (tonapiFetchWithRetry u) = Inr data"
    proof (cases "fst (tonapiFetchWithRetry u)")
      case (Inl e)
      then have f: "tonapiFetchWithRetry u = (Inl e, snd (tonapiFetchWithRetry u))"
        by (simp add: prod_eq_iff)
      note m = matcher_request_fails[OF mem f]
      from invConfirm_matcher_fail[OF ad rest m]
      have "status_of (fst (invConfirmVerification params ctx v)) = None"
        by (simp add: status_of_def)
      with h show ?thesis by simp
    next
      case (Inr data)
      then show ?thesis by blast
    qed
  qed
qed

text \<open>
  The outage of the counterexample seen step by step for \<open>inv_check\<close>; a challenge
  confirmation during an outage that ends with status 429; a check whose forward sync
  succeeds and whose backward sync fails; a check whose second forward page fails; and a
  check and a confirmation with a reachable upstream, which return \<open>not_found\<close> and
  \<open>pending\<close>.
\<close>

theorem source_failure_surfaces_as_error_witness:
  "fst (tonapiFetchWithRetry (snd (admit demo_ctx ''inv_check'' outage_world))) =
     Inl (JsError (Some 500) ''TONAPI error: 500 down'') \<and>
   net (snd (tonapiFetchWithRetry (snd (admit demo_ctx ''inv_check'' outage_world)))) = [] \<and>
   fst (invCheck (i_params (check_at ''inv_2'' 0)) demo_ctx outage_world) =
     Failure ''TONAPI error: 500 down'' \<and>
   map_option iv_status
     (inv_invoices (db (snd (invCheck (i_params (check_at ''inv_2'' 0)) demo_ctx outage_world))) ''inv_2'') =
     Some ''pending'' \<and>
   fst (invConfirmVerification (i_params (confirm_at ''dave'' 0)) demo_ctx challenge_outage_world) =
     Failure ''TONAPI error: 429 slow down'' \<and>
   map_option ag_status
     (inv_agents (db (snd (invConfirmVerification (i_params (confirm_at ''dave'' 0)) demo_ctx
                            challenge_outage_world))) ''dave'') = Some ''pending'' \<and>
   length (check_requests backward_outage_world) = 2 \<and>
   fst (tonapiFetchWithRetry (check_requests backward_outage_world ! 1)) =
     Inl (JsError (Some 500) ''TONAPI error: 500 down'') \<and>
   fst (invCheck (i_params (check_at ''inv_2'' 0)) demo_ctx backward_outage_world) =
     Failure ''TONAPI error: 500 down'' \<and>
   length (check_requests forward_outage_world) = 2 \<and>
   fst (tonapiFetchWithRetry (check_requests forward_outage_world ! 1)) =
     Inl (JsError (Some 401) ''TONAPI error: 401 unauthorized'') \<and>
   fst (invCheck (i_params (check_at ''inv_2'' 0)) demo_ctx forward_outage_world) =
     Failure ''TONAPI error: 401 unauthorized'' \<and>
   status_of (fst (invCheck (i_params (check_at ''inv_2'' 0)) demo_ctx quiet_world)) = Some ''not_found'' \<and>
   length (check_requests quiet_world) = 1 \<and>
   (\<exists>data. fst (tonapiFetchWithRetry (check_requests quiet_world ! 0)) = Inr data) \<and>
   (\<exists>u \<in> set (check_requests outage_world).
      fst (tonapiFetchWithRetry u) = Inl (JsError (Some 500) ''TONAPI error: 500 down'')) \<and>
   status_of (fst (invConfirmVerification (i_params (confirm_at ''dave'' 0)) demo_ctx
                     challenge_quiet_world)) = Some ''pending'' \<and>
   length (confirm_requests challenge_quiet_world) = 1 \<and>
   (\<exists>data. fst (tonapiFetchWithRetry (confirm_requests challenge_quiet_world ! 0)) = Inr data)"
proof -
  let ?w1 = "snd (admit demo_ctx ''inv_check'' outage_world)"
  let ?e = "JsError (Some 500) ''TONAPI error: 500 down''"
  let ?p = "i_params (check_at ''inv_2'' 0)"
  have h1: "fst (tonapiFetch ?w1) = Inl ?e \<and> retryable ?e \<and>
    fst (tonapiFetch (snd (tonapiFetch ?w1))) = Inl ?e \<and> retryable ?e \<and>
    fst (tonapiFetch (snd (tonapiFetch (snd (tonapiFetch ?w1))))) = Inl ?e"
    by code_simp
  note t = source_failure_surfaces_as_error[where w = ?w1 and ?e1.0 = ?e and ?e2.0 = ?e and ?e3.0 = ?e and parse = no_parser
      and wallet = "Some ''0:w''"
      and c = "check_criteria ''inv_2'' pending_invoice 1500000000 (clock outage_world)" and err = ?e
      and ctx = demo_ctx and v = outage_world and params = ?p and a = "''inv_2''"
      and invoice = pending_invoice and amountNanoMin = 1500000000]
  from t h1 have r: "tonapiFetchWithRetry ?w1 =
      (Inl ?e, snd (tonapiFetch (snd (tonapiFetch (snd (tonapiFetch ?w1))))))" by blast
  have n: "net (snd (tonapiFetch (snd (tonapiFetch (snd (tonapiFetch ?w1)))))) = []" by code_simp
  have h2: "query_criteria no_parser (db ?w1) (Some ''0:w'')
       (check_criteria ''inv_2'' pending_invoice 1500000000 (clock outage_world)) = None \<and>
    \<not> sync_throttled (getWalletSync (db ?w1) (Some ''0:w'')) (clock ?w1)"
    by code_simp
  from t h2 r have m: "findTransferWithSync no_parser (Some ''0:w'')
      (check_criteria ''inv_2'' pending_invoice 1500000000 (clock outage_world)) ?w1 =
      (Inl ?e, snd (tonapiFetchWithRetry ?w1))" by simp
  have h3: "fst (admit demo_ctx ''inv_check'' outage_world) = Inr () \<and>
    trim (str_or_empty (p_invoice_id ?p)) = ''inv_2'' \<and> ''inv_2'' \<noteq> [] \<and>
    inv_invoices (db outage_world) ''inv_2'' = Some pending_invoice \<and>
    iv_status pending_invoice \<noteq> ''paid'' \<and>
    \<not> past_expiry (iv_expires_at pending_invoice) (clock outage_world) \<and>
    \<not> (iv_strict_sender pending_invoice = Some 1 \<and>
       \<not> truthy_str (iv_expected_sender_wallet pending_invoice)) \<and>
    toBigIntSafe (Some (JStr (iv_amount_nano pending_invoice))) = Some 1500000000 \<and>
    iv_recipient_wallet pending_invoice = ''0:w''"
    by code_simp
  have ap: "address_parse demo_ctx = no_parser" by (simp add: demo_ctx_def)
  from t h3 ap m have c: "fst (invCheck ?p demo_ctx outage_world) = Failure (catch_msg ?e)"
    "inv_invoices (db (snd (invCheck ?p demo_ctx outage_world))) = inv_invoices (db outage_world)"
    by simp_all
  have cm: "catch_msg ?e = ''TONAPI error: 500 down''" by code_simp
  from h3 have s: "map_option iv_status (inv_invoices (db outage_world) ''inv_2'') = Some ''pending''"
    by (simp add: pending_invoice_def)
  let ?v = challenge_outage_world
  let ?q = "i_params (confirm_at ''dave'' 0)"
  let ?e3 = "JsError (Some 429) ''TONAPI error: 429 slow down''"
  let ?c = "confirm_criteria pending_agent 10000000 (clock ?v)"
  have h4: "fst (admit demo_ctx ''inv_confirm_verification'' ?v) = Inr () \<and>
    trim (str_or_empty (p_agent_id ?q)) = ''dave'' \<and> ''dave'' \<noteq> [] \<and>
    inv_agents (db ?v) ''dave'' = Some pending_agent \<and> ag_status pending_agent \<noteq> ''verified'' \<and>
    \<not> past_expiry (ag_challenge_expires_at pending_agent) (clock ?v) \<and>
    getAgentWalletAddress demo_ctx = Inr ''0:W'' \<and>
    toBigIntSafe (Some (JStr (case ag_challenge_amount_nano pending_agent of None \<Rightarrow> ''0'' | Some s \<Rightarrow> s)))
      = Some 10000000 \<and>
    fst (findTransferWithSync no_parser (normalizeAddress no_parser (Some ''0:W'')) ?c
           (snd (admit demo_ctx ''inv_confirm_verification'' ?v))) = Inl ?e3"
    by code_simp
  from source_failure_surfaces_as_error[where ctx = demo_ctx and v = ?v and params = ?q and b = "''dave''"
      and agent = pending_agent and addr = "''0:W''" and amountNanoMin = 10000000 and err = ?e3] h4 ap
  have c2: "fst (invConfirmVerification ?q demo_ctx ?v) = Failure (catch_msg ?e3)"
    "inv_agents (db (snd (invConfirmVerification ?q demo_ctx ?v))) = inv_agents (db ?v)"
    by simp_all
  have cm2: "catch_msg ?e3 = ''TONAPI error: 429 slow down''" by code_simp
  from h4 have s2: "map_option ag_status (inv_agents (db ?v) ''dave'') = Some ''pending''"
    by (simp add: pending_agent_def)
  have ck: "\<And>x. check_requests x =
      findTransferWithSync_requests no_parser (Some ''0:w'')
        (check_criteria ''inv_2'' pending_invoice 1500000000 (clock x))
        (snd (admit demo_ctx ''inv_check'' x))"
    by (simp add: check_requests_def)
  have pre: "\<And>x. inv_invoices (db x) ''inv_2'' = Some pending_invoice \<Longrightarrow>
      fst (admit demo_ctx ''inv_check'' x) = Inr () \<Longrightarrow>
      fst (admit demo_ctx ''inv_check'' x) = Inr () \<and>
      trim (str_or_empty (p_invoice_id ?p)) = ''inv_2'' \<and> ''inv_2'' \<noteq> [] \<and>
      inv_invoices (db x) ''inv_2'' = Some pending_invoice \<and>
      iv_status pending_invoice \<noteq> ''paid'' \<and>
      \<not> past_expiry (iv_expires_at pending_invoice) (clock x) \<and>
      \<not> (iv_strict_sender pending_invoice = Some 1 \<and>
         \<not> truthy_str (iv_expected_sender_wallet pending_invoice)) \<and>
      toBigIntSafe (Some (JStr (iv_amount_nano pending_invoice))) = Some 1500000000"
    using h3 by (simp add: pending_invoice_def past_expiry_def parseIso_def)
  let ?B = backward_outage_world
  let ?e5 = "JsError (Some 500) ''TONAPI error: 500 down''"
  have bl: "length (check_requests ?B) = 2" by code_simp
  have bf: "fst (tonapiFetchWithRetry (check_requests ?B ! 1)) = Inl ?e5" by code_simp
  from bl have bm: "check_requests ?B ! 1 \<in> set (check_requests ?B)" by simp
  have bp: "inv_invoices (db ?B) ''inv_2'' = Some pending_invoice"
    "fst (admit demo_ctx ''inv_check'' ?B) = Inr ()" by code_simp+
  note tb = source_failure_surfaces_as_error[where u = "check_requests ?B ! 1" and parse = no_parser
      and wallet = "Some ''0:w''"
      and c = "check_criteria ''inv_2'' pending_invoice 1500000000 (clock ?B)"
      and w = "snd (admit demo_ctx ''inv_check'' ?B)" and err = ?e5
      and ctx = demo_ctx and v = ?B and params = ?p and a = "''inv_2''"
      and invoice = pending_invoice and amountNanoMin = 1500000000]
  from tb bm bf have bmf: "fst (findTransferWithSync no_parser (Some ''0:w'')
      (check_criteria ''inv_2'' pending_invoice 1500000000 (clock ?B))
      (snd (admit demo_ctx ''inv_check'' ?B))) = Inl ?e5"
    by (simp add: ck)
  from tb pre[OF bp] bmf ap h3 have bc: "fst (invCheck ?p demo_ctx ?B) = Failure (catch_msg ?e5)"
    by simp
  let ?F = forward_outage_world
  let ?e4 = "JsError (Some 401) ''TONAPI error: 401 unauthorized''"
  have fl: "length (check_requests ?F) = 2" by code_simp
  have ff: "fst (tonapiFetchWithRetry (check_requests ?F ! 1)) = Inl ?e4" by code_simp
  from fl have fm: "check_requests ?F ! 1 \<in> set (check_requests ?F)" by simp
  have fp: "inv_invoices (db ?F) ''inv_2'' = Some pending_invoice"
    "fst (admit demo_ctx ''inv_check'' ?F) = Inr ()" by code_simp+
  note tf = source_failure_surfaces_as_error[where u = "check_requests ?F ! 1" and parse = no_parser
      and wallet = "Some ''0:w''"
      and c = "check_criteria ''inv_2'' pending_invoice 1500000000 (clock ?F)"
      and w = "snd (admit demo_ctx ''inv_check'' ?F)" and err = ?e4
      and ctx = demo_ctx and v = ?F and params = ?p and a = "''inv_2''"
      and invoice = pending_invoice and amountNanoMin = 1500000000]
  from tf fm ff have fmf: "fst (findTransferWithSync no_parser (Some ''0:w'')
      (check_criteria ''inv_2'' pending_invoice 1500000000 (clock ?F))
      (snd (admit demo_ctx ''inv_check'' ?F))) = Inl ?e4"
    by (simp add: ck)
  from tf pre[OF fp] fmf ap h3 have fc: "fst (invCheck ?p demo_ctx ?F) = Failure (catch_msg ?e4)"
    by simp
  have cm4: "catch_msg ?e4 = ''TONAPI error: 401 unauthorized''" by code_simp
  let ?Q = quiet_world
  have ql: "length (check_requests ?Q) = 1" by code_simp
  have qs: "status_of (fst (invCheck ?p demo_ctx ?Q)) = Some ''not_found''" by code_simp
  from ql have qm: "check_requests ?Q ! 0 \<in> set (check_requests ?Q)" by simp
  have qp: "inv_invoices (db ?Q) ''inv_2'' = Some pending_invoice"
    "fst (admit demo_ctx ''inv_check'' ?Q) = Inr ()" by code_simp+
  note tq = source_failure_surfaces_as_error[where ctx = demo_ctx and v = ?Q and params = ?p and a = "''inv_2''"
      and invoice = pending_invoice and amountNanoMin = 1500000000 and s = "''not_found''"]
  from tq pre[OF qp] qs ap h3
  have "\<forall>u \<in> set (check_requests ?Q). \<exists>data. fst (tonapiFetchWithRetry u) = Inr data"
    by (simp add: ck)
  with qm have qr: "\<exists>data. fst (tonapiFetchWithRetry (check_requests ?Q ! 0)) = Inr data" by blast
  from m have "fst (findTransferWithSync no_parser (Some ''0:w'')
      (check_criteria ''inv_2'' pending_invoice 1500000000 (clock outage_world)) ?w1) = Inl ?e"
    by simp
  with t have "\<exists>u \<in> set (findTransferWithSync_requests no_parser (Some ''0:w'')
      (check_criteria ''inv_2'' pending_invoice 1500000000 (clock outage_world)) ?w1).
      tonapiFetchWithRetry u = (Inl ?e, snd (findTransferWithSync no_parser (Some ''0:w'')
      (check_criteria ''inv_2'' pending_invoice 1500000000 (clock outage_world)) ?w1))"
    by blast
  then obtain u0 where u0: "u0 \<in> set (findTransferWithSync_requests no_parser (Some ''0:w'')
      (check_criteria ''inv_2'' pending_invoice 1500000000 (clock outage_world)) ?w1)"
    "tonapiFetchWithRetry u0 = (Inl ?e, snd (findTransferWithSync no_parser (Some ''0:w'')
      (check_criteria ''inv_2'' pending_invoice 1500000000 (clock outage_world)) ?w1))"
    by blast
  from u0(2) have "fst (tonapiFetchWithRetry u0) = Inl ?e" by simp
  with u0(1) have oe: "\<exists>u \<in> set (check_requests outage_world). fst (tonapiFetchWithRetry u) = Inl ?e"
    unfolding check_requests_def by blast
  let ?D = challenge_quiet_world
  have dl: "length (confirm_requests ?D) = 1" by code_simp
  have ds: "status_of (fst (invConfirmVerification ?q demo_ctx ?D)) = Some ''pending''" by code_simp
  from dl have dm: "confirm_requests ?D ! 0 \<in> set (confirm_requests ?D)" by simp
  have dp: "fst (admit demo_ctx ''inv_confirm_verification'' ?D) = Inr () \<and>
    trim (str_or_empty (p_agent_id ?q)) = ''dave'' \<and> ''dave'' \<noteq> [] \<and>
    inv_agents (db ?D) ''dave'' = Some pending_agent \<and> ag_status pending_agent \<noteq> ''verified'' \<and>
    \<not> past_expiry (ag_challenge_expires_at pending_agent) (clock ?D) \<and>
    getAgentWalletAddress demo_ctx = Inr ''0:W'' \<and>
    toBigIntSafe (Some (JStr (case ag_challenge_amount_nano pending_agent of None \<Rightarrow> ''0'' | Some s \<Rightarrow> s)))
      = Some 10000000"
    by code_simp
  note td = source_failure_surfaces_as_error[where ctx = demo_ctx and v = ?D and params = ?q
      and b = "''dave''" and agent = pending_agent and addr = "''0:W''" and amountNanoMin = 10000000
      and s = "''pending''"]
  from td dp ds ap
  have "\<forall>u \<in> set (confirm_requests ?D). \<exists>data. fst (tonapiFetchWithRetry u) = Inr data"
    by (simp add: confirm_requests_def)
  with dm have dr: "\<exists>data. fst (tonapiFetchWithRetry (confirm_requests ?D ! 0)) = Inr data" by blast
  from r n c cm s c2 cm2 s2 bl bf bc fl ff fc cm4 ql qs qr oe ds dl dr show ?thesis by simp
qed


section \<open>The watermark after a sync\<close>

text \<open>
  C4. The claim is that a sync only widens the stored watermark of a wallet: \<open>max_lt\<close>
  and \<open>max_ts\<close> never decrease, \<open>min_lt\<close> and \<open>min_ts\<close> never increase. On the code
  \<open>updateWalletSync\<close> replaces each stored bound by the statistic of the run whenever
  that statistic is present. With the stored watermark \<open>[50, 100]\<close>, a backward sync
  that receives one older event (logical time 40) returns normally and lowers \<open>max_lt\<close>
  from 100 to 40 and \<open>max_ts\<close> with it; a forward sync that receives one newer event
  (logical time 120) raises \<open>min_lt\<close> from 50 to 120 and \<open>min_ts\<close> with it.
\<close>

theorem watermark_shrinks_after_sync:
  "inv_wallet_sync (db older_world) ''0:w'' =
     Some \<lparr>ws_last_sync_at = Some 1700000000000, ws_max_lt = Some ''100'', ws_min_lt = Some ''50'',
           ws_max_ts = Some 1700000200000, ws_min_ts = Some 1700000100000\<rparr> \<and>
   fst (syncOlderEvents no_parser (Some ''0:w'') (Some 1700000000000) older_world) = Inr 1 \<and>
   inv_wallet_sync
     (db (snd (syncOlderEvents no_parser (Some ''0:w'') (Some 1700000000000) older_world))) ''0:w'' =
     Some \<lparr>ws_last_sync_at = Some 1700000300200, ws_max_lt = Some ''40'', ws_min_lt = Some ''40'',
           ws_max_ts = Some 1700000050000, ws_min_ts = Some 1700000050000\<rparr> \<and>
   inv_wallet_sync (db newer_world) ''0:w'' = inv_wallet_sync (db older_world) ''0:w'' \<and>
   fst (syncNewEvents no_parser (Some ''0:w'') newer_world) = Inr 1 \<and>
   inv_wallet_sync (db (snd (syncNewEvents no_parser (Some ''0:w'') newer_world))) ''0:w'' =
     Some \<lparr>ws_last_sync_at = Some 1700000300200, ws_max_lt = Some ''120'', ws_min_lt = Some ''120'',
           ws_max_ts = Some 1700000250000, ws_min_ts = Some 1700000250000\<rparr>"
  by code_simp

end
